theory Spec2Isabelle
  imports Complex_Main "HOL-Library.Log_Nat"
begin

section \<open>Data model\<close>

text \<open>
  The records follow the JavaScript objects of \<^verbatim>\<open>LevelManager.js\<close> and of the
  \<^verbatim>\<open>AdventureManager\<close> class. JavaScript numbers that hold counters, levels, gold and
  timestamps are modelled as unbounded integers; the draws of \<^verbatim>\<open>Math.random()\<close> and
  the drop chances are reals. A property that may be \<^verbatim>\<open>null\<close> or \<^verbatim>\<open>undefined\<close> is
  an \<open>option\<close>.
\<close>

record stats =
  health :: int
  maxHealth :: int
  attack :: int
  defense :: int
  speed :: int

record invItem =
  item_id :: string
  quantity :: int

record inventory =
  gold :: int
  items :: "invItem list"

record equipment =
  weapon :: "string option"
  armor :: "string option"
  accessory :: "string option"

record cooldowns =
  cd_hunt :: int
  cd_train :: int
  cd_daily :: int
  cd_quest :: int

text \<open>The adventure profile, as \<^verbatim>\<open>_createDefaultAdventureData\<close> lays it out.\<close>

record adventureData =
  name :: string
  level :: int
  xp :: int
  xpNeeded :: int
  stats :: stats
  inventory :: inventory
  equipment :: equipment
  location :: string
  questsCompleted :: "string list"
  monstersDefeated :: int
  cooldowns :: cooldowns
  joinedAt :: int
  lastPlayed :: int

text \<open>The row that \<^verbatim>\<open>LevelManager.getUserData\<close> creates; \<open>adventure\<close> is absent at first.\<close>

record userData =
  jid :: string
  pushName :: string
  u_xp :: int
  u_level :: int
  messages :: int
  lastActive :: int
  u_joinedAt :: int
  groups :: "string list"
  adventure :: "adventureData option"

text \<open>
  What is stored under a user's key. \<^verbatim>\<open>db.set(userId, x)\<close> stores whatever object it is
  handed: \<^verbatim>\<open>LevelManager\<close> and \<^verbatim>\<open>updateAdventureData\<close> hand it a full user row
  (\<open>UserRow\<close>), while \<^verbatim>\<open>updateUserData\<close> is also called with the adventure object alone
  (\<open>ProfileRow\<close>). An adventure object stored as the row can later receive an
  \<^verbatim>\<open>adventure\<close> property (second component) and a \<^verbatim>\<open>pushName\<close> property (third
  component); it has no \<^verbatim>\<open>messages\<close>, \<^verbatim>\<open>lastActive\<close> or \<^verbatim>\<open>groups\<close>.
\<close>

datatype row =
  UserRow userData
| ProfileRow adventureData "adventureData option" "string option"

text \<open>
  Modelled from the spec: \<^verbatim>\<open>DatabaseManager\<close>, the class behind \<^verbatim>\<open>levelManager.db\<close>, is
  not among the sources. The spec gives its interface as \<^verbatim>\<open>get(key) -> record|undefined\<close>,
  \<^verbatim>\<open>set(key, record) -> void\<close> and a flush that can fail with an I/O error, and says that an
  operation works on its own in-memory copy of the record until it writes it back. So the
  store is a finite map from the cleaned user id to a row, \<open>get\<close> is application,
  \<open>set\<close> is map update, and whether \<^verbatim>\<open>save()\<close> succeeds on a given store content is the
  parameter \<open>flushOk\<close> of every operation that saves. The sources never copy a record
  themselves, they change the object that \<open>get\<close> returned; where a theorem below says
  that the store is unchanged, it says that nothing was handed to \<open>set\<close>.
\<close>

type_synonym db = "string \<rightharpoonup> row"

datatype error = ReferenceError | TypeError | IOError

section \<open>Leveling engine (LevelManager.js)\<close>

definition messageXpMin :: int where "messageXpMin = 10"
definition messageXpMax :: int where "messageXpMax = 25"
definition xpCooldown :: int where "xpCooldown = 5000"
definition maxLevel :: int where "maxLevel = 248"

text \<open>\<^verbatim>\<open>userId.split('@')[0]\<close>: the part before the first \<^verbatim>\<open>@\<close>.\<close>

definition cleanJid :: "string \<Rightarrow> string" where
  "cleanJid s = takeWhile (\<lambda>c. c \<noteq> CHR ''@'') s"

text \<open>
  \<^verbatim>\<open>getXpNeeded(level) = Math.floor(100 * Math.pow(level, 2))\<close>, on integer levels.
\<close>

definition getXpNeeded :: "int \<Rightarrow> int" where
  "getXpNeeded lvl = 100 * lvl ^ 2"

record progress =
  currentXp :: int
  neededXp :: int
  percentage :: int
  isMaxLevel :: bool

text \<open>
  Double precision. A JavaScript division or multiplication returns the exact result
  rounded to the nearest number with a 53-bit significand, ties to the even significand.
  \<open>roundEven\<close> rounds a real to the nearest integer, ties to even; \<open>ilog2 x\<close> is the
  binary exponent of a positive \<open>x\<close>, the \<open>k\<close> with \<open>2\<^sup>k \<le> x < 2\<^sup>k\<^sup>+\<^sup>1\<close>; \<open>rd\<close> is
  the rounding. Overflow and subnormal numbers are left out: the values that occur below
  are far inside the normal range.
\<close>

definition roundEven :: "real \<Rightarrow> int" where
  "roundEven x =
     (let f = \<lfloor>x\<rfloor>; d = x - of_int f
      in if d < 1 / 2 then f else if 1 / 2 < d then f + 1 else if even f then f else f + 1)"

definition ilog2 :: "real \<Rightarrow> int" where
  "ilog2 x = (if 1 \<le> x then bitlen \<lfloor>x\<rfloor> - 1 else - bitlen (\<lceil>1 / x\<rceil> - 1))"

definition rd :: "real \<Rightarrow> real" where
  "rd x =
     (if x = 0 then 0
      else let e = ilog2 \<bar>x\<bar> - 52
           in sgn x * of_int (roundEven (\<bar>x\<bar> / 2 powi e)) * 2 powi e)"

text \<open>
  \<^verbatim>\<open>Math.min(100, Math.max(0, Math.floor((currentXp / neededXp) * 100)))\<close>: the
  quotient is rounded, then the product. The operands are integers below \<open>2\<^sup>5\<^sup>3\<close>, which
  doubles hold exactly.
\<close>

definition percentageOf :: "int \<Rightarrow> int \<Rightarrow> int" where
  "percentageOf cur needed =
     min 100 (max 0 \<lfloor>rd (rd (of_int cur / of_int needed) * 100)\<rfloor>)"

text \<open>
  \<^verbatim>\<open>getProgress(level, xp)\<close>. For integer levels \<open>neededXp = 200 * level - 100\<close> is
  never zero.
\<close>

definition getProgress :: "int \<Rightarrow> int \<Rightarrow> progress" where
  "getProgress lvl x =
     (let currentLevelXp = getXpNeeded (lvl - 1);
          nextLevelXp = getXpNeeded lvl;
          needed = nextLevelXp - currentLevelXp;
          cur = x - currentLevelXp
      in \<lparr> currentXp = cur,
           neededXp = needed,
           percentage = percentageOf cur needed,
           isMaxLevel = (lvl \<ge> maxLevel) \<rparr>)"

text \<open>Integer square root, by the recurrence on the argument.\<close>

fun isqrt :: "nat \<Rightarrow> nat" where
  "isqrt 0 = 0"
| "isqrt (Suc n) = (let r = isqrt n in if (r + 1) * (r + 1) \<le> Suc n then r + 1 else r)"

text \<open>
  \<^verbatim>\<open>Math.min(Math.floor(1 + Math.sqrt(xp / 100)), this.maxLevel)\<close>. For a negative
  \<^verbatim>\<open>xp\<close> the square root is \<^verbatim>\<open>NaN\<close> and so is the result: \<open>None\<close>.
\<close>

definition calcLevel :: "int \<Rightarrow> int option" where
  "calcLevel x =
     (if x < 0 then None
      else Some (min (1 + int (isqrt (nat (x div 100)))) maxLevel))"

text \<open>
  \<^verbatim>\<open>getUserData(userId, pushName = null)\<close> of \<^verbatim>\<open>LevelManager\<close>: the stored row, or a
  fresh one that is stored at once; a changed, truthy push name is written back.
\<close>

definition truthyStr :: "string option \<Rightarrow> bool" where
  "truthyStr s = (case s of None \<Rightarrow> False | Some t \<Rightarrow> t \<noteq> [])"

definition lm_getUserData :: "db \<Rightarrow> int \<Rightarrow> string \<Rightarrow> string option \<Rightarrow> row \<times> db" where
  "lm_getUserData d now userId pn =
     (let cleanUserId = cleanJid userId in
      case d cleanUserId of
        None \<Rightarrow>
          (let u = UserRow \<lparr> jid = userId,
                             pushName = (if truthyStr pn then the pn else cleanUserId),
                             u_xp = 0, u_level = 1, messages = 0,
                             lastActive = now, u_joinedAt = now,
                             groups = [], adventure = None \<rparr>
           in (u, d(cleanUserId \<mapsto> u)))
      | Some (UserRow u) \<Rightarrow>
          (if truthyStr pn \<and> pushName u \<noteq> the pn
           then (let u' = UserRow (u\<lparr>pushName := the pn\<rparr>) in (u', d(cleanUserId \<mapsto> u')))
           else (UserRow u, d))
      | Some (ProfileRow p a q) \<Rightarrow>
          (if truthyStr pn \<and> q \<noteq> pn
           then (let r' = ProfileRow p a pn in (r', d(cleanUserId \<mapsto> r')))
           else (ProfileRow p a q, d)))"

record levelResult =
  r_userId :: string
  r_pushName :: "string option"
  leveledUp :: bool
  oldLevel :: int
  newLevel :: "int option"
  xpGained :: int
  r_currentXp :: int
  totalMessages :: "int option"

text \<open>
  The state of the leveling engine: the shared store and the in-memory cooldown map.
\<close>

record lmState =
  store :: db
  xpCooldowns :: "string \<rightharpoonup> int"

text \<open>
  \<^verbatim>\<open>addXP(userId, groupId, amount, bypassCooldown, pushName)\<close>. \<open>now\<close> is
  \<^verbatim>\<open>Date.now()\<close>, \<open>rnd\<close> the draw of \<^verbatim>\<open>Math.random()\<close>. \<open>Inr None\<close> is the
  \<^verbatim>\<open>null\<close> returned on cooldown. The method has no \<^verbatim>\<open>try\<close>: a failing
  \<^verbatim>\<open>saveData()\<close> after a level-up, or \<^verbatim>\<open>groups.includes\<close> on a row without
  \<^verbatim>\<open>groups\<close>, leaves it as an exception (\<open>Inl\<close>), after the writes made so far.
  On a \<open>ProfileRow\<close> the properties \<^verbatim>\<open>messages\<close> and \<^verbatim>\<open>lastActive\<close> are not kept:
  \<^verbatim>\<open>undefined + 1\<close> is \<^verbatim>\<open>NaN\<close> for good, reported as \<open>totalMessages = None\<close>.
\<close>

definition addXP ::
  "lmState \<Rightarrow> int \<Rightarrow> real \<Rightarrow> (db \<Rightarrow> bool) \<Rightarrow> string \<Rightarrow> string option \<Rightarrow> int \<Rightarrow> bool \<Rightarrow> string option
     \<Rightarrow> lmState \<times> (error + levelResult option)" where
  "addXP s now rnd flushOk userId groupId amount0 bypassCooldown pn =
     (let cleanUserId = cleanJid userId;
          draw = (\<not> bypassCooldown \<and> amount0 = 0);
          cooldownTime = (case xpCooldowns s cleanUserId of None \<Rightarrow> 0 | Some t \<Rightarrow> t)
      in if draw \<and> now < cooldownTime then (s, Inr None)
         else
           (let cds = (if draw then (xpCooldowns s)(cleanUserId \<mapsto> now + xpCooldown)
                       else xpCooldowns s);
                amount = (if draw
                          then \<lfloor>rnd * of_int (messageXpMax - messageXpMin + 1)\<rfloor> + messageXpMin
                          else amount0);
                (r, d1) = lm_getUserData (store s) now userId pn
            in case r of
                 UserRow u \<Rightarrow>
                   (let old = u_level u;
                        x = u_xp u + amount;
                        gs = (if truthyStr groupId \<and> the groupId \<notin> set (groups u)
                              then groups u @ [the groupId] else groups u);
                        new = calcLevel x;
                        up = (case new of None \<Rightarrow> False | Some n \<Rightarrow> n > old);
                        u' = u\<lparr> u_xp := x, messages := messages u + 1, lastActive := now,
                                groups := gs, u_level := (if up then the new else old) \<rparr>;
                        d2 = d1(cleanUserId \<mapsto> UserRow u');
                        s' = \<lparr> store = d2, xpCooldowns = cds \<rparr>
                    in if up \<and> \<not> flushOk d2 then (s', Inl IOError)
                       else (s', Inr (Some \<lparr> r_userId = cleanUserId, r_pushName = Some (pushName u'),
                                              leveledUp = up, oldLevel = old, newLevel = new,
                                              xpGained = amount, r_currentXp = x,
                                              totalMessages = Some (messages u') \<rparr>)))
               | ProfileRow p a q \<Rightarrow>
                   (if truthyStr groupId
                    then (\<lparr> store = d1, xpCooldowns = cds \<rparr>, Inl TypeError)
                    else
                      (let old = level p;
                           x = xp p + amount;
                           new = calcLevel x;
                           up = (case new of None \<Rightarrow> False | Some n \<Rightarrow> n > old);
                           p' = p\<lparr> xp := x, level := (if up then the new else old) \<rparr>;
                           d2 = d1(cleanUserId \<mapsto> ProfileRow p' a q);
                           s' = \<lparr> store = d2, xpCooldowns = cds \<rparr>
                       in if up \<and> \<not> flushOk d2 then (s', Inl IOError)
                          else (s', Inr (Some \<lparr> r_userId = cleanUserId, r_pushName = q,
                                                 leveledUp = up, oldLevel = old, newLevel = new,
                                                 xpGained = amount, r_currentXp = x,
                                                 totalMessages = None \<rparr>))))))"

section \<open>Adventure engine (AdventureManager)\<close>

subsection \<open>XP and level-ups\<close>

text \<open>
  \<^verbatim>\<open>Math.floor(100 * Math.pow(1.2, level - 1))\<close>. \<^verbatim>\<open>Math.pow\<close> is an approximation
  that the language leaves to the engine, so it is not modelled bit by bit: the model takes
  the power exactly, \<open>1.2 ^ k = 6 ^ k / 5 ^ k\<close>. The double-precision computation has
  the same floor for the exponents 0 to 153, that is for the levels 1 to 154; from level
  155 on the source's value falls below the exact floor (at level 155 it is
  156283054700875 and the exact floor 156283054700876). What is stated about level-ups
  below is stated for levels up to 154.
\<close>

definition xpNeededFor :: "int \<Rightarrow> int" where
  "xpNeededFor lvl =
     (if 1 \<le> lvl then (100 * 6 ^ nat (lvl - 1)) div 5 ^ nat (lvl - 1)
      else (100 * 5 ^ nat (1 - lvl)) div 6 ^ nat (1 - lvl))"

text \<open>One pass through the body of the \<^verbatim>\<open>while\<close> loop of \<^verbatim>\<open>_addXP\<close>.\<close>

definition levelUpOnce :: "adventureData \<Rightarrow> adventureData" where
  "levelUpOnce u =
     (let u1 = u\<lparr> xp := xp u - xpNeeded u \<rparr>;
          u2 = u1\<lparr> level := level u1 + 1 \<rparr>;
          s1 = (stats u2)\<lparr> maxHealth := maxHealth (stats u2) + 10 \<rparr>;
          s2 = s1\<lparr> health := maxHealth s1 \<rparr>;
          s3 = s2\<lparr> attack := attack s2 + 2 \<rparr>;
          s4 = s3\<lparr> defense := defense s3 + 1 \<rparr>;
          s5 = s4\<lparr> speed := speed s4 + 1 \<rparr>;
          u3 = u2\<lparr> stats := s5 \<rparr>
      in u3\<lparr> xpNeeded := xpNeededFor (level u3) \<rparr>)"

lemma xpNeededFor_nonneg: "0 \<le> xpNeededFor l"
  unfolding xpNeededFor_def by (simp add: pos_imp_zdiv_nonneg_iff)

lemma xpNeededFor_ge_100: "1 \<le> l \<Longrightarrow> 100 \<le> xpNeededFor l"
proof -
  assume l: "1 \<le> l"
  let ?n = "nat (l - 1)"
  have "(5::int) ^ ?n \<le> 6 ^ ?n" by (rule power_mono) simp_all
  then have "100 * (5::int) ^ ?n \<le> 100 * 6 ^ ?n" by simp
  then have "(100 * (5::int) ^ ?n) div 5 ^ ?n \<le> (100 * 6 ^ ?n) div 5 ^ ?n"
    by (rule zdiv_mono1) simp
  then show ?thesis using l by (simp add: xpNeededFor_def)
qed

text \<open>
  The \<^verbatim>\<open>while (userData.xp >= userData.xpNeeded)\<close> loop, with the flag
  \<^verbatim>\<open>leveledUp\<close> (\<^verbatim>\<open>statIncreases\<close> is set in the same places). It ends on every
  profile: each pass raises the level, and from level 1 on the threshold is at least 100.
\<close>

function levelUpLoop :: "adventureData \<Rightarrow> bool \<Rightarrow> adventureData \<times> bool" where
  "levelUpLoop u flag =
     (if xp u \<ge> xpNeeded u then levelUpLoop (levelUpOnce u) True else (u, flag))"
  by pat_completeness auto
termination
proof (relation "measure (\<lambda>(u, flag).
          if xp u < xpNeeded u then 0
          else 1 + nat (xp u - xpNeeded u) + 2 * nat (1 - level u)
               + (if xpNeeded u \<le> 0 then 1 else 0))")
  show "wf (measure (\<lambda>(u, flag).
          if xp u < xpNeeded u then 0
          else 1 + nat (xp u - xpNeeded u) + 2 * nat (1 - level u)
               + (if xpNeeded u \<le> 0 then 1 else 0)))"
    by simp
next
  fix u :: adventureData and flag :: bool
  assume a: "xpNeeded u \<le> xp u"
  have n: "0 \<le> xpNeededFor (level u + 1)" by (rule xpNeededFor_nonneg)
  have big: "1 \<le> level u \<Longrightarrow> 100 \<le> xpNeededFor (level u + 1)"
    by (rule xpNeededFor_ge_100) simp
  show "((levelUpOnce u, True), (u, flag)) \<in> measure (\<lambda>(u, flag).
          if xp u < xpNeeded u then 0
          else 1 + nat (xp u - xpNeeded u) + 2 * nat (1 - level u)
               + (if xpNeeded u \<le> 0 then 1 else 0))"
  proof (cases "1 \<le> level u")
    case True
    with a n big show ?thesis by (auto simp add: levelUpOnce_def Let_def)
  next
    case False
    with a n show ?thesis by (auto simp add: levelUpOnce_def Let_def)
  qed
qed

declare levelUpLoop.simps [simp del]

text \<open>\<^verbatim>\<open>_addXP(userData, amount)\<close>: the updated profile and \<^verbatim>\<open>leveledUp\<close>.\<close>

definition addXP_adv :: "adventureData \<Rightarrow> int \<Rightarrow> adventureData \<times> bool" where
  "addXP_adv u amount = levelUpLoop (u\<lparr> xp := xp u + amount \<rparr>) False"

subsection \<open>Inventory\<close>

text \<open>
  \<^verbatim>\<open>_addItemToInventory\<close>: the first entry with the id gets the quantity added, or a new
  entry is pushed at the end.
\<close>

fun addToItems :: "invItem list \<Rightarrow> string \<Rightarrow> int \<Rightarrow> invItem list" where
  "addToItems [] i q = [\<lparr> item_id = i, quantity = q \<rparr>]"
| "addToItems (x # xs) i q =
     (if item_id x = i then x\<lparr> quantity := quantity x + q \<rparr> # xs
      else x # addToItems xs i q)"

definition addItemToInventory :: "adventureData \<Rightarrow> string \<Rightarrow> adventureData" where
  "addItemToInventory u i =
     u\<lparr> inventory := (inventory u)\<lparr> items := addToItems (items (inventory u)) i 1 \<rparr> \<rparr>"

text \<open>
  \<^verbatim>\<open>_removeItemFromInventory\<close>: the first entry with the id loses the quantity and is
  spliced out when nothing is left; without such an entry nothing changes.
\<close>

fun removeFromItems :: "invItem list \<Rightarrow> string \<Rightarrow> int \<Rightarrow> invItem list" where
  "removeFromItems [] i q = []"
| "removeFromItems (x # xs) i q =
     (if item_id x = i
      then (if quantity x - q \<le> 0 then xs else x\<lparr> quantity := quantity x - q \<rparr> # xs)
      else x # removeFromItems xs i q)"

definition removeItemFromInventory :: "adventureData \<Rightarrow> string \<Rightarrow> adventureData" where
  "removeItemFromInventory u i =
     u\<lparr> inventory := (inventory u)\<lparr> items := removeFromItems (items (inventory u)) i 1 \<rparr> \<rparr>"

text \<open>How many units of an item an inventory list holds, over all its entries.\<close>

fun held :: "invItem list \<Rightarrow> string \<Rightarrow> int" where
  "held [] i = 0"
| "held (x # xs) i = (if item_id x = i then quantity x else 0) + held xs i"

subsection \<open>Catalogs\<close>

datatype itemType = Weapon | Armor | Accessory | Consumable | Material

text \<open>
  An item of the catalog, with the properties the engine reads. \<open>boost\<close> stands for
  \<^verbatim>\<open>item.attackBoost || item.defenseBoost || item.speedBoost\<close>.
\<close>

record item =
  i_name :: string
  i_type :: itemType
  i_value :: int
  required_level :: "int option"
  restore :: "int option"
  boost :: bool

record monster =
  m_name :: string
  m_minLevel :: int
  m_maxLevel :: int
  m_health :: int
  m_attack :: int
  m_defense :: int
  m_speed :: int
  xpReward :: int
  goldMin :: int
  goldMax :: int
  dropChance :: real
  possibleDrops :: "string list"

record locationData =
  l_name :: string
  safeZone :: bool
  l_minLevel :: int
  commonMonsters :: "string list"
  rareMonsters :: "string list"

text \<open>
  The catalogs are \<^verbatim>\<open>Map\<close>s filled from JSON files in key order; \<^verbatim>\<open>get\<close> is
  \<open>map_of\<close>, \<^verbatim>\<open>entries()\<close> the list itself.
\<close>

record catalog =
  c_items :: "(string \<times> item) list"
  c_monsters :: "(string \<times> monster) list"
  c_locations :: "(string \<times> locationData) list"

text \<open>The draws of \<^verbatim>\<open>Math.random()\<close>, one field for each call site.\<close>

record rolls =
  encounterRoll :: real
  monsterRoll :: real
  goldRoll :: real
  dropRoll :: real
  dropIndexRoll :: real
  treasureGoldRoll :: real
  treasureItemRoll :: real
  treasureIndexRoll :: real
  trainXpRoll :: real
  trainBoostRoll :: real
  trainStatRoll :: real

text \<open>\<^verbatim>\<open>xs[i]\<close>: \<^verbatim>\<open>undefined\<close> outside the array.\<close>

definition js_index :: "'a list \<Rightarrow> int \<Rightarrow> 'a option" where
  "js_index xs i = (if 0 \<le> i \<and> i < int (length xs) then Some (xs ! nat i) else None)"

text \<open>\<^verbatim>\<open>Math.ceil(a / b)\<close> for integers \<open>a\<close> and \<open>b\<close>.\<close>

definition ceilDiv :: "int \<Rightarrow> int \<Rightarrow> int" where
  "ceilDiv a b = - ((- a) div b)"

subsection \<open>Results\<close>

text \<open>
  The message templates of the result objects, with the values they interpolate. Every
  operation returns \<^verbatim>\<open>{success, message, ...}\<close>; the further properties (rewards, flags)
  repeat values that the message carries.
\<close>

datatype msg =
    HuntCooldownMsg int
  | InvalidLocationMsg
  | SafeZoneMsg string
  | NothingFoundMsg string
  | HuntErrorMsg
  | NoMonsterMsg
  | VictoryMsg string int int "string option"
  | DefeatMsg string
  | TreasureMsg int "string option"
  | TrainCooldownMsg int int
  | TrainDoneMsg int "(string \<times> int) option" "int option"
  | TrainErrorMsg
  | ItemNotFoundMsg
  | LevelTooLowMsg int int
  | NotEnoughGoldMsg int
  | PurchasedMsg string int
  | BuyErrorMsg
  | NotInInventoryMsg
  | NotInDatabaseMsg
  | EquippedMsg string
  | CannotEquipMsg
  | EquipErrorMsg
  | UsedMsg string "int option"
  | UseErrorMsg
  | NoSuchLocationMsg
  | TravelLevelMsg int string int
  | TraveledMsg string
  | TravelErrorMsg
  | DailyCooldownMsg int int
  | DailyClaimedMsg int int "int option"
  | DailyErrorMsg

record result =
  success :: bool
  message :: msg

subsection \<open>Reading and writing the profile\<close>

definition COOLDOWN_HUNT :: int where "COOLDOWN_HUNT = 2 * 60 * 1000"
definition COOLDOWN_TRAIN :: int where "COOLDOWN_TRAIN = 30 * 60 * 1000"
definition COOLDOWN_DAILY :: int where "COOLDOWN_DAILY = 24 * 60 * 60 * 1000"

text \<open>\<^verbatim>\<open>_createDefaultAdventureData(userData)\<close>; the name is \<^verbatim>\<open>userData.pushName || "Adventurer"\<close>.\<close>

definition createDefaultAdventureData :: "string option \<Rightarrow> int \<Rightarrow> adventureData" where
  "createDefaultAdventureData pn now =
     \<lparr> name = (if truthyStr pn then the pn else ''Adventurer''),
       level = 1, xp = 0, xpNeeded = 100,
       stats = \<lparr> health = 100, maxHealth = 100, attack = 10, defense = 5, speed = 8 \<rparr>,
       inventory = \<lparr> gold = 100, items = [] \<rparr>,
       equipment = \<lparr> weapon = None, armor = None, accessory = None \<rparr>,
       location = ''town'', questsCompleted = [], monstersDefeated = 0,
       cooldowns = \<lparr> cd_hunt = 0, cd_train = 0, cd_daily = 0, cd_quest = 0 \<rparr>,
       joinedAt = now, lastPlayed = now \<rparr>"

text \<open>The properties \<^verbatim>\<open>adventure\<close> and \<^verbatim>\<open>pushName\<close> of a stored object.\<close>

fun adventureOf :: "row \<Rightarrow> adventureData option" where
  "adventureOf (UserRow u) = adventure u"
| "adventureOf (ProfileRow p a q) = a"

fun pushNameOf :: "row \<Rightarrow> string option" where
  "pushNameOf (UserRow u) = Some (pushName u)"
| "pushNameOf (ProfileRow p a q) = q"

fun setAdventure :: "row \<Rightarrow> adventureData \<Rightarrow> row" where
  "setAdventure (UserRow u) a = UserRow (u\<lparr> adventure := Some a \<rparr>)"
| "setAdventure (ProfileRow p b q) a = ProfileRow p (Some a) q"

text \<open>
  \<^verbatim>\<open>updateUserData(jid, userData)\<close>: \<^verbatim>\<open>db.set(userId, userData)\<close>, then
  \<^verbatim>\<open>await saveData()\<close>, which may throw after the row has been set.
\<close>

definition updateUserData :: "db \<Rightarrow> (db \<Rightarrow> bool) \<Rightarrow> string \<Rightarrow> row \<Rightarrow> db \<times> (error + unit)" where
  "updateUserData d flushOk j r =
     (let d' = d(cleanJid j \<mapsto> r)
      in (d', if flushOk d' then Inr () else Inl IOError))"

text \<open>
  \<^verbatim>\<open>updateAdventureData(jid, adventureData)\<close>: reads the full row, replaces its
  \<^verbatim>\<open>adventure\<close> property and writes the row back.
\<close>

definition updateAdventureData ::
  "db \<Rightarrow> int \<Rightarrow> (db \<Rightarrow> bool) \<Rightarrow> string \<Rightarrow> adventureData \<Rightarrow> db \<times> (error + unit)" where
  "updateAdventureData d now flushOk j a =
     (let userId = cleanJid j;
          (fullUserData, d1) = lm_getUserData d now userId None
      in updateUserData d1 flushOk j (setAdventure fullUserData a))"

text \<open>
  \<^verbatim>\<open>getUserData(jid)\<close> of the adventure manager: the \<^verbatim>\<open>adventure\<close> property of the
  user's row, created with the defaults and saved when the row has none.
\<close>

definition getUserData :: "db \<Rightarrow> int \<Rightarrow> (db \<Rightarrow> bool) \<Rightarrow> string \<Rightarrow> db \<times> (error + adventureData)" where
  "getUserData d now flushOk j =
     (let userId = cleanJid j;
          (userData, d1) = lm_getUserData d now userId None
      in case adventureOf userData of
           Some a \<Rightarrow> (d1, Inr a)
         | None \<Rightarrow>
             (let a = createDefaultAdventureData (pushNameOf userData) now;
                  (d2, w) = updateUserData d1 flushOk j (setAdventure userData a)
              in case w of Inl e \<Rightarrow> (d2, Inl e) | Inr _ \<Rightarrow> (d2, Inr a)))"

text \<open>An adventure object handed to \<^verbatim>\<open>db.set\<close> as the row itself.\<close>

definition asRow :: "adventureData \<Rightarrow> row" where
  "asRow a = ProfileRow a None None"

subsection \<open>Hunting\<close>

text \<open>
  The two damage values and turn counts of \<^verbatim>\<open>_monsterEncounter\<close>, and its test
  \<^verbatim>\<open>userTurnsToWin <= monsterTurnsToWin\<close>.
\<close>

definition userDamage :: "adventureData \<Rightarrow> monster \<Rightarrow> int" where
  "userDamage u m = max 1 (attack (stats u) - m_defense m div 2)"

definition monsterDamage :: "adventureData \<Rightarrow> monster \<Rightarrow> int" where
  "monsterDamage u m = max 1 (m_attack m - defense (stats u) div 2)"

definition userTurnsToWin :: "adventureData \<Rightarrow> monster \<Rightarrow> int" where
  "userTurnsToWin u m = ceilDiv (m_health m) (userDamage u m)"

definition monsterTurnsToWin :: "adventureData \<Rightarrow> monster \<Rightarrow> int" where
  "monsterTurnsToWin u m = ceilDiv (health (stats u)) (monsterDamage u m)"

definition userWins :: "adventureData \<Rightarrow> monster \<Rightarrow> bool" where
  "userWins u m = (userTurnsToWin u m \<le> monsterTurnsToWin u m)"

text \<open>
  \<^verbatim>\<open>_selectMonsterForLocation(location, userLevel)\<close>: common monsters in range are pushed
  twice, rare ones once, and one entry of the pool is drawn.
\<close>

definition commonPool :: "catalog \<Rightarrow> int \<Rightarrow> string \<Rightarrow> monster list" where
  "commonPool c userLevel monsterId =
     (case map_of (c_monsters c) monsterId of
        None \<Rightarrow> []
      | Some m \<Rightarrow> if userLevel \<ge> m_minLevel m \<and> userLevel \<le> m_maxLevel m + 3 then [m, m] else [])"

definition rarePool :: "catalog \<Rightarrow> int \<Rightarrow> string \<Rightarrow> monster list" where
  "rarePool c userLevel monsterId =
     (case map_of (c_monsters c) monsterId of
        None \<Rightarrow> []
      | Some m \<Rightarrow> if userLevel \<ge> m_minLevel m \<and> userLevel \<le> m_maxLevel m + 2 then [m] else [])"

definition selectMonsterForLocation :: "catalog \<Rightarrow> rolls \<Rightarrow> locationData \<Rightarrow> int \<Rightarrow> monster option" where
  "selectMonsterForLocation c rs loc userLevel =
     (let possibleMonsters = concat (map (commonPool c userLevel) (commonMonsters loc))
                             @ concat (map (rarePool c userLevel) (rareMonsters loc))
      in if possibleMonsters = [] then None
         else js_index possibleMonsters \<lfloor>monsterRoll rs * of_int (int (length possibleMonsters))\<rfloor>)"

text \<open>
  \<^verbatim>\<open>_handleCombatVictory(adventureData, monster)\<close>. Its parameter is called
  \<^verbatim>\<open>adventureData\<close>, but the call \<^verbatim>\<open>this._addItemToInventory(userData, droppedItem)\<close> and
  the level-up message \<^verbatim>\<open>${userData.level}\<close> read the name \<^verbatim>\<open>userData\<close>, which is bound
  nowhere in the method or the module: evaluating it throws a \<^verbatim>\<open>ReferenceError\<close>. Both
  places come after the gold, the XP and the counter have been changed on the object.
\<close>

definition handleCombatVictory ::
  "catalog \<Rightarrow> rolls \<Rightarrow> adventureData \<Rightarrow> monster \<Rightarrow> error + (adventureData \<times> result)" where
  "handleCombatVictory c rs adv m =
     (let goldReward = goldMin m + \<lfloor>goldRoll rs * of_int (goldMax m - goldMin m + 1)\<rfloor>;
          a1 = adv\<lparr> inventory := (inventory adv)\<lparr> gold := gold (inventory adv) + goldReward \<rparr> \<rparr>;
          (a2, up) = addXP_adv a1 (xpReward m);
          a3 = a2\<lparr> monstersDefeated := monstersDefeated a2 + 1 \<rparr>;
          droppedItem =
            (if dropRoll rs < dropChance m \<and> possibleDrops m \<noteq> []
             then js_index (possibleDrops m)
                    \<lfloor>dropIndexRoll rs * of_int (int (length (possibleDrops m)))\<rfloor>
             else None);
          itemData = (case droppedItem of None \<Rightarrow> None | Some i \<Rightarrow> map_of (c_items c) i)
      in case itemData of
           Some it \<Rightarrow> Inl ReferenceError
         | None \<Rightarrow>
             if up then Inl ReferenceError
             else Inr (a3, \<lparr> success = True,
                             message = VictoryMsg (m_name m) goldReward (xpReward m) None \<rparr>))"

text \<open>\<^verbatim>\<open>_handleCombatDefeat\<close>: \<^verbatim>\<open>Math.max(1, Math.floor(maxHealth * 0.25))\<close>.\<close>

definition handleCombatDefeat :: "adventureData \<Rightarrow> monster \<Rightarrow> adventureData \<times> result" where
  "handleCombatDefeat u m =
     (u\<lparr> stats := (stats u)\<lparr> health := max 1 (maxHealth (stats u) div 4) \<rparr> \<rparr>,
      \<lparr> success = False, message = DefeatMsg (m_name m) \<rparr>)"

text \<open>
  \<^verbatim>\<open>_monsterEncounter(userData, location)\<close>: the object as the call leaves it, the result,
  and whether the result carries an \<^verbatim>\<open>adventureData\<close> property (only a victory does).
\<close>

definition monsterEncounter ::
  "catalog \<Rightarrow> rolls \<Rightarrow> adventureData \<Rightarrow> locationData \<Rightarrow> error + (adventureData \<times> result \<times> bool)" where
  "monsterEncounter c rs u loc =
     (case selectMonsterForLocation c rs loc (level u) of
        None \<Rightarrow> Inr (u, \<lparr> success = False, message = NoMonsterMsg \<rparr>, False)
      | Some m \<Rightarrow>
          if userWins u m
          then (case handleCombatVictory c rs u m of
                  Inl e \<Rightarrow> Inl e
                | Inr (u', r) \<Rightarrow> Inr (u', r, True))
          else (let (u', r) = handleCombatDefeat u m in Inr (u', r, False)))"

text \<open>\<^verbatim>\<open>!item.required_level || item.required_level <= level\<close>.\<close>

definition levelAllows :: "item \<Rightarrow> int \<Rightarrow> bool" where
  "levelAllows it lvl =
     (case required_level it of None \<Rightarrow> True | Some r \<Rightarrow> r = 0 \<or> r \<le> lvl)"

text \<open>
  \<^verbatim>\<open>_findTreasure(userData, location)\<close>. An index outside \<^verbatim>\<open>possibleItems\<close> would make
  \<^verbatim>\<open>foundItem\<close> undefined and \<^verbatim>\<open>foundItem.name\<close> a \<^verbatim>\<open>TypeError\<close>.
\<close>

definition findTreasure :: "catalog \<Rightarrow> rolls \<Rightarrow> adventureData \<Rightarrow> error + (adventureData \<times> result)" where
  "findTreasure c rs u =
     (let treasureQuality = min 5 (max 1 (level u div 5 + 1));
          goldBase = 20 * treasureQuality;
          goldReward = goldBase + \<lfloor>treasureGoldRoll rs * of_int goldBase\<rfloor>;
          u1 = u\<lparr> inventory := (inventory u)\<lparr> gold := gold (inventory u) + goldReward \<rparr> \<rparr>;
          possibleItems = map fst (filter (\<lambda>(i, it). levelAllows it (level u1)
                                                    \<and> i_value it \<le> goldBase * 2) (c_items c))
      in if treasureItemRoll rs < 0.4 \<and> possibleItems \<noteq> []
         then (case js_index possibleItems
                      \<lfloor>treasureIndexRoll rs * of_int (int (length possibleItems))\<rfloor> of
                 None \<Rightarrow> Inl TypeError
               | Some foundItemId \<Rightarrow>
                   (case map_of (c_items c) foundItemId of
                      None \<Rightarrow> Inl TypeError
                    | Some foundItem \<Rightarrow>
                        Inr (addItemToInventory u1 foundItemId,
                             \<lparr> success = True,
                               message = TreasureMsg goldReward (Some (i_name foundItem)) \<rparr>)))
         else Inr (u1, \<lparr> success = True, message = TreasureMsg goldReward None \<rparr>))"

definition setHuntCooldown :: "adventureData \<Rightarrow> int \<Rightarrow> adventureData" where
  "setHuntCooldown u t = u\<lparr> cooldowns := (cooldowns u)\<lparr> cd_hunt := t \<rparr> \<rparr>"

text \<open>
  Two idioms of the \<^verbatim>\<open>try\<close> blocks. Every operation starts with
  \<^verbatim>\<open>const userData = await this.getUserData(jid)\<close>: an exception in it ends the block,
  otherwise the rest of the block runs on the profile and the store as the call left it.
  And \<^verbatim>\<open>await this.updateUserData(...); return {...}\<close>: an exception of the write ends
  the block, otherwise what follows decides the outcome and the store stays as written.
\<close>

definition withUserData ::
  "db \<Rightarrow> int \<Rightarrow> (db \<Rightarrow> bool) \<Rightarrow> string \<Rightarrow> (db \<Rightarrow> adventureData \<Rightarrow> db \<times> (error + result))
     \<Rightarrow> db \<times> (error + result)" where
  "withUserData d now flushOk j body =
     (case getUserData d now flushOk j of
        (d1, Inl e) \<Rightarrow> (d1, Inl e)
      | (d1, Inr u) \<Rightarrow> body d1 u)"

definition andThen :: "db \<times> (error + unit) \<Rightarrow> (error + result) \<Rightarrow> db \<times> (error + result)" where
  "andThen w rest = (case w of (d2, Inl e) \<Rightarrow> (d2, Inl e) | (d2, Inr _) \<Rightarrow> (d2, rest))"

text \<open>
  The \<^verbatim>\<open>catch\<close> clause shared by the operations: the exception is logged and the generic
  failure of the operation is returned.
\<close>

definition catching :: "msg \<Rightarrow> db \<times> (error + result) \<Rightarrow> db \<times> result" where
  "catching generic x =
     (case x of
        (d, Inl e) \<Rightarrow> (d, \<lparr> success = False, message = generic \<rparr>)
      | (d, Inr r) \<Rightarrow> (d, r))"

text \<open>
  \<^verbatim>\<open>hunt(jid)\<close>: \<open>hunt_body\<close> is the \<^verbatim>\<open>try\<close> block after the profile has been read,
  \<open>hunt_try\<close> the whole block, \<open>hunt\<close> the method with its \<^verbatim>\<open>catch\<close>. After a monster
  encounter the source sets \<^verbatim>\<open>cooldowns.hunt\<close> on its object in every case, but it writes
  the object back only when the result carries \<^verbatim>\<open>adventureData\<close>; otherwise, as after
  a defeat, nothing is handed to the store.
\<close>

definition hunt_body ::
  "catalog \<Rightarrow> db \<Rightarrow> int \<Rightarrow> rolls \<Rightarrow> (db \<Rightarrow> bool) \<Rightarrow> string \<Rightarrow> adventureData
     \<Rightarrow> db \<times> (error + result)" where
  "hunt_body c d1 now rs flushOk j adv =
     (if cd_hunt (cooldowns adv) > now
      then (d1, Inr \<lparr> success = False,
                      message = HuntCooldownMsg (ceilDiv (cd_hunt (cooldowns adv) - now) 1000) \<rparr>)
      else
        (let locationId = (if location adv = [] then ''forest'' else location adv) in
         case map_of (c_locations c) locationId of
           None \<Rightarrow> (d1, Inr \<lparr> success = False, message = InvalidLocationMsg \<rparr>)
         | Some loc \<Rightarrow>
             if safeZone loc
             then (d1, Inr \<lparr> success = False, message = SafeZoneMsg (l_name loc) \<rparr>)
             else if encounterRoll rs < 0.7
             then (case monsterEncounter c rs adv loc of
                     Inl e \<Rightarrow> (d1, Inl e)
                   | Inr (adv', r, hasData) \<Rightarrow>
                       if hasData
                       then andThen (updateAdventureData d1 now flushOk j
                                       (setHuntCooldown adv' (now + COOLDOWN_HUNT)))
                                    (Inr r)
                       else (d1, Inr r))
             else if encounterRoll rs < 0.9
             then (case findTreasure c rs adv of
                     Inl e \<Rightarrow> (d1, Inl e)
                   | Inr (adv', r) \<Rightarrow>
                       andThen (updateUserData d1 flushOk j
                                  (asRow (setHuntCooldown adv' (now + COOLDOWN_HUNT))))
                               (Inr r))
             else andThen (updateUserData d1 flushOk j (asRow (setHuntCooldown adv (now + 30000))))
                          (Inr \<lparr> success = True, message = NothingFoundMsg (l_name loc) \<rparr>)))"

definition hunt_try ::
  "catalog \<Rightarrow> db \<Rightarrow> int \<Rightarrow> rolls \<Rightarrow> (db \<Rightarrow> bool) \<Rightarrow> string \<Rightarrow> db \<times> (error + result)" where
  "hunt_try c d now rs flushOk j =
     withUserData d now flushOk j (\<lambda>d1 adv. hunt_body c d1 now rs flushOk j adv)"

definition hunt ::
  "catalog \<Rightarrow> db \<Rightarrow> int \<Rightarrow> rolls \<Rightarrow> (db \<Rightarrow> bool) \<Rightarrow> string \<Rightarrow> db \<times> result" where
  "hunt c d now rs flushOk j = catching HuntErrorMsg (hunt_try c d now rs flushOk j)"

subsection \<open>Training and the daily reward\<close>

text \<open>
  \<^verbatim>\<open>adventureData.stats[statToBoost] += boostAmount\<close>, with the extra health for
  \<^verbatim>\<open>maxHealth\<close>; a name that is no stat leaves the five stats as they are.
\<close>

definition boostStat :: "stats \<Rightarrow> string option \<Rightarrow> stats" where
  "boostStat st nm =
     (if nm = Some ''attack'' then st\<lparr> attack := attack st + 1 \<rparr>
      else if nm = Some ''defense'' then st\<lparr> defense := defense st + 1 \<rparr>
      else if nm = Some ''speed'' then st\<lparr> speed := speed st + 1 \<rparr>
      else if nm = Some ''maxHealth''
      then st\<lparr> maxHealth := maxHealth st + 5, health := health st + 5 \<rparr>
      else st)"

text \<open>
  \<^verbatim>\<open>train(jid)\<close>. A stat index outside the array would leave \<^verbatim>\<open>statBonus.stat\<close>
  undefined, and \<^verbatim>\<open>statBonus.stat.charAt(0)\<close> in the message, after the write, a
  \<^verbatim>\<open>TypeError\<close>.
\<close>

definition train_body ::
  "db \<Rightarrow> int \<Rightarrow> rolls \<Rightarrow> (db \<Rightarrow> bool) \<Rightarrow> string \<Rightarrow> adventureData \<Rightarrow> db \<times> (error + result)" where
  "train_body d1 now rs flushOk j adv =
     (if cd_train (cooldowns adv) > now
      then (let timeLeft = ceilDiv (cd_train (cooldowns adv) - now) 1000
            in (d1, Inr \<lparr> success = False,
                           message = TrainCooldownMsg (timeLeft div 60) (timeLeft mod 60) \<rparr>))
      else
        (let xpGained = 15 + \<lfloor>trainXpRoll rs * 10\<rfloor>;
             boosted = (trainBoostRoll rs < 0.2);
             statToBoost = js_index [''attack'', ''defense'', ''speed'', ''maxHealth'']
                             \<lfloor>trainStatRoll rs * 4\<rfloor>;
             boostAmount = (if statToBoost = Some ''maxHealth'' then 5 else 1);
             a1 = (if boosted then adv\<lparr> stats := boostStat (stats adv) statToBoost \<rparr> else adv);
             (a2, up) = addXP_adv a1 xpGained;
             a3 = a2\<lparr> cooldowns := (cooldowns a2)\<lparr> cd_train := now + COOLDOWN_TRAIN \<rparr> \<rparr>
         in andThen (updateAdventureData d1 now flushOk j a3)
              (if boosted \<and> statToBoost = None then Inl TypeError
               else Inr \<lparr> success = True,
                          message = TrainDoneMsg xpGained
                            (if boosted then Some (the statToBoost, boostAmount) else None)
                            (if up then Some (level a3) else None) \<rparr>)))"

definition train_try ::
  "db \<Rightarrow> int \<Rightarrow> rolls \<Rightarrow> (db \<Rightarrow> bool) \<Rightarrow> string \<Rightarrow> db \<times> (error + result)" where
  "train_try d now rs flushOk j =
     withUserData d now flushOk j (\<lambda>d1 adv. train_body d1 now rs flushOk j adv)"

definition train :: "db \<Rightarrow> int \<Rightarrow> rolls \<Rightarrow> (db \<Rightarrow> bool) \<Rightarrow> string \<Rightarrow> db \<times> result" where
  "train d now rs flushOk j = catching TrainErrorMsg (train_try d now rs flushOk j)"

text \<open>\<^verbatim>\<open>claimDaily(jid)\<close>.\<close>

definition claimDaily_body ::
  "db \<Rightarrow> int \<Rightarrow> (db \<Rightarrow> bool) \<Rightarrow> string \<Rightarrow> adventureData \<Rightarrow> db \<times> (error + result)" where
  "claimDaily_body d1 now flushOk j adv =
     (if cd_daily (cooldowns adv) > now
      then (let timeLeft = ceilDiv (cd_daily (cooldowns adv) - now) 1000
            in (d1, Inr \<lparr> success = False,
                           message = DailyCooldownMsg (timeLeft div 3600)
                                       ((timeLeft mod 3600) div 60) \<rparr>))
      else
        (let goldReward = 100 + level adv * 10;
             xpRew = 20 + level adv * 5;
             a1 = adv\<lparr> inventory := (inventory adv)\<lparr> gold := gold (inventory adv) + goldReward \<rparr> \<rparr>;
             (a2, up) = addXP_adv a1 xpRew;
             a3 = a2\<lparr> cooldowns := (cooldowns a2)\<lparr> cd_daily := now + COOLDOWN_DAILY \<rparr> \<rparr>
         in andThen (updateAdventureData d1 now flushOk j a3)
              (Inr \<lparr> success = True,
                     message = DailyClaimedMsg goldReward xpRew
                                 (if up then Some (level a3) else None) \<rparr>)))"

definition claimDaily_try ::
  "db \<Rightarrow> int \<Rightarrow> (db \<Rightarrow> bool) \<Rightarrow> string \<Rightarrow> db \<times> (error + result)" where
  "claimDaily_try d now flushOk j =
     withUserData d now flushOk j (\<lambda>d1 adv. claimDaily_body d1 now flushOk j adv)"

definition claimDaily :: "db \<Rightarrow> int \<Rightarrow> (db \<Rightarrow> bool) \<Rightarrow> string \<Rightarrow> db \<times> result" where
  "claimDaily d now flushOk j = catching DailyErrorMsg (claimDaily_try d now flushOk j)"

subsection \<open>Shop, equipment and travel\<close>

text \<open>\<^verbatim>\<open>item.required_level && userData.level < item.required_level\<close>.\<close>

definition levelTooLow :: "item \<Rightarrow> int \<Rightarrow> bool" where
  "levelTooLow it lvl = (case required_level it of None \<Rightarrow> False | Some r \<Rightarrow> r \<noteq> 0 \<and> lvl < r)"

text \<open>\<^verbatim>\<open>buyItem(jid, itemId)\<close>.\<close>

definition buyItem_body ::
  "catalog \<Rightarrow> db \<Rightarrow> (db \<Rightarrow> bool) \<Rightarrow> string \<Rightarrow> string \<Rightarrow> adventureData \<Rightarrow> db \<times> (error + result)" where
  "buyItem_body c d1 flushOk j itemId u =
     (case map_of (c_items c) itemId of
        None \<Rightarrow> (d1, Inr \<lparr> success = False, message = ItemNotFoundMsg \<rparr>)
      | Some it \<Rightarrow>
          if levelTooLow it (level u)
          then (d1, Inr \<lparr> success = False,
                          message = LevelTooLowMsg (the (required_level it)) (level u) \<rparr>)
          else if gold (inventory u) < i_value it
          then (d1, Inr \<lparr> success = False, message = NotEnoughGoldMsg (i_value it) \<rparr>)
          else
            (let u1 = u\<lparr> inventory := (inventory u)\<lparr> gold := gold (inventory u) - i_value it \<rparr> \<rparr>;
                 u2 = addItemToInventory u1 itemId
             in andThen (updateUserData d1 flushOk j (asRow u2))
                  (Inr \<lparr> success = True, message = PurchasedMsg (i_name it) (i_value it) \<rparr>)))"

definition buyItem_try ::
  "catalog \<Rightarrow> db \<Rightarrow> int \<Rightarrow> (db \<Rightarrow> bool) \<Rightarrow> string \<Rightarrow> string \<Rightarrow> db \<times> (error + result)" where
  "buyItem_try c d now flushOk j itemId =
     withUserData d now flushOk j (\<lambda>d1 u. buyItem_body c d1 flushOk j itemId u)"

definition buyItem ::
  "catalog \<Rightarrow> db \<Rightarrow> int \<Rightarrow> (db \<Rightarrow> bool) \<Rightarrow> string \<Rightarrow> string \<Rightarrow> db \<times> result" where
  "buyItem c d now flushOk j itemId = catching BuyErrorMsg (buyItem_try c d now flushOk j itemId)"

text \<open>
  \<^verbatim>\<open>_useConsumable\<close>, with its own \<^verbatim>\<open>try\<close>/\<^verbatim>\<open>catch\<close>: a truthy \<^verbatim>\<open>restore\<close> heals up
  to \<^verbatim>\<open>maxHealth\<close>, a boost only changes the message, and one unit is removed.
\<close>

definition useConsumable ::
  "db \<Rightarrow> (db \<Rightarrow> bool) \<Rightarrow> string \<Rightarrow> adventureData \<Rightarrow> string \<Rightarrow> item \<Rightarrow> db \<times> result" where
  "useConsumable d flushOk j u itemId it =
     (let heals = (case restore it of None \<Rightarrow> False | Some r \<Rightarrow> r \<noteq> 0);
          u1 = (if heals
                then u\<lparr> stats := (stats u)\<lparr> health := min (maxHealth (stats u))
                                                          (health (stats u) + the (restore it)) \<rparr> \<rparr>
                else u);
          healAmount = health (stats u1) - health (stats u);
          u2 = removeItemFromInventory u1 itemId
      in catching UseErrorMsg
           (andThen (updateUserData d flushOk j (asRow u2))
              (Inr \<lparr> success = True,
                     message = UsedMsg (i_name it) (if heals then Some healAmount else None) \<rparr>)))"

text \<open>\<^verbatim>\<open>userData.equipment[item.type]\<close>, read and written, for the three equipable types.\<close>

definition slotOf :: "equipment \<Rightarrow> itemType \<Rightarrow> string option" where
  "slotOf e t = (case t of Weapon \<Rightarrow> weapon e | Armor \<Rightarrow> armor e | Accessory \<Rightarrow> accessory e
                 | _ \<Rightarrow> None)"

definition setSlot :: "equipment \<Rightarrow> itemType \<Rightarrow> string \<Rightarrow> equipment" where
  "setSlot e t i = (case t of Weapon \<Rightarrow> e\<lparr> weapon := Some i \<rparr>
                    | Armor \<Rightarrow> e\<lparr> armor := Some i \<rparr>
                    | Accessory \<Rightarrow> e\<lparr> accessory := Some i \<rparr>
                    | _ \<Rightarrow> e)"

text \<open>
  The statements of \<^verbatim>\<open>equipItem\<close> that equip an equipable item: the slot's occupant is
  read, the slot is set, one unit leaves the inventory, a truthy occupant goes back in.
\<close>

definition equipSwap :: "adventureData \<Rightarrow> itemType \<Rightarrow> string \<Rightarrow> adventureData" where
  "equipSwap u t itemId =
     (let currentItem = slotOf (equipment u) t;
          u1 = u\<lparr> equipment := setSlot (equipment u) t itemId \<rparr>;
          u2 = removeItemFromInventory u1 itemId
      in if truthyStr currentItem then addItemToInventory u2 (the currentItem) else u2)"

text \<open>\<^verbatim>\<open>equipItem(jid, itemId)\<close>.\<close>

definition equipItem_body ::
  "catalog \<Rightarrow> db \<Rightarrow> (db \<Rightarrow> bool) \<Rightarrow> string \<Rightarrow> string \<Rightarrow> adventureData \<Rightarrow> db \<times> (error + result)" where
  "equipItem_body c d1 flushOk j itemId u =
     (case find (\<lambda>x. item_id x = itemId) (items (inventory u)) of
        None \<Rightarrow> (d1, Inr \<lparr> success = False, message = NotInInventoryMsg \<rparr>)
      | Some inventoryItem \<Rightarrow>
          if quantity inventoryItem < 1
          then (d1, Inr \<lparr> success = False, message = NotInInventoryMsg \<rparr>)
          else
            (case map_of (c_items c) itemId of
               None \<Rightarrow> (d1, Inr \<lparr> success = False, message = NotInDatabaseMsg \<rparr>)
             | Some it \<Rightarrow>
                 if i_type it = Consumable
                 then (case useConsumable d1 flushOk j u itemId it of (d2, r) \<Rightarrow> (d2, Inr r))
                 else if i_type it \<in> {Weapon, Armor, Accessory}
                 then andThen (updateUserData d1 flushOk j (asRow (equipSwap u (i_type it) itemId)))
                        (Inr \<lparr> success = True, message = EquippedMsg (i_name it) \<rparr>)
                 else (d1, Inr \<lparr> success = False, message = CannotEquipMsg \<rparr>)))"

definition equipItem_try ::
  "catalog \<Rightarrow> db \<Rightarrow> int \<Rightarrow> (db \<Rightarrow> bool) \<Rightarrow> string \<Rightarrow> string \<Rightarrow> db \<times> (error + result)" where
  "equipItem_try c d now flushOk j itemId =
     withUserData d now flushOk j (\<lambda>d1 u. equipItem_body c d1 flushOk j itemId u)"

definition equipItem ::
  "catalog \<Rightarrow> db \<Rightarrow> int \<Rightarrow> (db \<Rightarrow> bool) \<Rightarrow> string \<Rightarrow> string \<Rightarrow> db \<times> result" where
  "equipItem c d now flushOk j itemId =
     catching EquipErrorMsg (equipItem_try c d now flushOk j itemId)"

text \<open>\<^verbatim>\<open>travel(jid, locationId)\<close>.\<close>

definition travel_body ::
  "catalog \<Rightarrow> db \<Rightarrow> (db \<Rightarrow> bool) \<Rightarrow> string \<Rightarrow> string \<Rightarrow> adventureData \<Rightarrow> db \<times> (error + result)" where
  "travel_body c d1 flushOk j locationId u =
     (case map_of (c_locations c) locationId of
        None \<Rightarrow> (d1, Inr \<lparr> success = False, message = NoSuchLocationMsg \<rparr>)
      | Some loc \<Rightarrow>
          if l_minLevel loc \<noteq> 0 \<and> level u < l_minLevel loc
          then (d1, Inr \<lparr> success = False,
                          message = TravelLevelMsg (l_minLevel loc) (l_name loc) (level u) \<rparr>)
          else andThen (updateUserData d1 flushOk j (asRow (u\<lparr> location := locationId \<rparr>)))
                 (Inr \<lparr> success = True, message = TraveledMsg (l_name loc) \<rparr>))"

definition travel_try ::
  "catalog \<Rightarrow> db \<Rightarrow> int \<Rightarrow> (db \<Rightarrow> bool) \<Rightarrow> string \<Rightarrow> string \<Rightarrow> db \<times> (error + result)" where
  "travel_try c d now flushOk j locationId =
     withUserData d now flushOk j (\<lambda>d1 u. travel_body c d1 flushOk j locationId u)"

definition travel ::
  "catalog \<Rightarrow> db \<Rightarrow> int \<Rightarrow> (db \<Rightarrow> bool) \<Rightarrow> string \<Rightarrow> string \<Rightarrow> db \<times> result" where
  "travel c d now flushOk j locationId =
     catching TravelErrorMsg (travel_try c d now flushOk j locationId)"

subsection \<open>The default catalogs\<close>

text \<open>
  \<^verbatim>\<open>getDefaultItems\<close>, \<^verbatim>\<open>getDefaultMonsters\<close> and \<^verbatim>\<open>getDefaultLocations\<close>: the content
  the engine runs on when the JSON files do not exist yet.
\<close>

definition defaultItems :: "(string \<times> item) list" where
  "defaultItems =
     [(''sword_1'', \<lparr> i_name = ''Wooden Sword'', i_type = Weapon, i_value = 50, required_level = Some 1, restore = None, boost = False \<rparr>),
      (''sword_2'', \<lparr> i_name = ''Iron Sword'', i_type = Weapon, i_value = 200, required_level = Some 3, restore = None, boost = False \<rparr>),
      (''sword_3'', \<lparr> i_name = ''Steel Sword'', i_type = Weapon, i_value = 450, required_level = Some 7, restore = None, boost = False \<rparr>),
      (''sword_4'', \<lparr> i_name = ''Enchanted Blade'', i_type = Weapon, i_value = 1200, required_level = Some 15, restore = None, boost = False \<rparr>),
      (''axe_1'', \<lparr> i_name = ''Battle Axe'', i_type = Weapon, i_value = 300, required_level = Some 5, restore = None, boost = False \<rparr>),
      (''staff_1'', \<lparr> i_name = ''Novice Staff'', i_type = Weapon, i_value = 250, required_level = Some 4, restore = None, boost = False \<rparr>),
      (''armor_1'', \<lparr> i_name = ''Leather Armor'', i_type = Armor, i_value = 100, required_level = Some 1, restore = None, boost = False \<rparr>),
      (''armor_2'', \<lparr> i_name = ''Chain Mail'', i_type = Armor, i_value = 350, required_level = Some 5, restore = None, boost = False \<rparr>),
      (''armor_3'', \<lparr> i_name = ''Steel Plate'', i_type = Armor, i_value = 800, required_level = Some 10, restore = None, boost = False \<rparr>),
      (''armor_4'', \<lparr> i_name = ''Enchanted Armor'', i_type = Armor, i_value = 1500, required_level = Some 15, restore = None, boost = False \<rparr>),
      (''ring_hp'', \<lparr> i_name = ''Health Ring'', i_type = Accessory, i_value = 150, required_level = Some 3, restore = None, boost = False \<rparr>),
      (''amulet_speed'', \<lparr> i_name = ''Swift Amulet'', i_type = Accessory, i_value = 200, required_level = Some 5, restore = None, boost = False \<rparr>),
      (''ring_atk'', \<lparr> i_name = ''Ring of Power'', i_type = Accessory, i_value = 300, required_level = Some 8, restore = None, boost = False \<rparr>),
      (''talisman_luck'', \<lparr> i_name = ''Lucky Talisman'', i_type = Accessory, i_value = 500, required_level = Some 10, restore = None, boost = False \<rparr>),
      (''potion_health'', \<lparr> i_name = ''Health Potion'', i_type = Consumable, i_value = 25, required_level = Some 1, restore = Some 50, boost = False \<rparr>),
      (''potion_strength'', \<lparr> i_name = ''Strength Potion'', i_type = Consumable, i_value = 75, required_level = Some 3, restore = None, boost = True \<rparr>),
      (''potion_defense'', \<lparr> i_name = ''Defense Potion'', i_type = Consumable, i_value = 75, required_level = Some 3, restore = None, boost = True \<rparr>),
      (''food_basic'', \<lparr> i_name = ''Basic Rations'', i_type = Consumable, i_value = 10, required_level = Some 1, restore = Some 20, boost = False \<rparr>),
      (''mat_leather'', \<lparr> i_name = ''Leather'', i_type = Material, i_value = 5, required_level = None, restore = None, boost = False \<rparr>),
      (''mat_iron'', \<lparr> i_name = ''Iron Ore'', i_type = Material, i_value = 8, required_level = None, restore = None, boost = False \<rparr>),
      (''mat_wood'', \<lparr> i_name = ''Wood'', i_type = Material, i_value = 3, required_level = None, restore = None, boost = False \<rparr>),
      (''mat_herb'', \<lparr> i_name = ''Medicinal Herbs'', i_type = Material, i_value = 5, required_level = None, restore = None, boost = False \<rparr>)]"

definition defaultMonsters :: "(string \<times> monster) list" where
  "defaultMonsters =
     [(''slime'', \<lparr> m_name = ''Slime'', m_minLevel = 1, m_maxLevel = 3, m_health = 20, m_attack = 5,
         m_defense = 2, m_speed = 3, xpReward = 10, goldMin = 5, goldMax = 15, dropChance = 3 / 10,
         possibleDrops = [''potion_health'', ''mat_herb''] \<rparr>),
      (''rat'', \<lparr> m_name = ''Giant Rat'', m_minLevel = 1, m_maxLevel = 4, m_health = 15, m_attack = 7,
         m_defense = 1, m_speed = 8, xpReward = 8, goldMin = 3, goldMax = 10, dropChance = 4 / 10,
         possibleDrops = [''mat_leather''] \<rparr>),
      (''wolf'', \<lparr> m_name = ''Wolf'', m_minLevel = 2, m_maxLevel = 5, m_health = 40, m_attack = 10,
         m_defense = 3, m_speed = 10, xpReward = 20, goldMin = 10, goldMax = 25, dropChance = 4 / 10,
         possibleDrops = [''potion_health'', ''mat_leather''] \<rparr>),
      (''goblin'', \<lparr> m_name = ''Goblin'', m_minLevel = 3, m_maxLevel = 7, m_health = 60, m_attack = 15,
         m_defense = 5, m_speed = 7, xpReward = 35, goldMin = 15, goldMax = 40, dropChance = 5 / 10,
         possibleDrops = [''potion_health'', ''mat_iron'', ''sword_1''] \<rparr>),
      (''skeleton'', \<lparr> m_name = ''Skeleton'', m_minLevel = 5, m_maxLevel = 9, m_health = 50, m_attack = 20,
         m_defense = 8, m_speed = 5, xpReward = 45, goldMin = 20, goldMax = 50, dropChance = 6 / 10,
         possibleDrops = [''armor_1'', ''mat_iron''] \<rparr>),
      (''bandit'', \<lparr> m_name = ''Bandit'', m_minLevel = 6, m_maxLevel = 10, m_health = 80, m_attack = 18,
         m_defense = 10, m_speed = 9, xpReward = 50, goldMin = 30, goldMax = 70, dropChance = 7 / 10,
         possibleDrops = [''sword_2'', ''potion_strength'', ''potion_health''] \<rparr>),
      (''troll'', \<lparr> m_name = ''Troll'', m_minLevel = 10, m_maxLevel = 15, m_health = 150, m_attack = 25,
         m_defense = 15, m_speed = 4, xpReward = 100, goldMin = 50, goldMax = 120, dropChance = 65 / 100,
         possibleDrops = [''armor_2'', ''potion_defense'', ''mat_leather''] \<rparr>),
      (''golem'', \<lparr> m_name = ''Stone Golem'', m_minLevel = 12, m_maxLevel = 18, m_health = 200, m_attack = 20,
         m_defense = 30, m_speed = 3, xpReward = 120, goldMin = 70, goldMax = 150, dropChance = 7 / 10,
         possibleDrops = [''mat_iron'', ''armor_3'', ''amulet_speed''] \<rparr>),
      (''dragon'', \<lparr> m_name = ''Young Dragon'', m_minLevel = 15, m_maxLevel = 20, m_health = 300, m_attack = 40,
         m_defense = 25, m_speed = 12, xpReward = 200, goldMin = 100, goldMax = 250, dropChance = 9 / 10,
         possibleDrops = [''sword_4'', ''armor_4'', ''ring_atk'', ''talisman_luck''] \<rparr>)]"

definition defaultLocations :: "(string \<times> locationData) list" where
  "defaultLocations =
     [(''town'', \<lparr> l_name = ''Town'', safeZone = True, l_minLevel = 1,
         commonMonsters = [], rareMonsters = [] \<rparr>),
      (''forest'', \<lparr> l_name = ''Forest'', safeZone = False, l_minLevel = 1,
         commonMonsters = [''slime'', ''rat'', ''wolf''], rareMonsters = [''goblin''] \<rparr>),
      (''cave'', \<lparr> l_name = ''Cave'', safeZone = False, l_minLevel = 5,
         commonMonsters = [''goblin'', ''skeleton''], rareMonsters = [''troll''] \<rparr>),
      (''mountain'', \<lparr> l_name = ''Mountain'', safeZone = False, l_minLevel = 10,
         commonMonsters = [''troll'', ''golem''], rareMonsters = [''dragon''] \<rparr>)]"

definition defaultCatalog :: catalog where
  "defaultCatalog =
     \<lparr> c_items = defaultItems, c_monsters = defaultMonsters, c_locations = defaultLocations \<rparr>"

section \<open>Specification-level notions\<close>

text \<open>The combat formulas in the spec's words, over the reals.\<close>

definition spec_damage :: "int \<Rightarrow> int \<Rightarrow> int" where
  "spec_damage att dfn = max 1 (att - \<lfloor>real_of_int dfn / 2\<rfloor>)"

definition spec_turns :: "int \<Rightarrow> int \<Rightarrow> int" where
  "spec_turns hp dmg = \<lceil>real_of_int hp / real_of_int dmg\<rceil>"

text \<open>
  The invariant of a leveling row: the cached level is the one the curve gives for the
  total XP. \<open>dbInv\<close> asks it of every row of the leveling engine's shape in the store.
\<close>

definition levelInv :: "userData \<Rightarrow> bool" where
  "levelInv u =
     (0 \<le> u_xp u \<and> u_level u = min maxLevel \<lfloor>1 + sqrt (real_of_int (u_xp u) / 100)\<rfloor>)"

definition dbInv :: "db \<Rightarrow> bool" where
  "dbInv d = (\<forall>k u. d k = Some (UserRow u) \<longrightarrow> levelInv u)"


text \<open>
  What an operation for user \<open>j\<close> may do to the store \<open>d\<close>: rows under other keys
  stay, and when it leaves a changed store whose flush fails, it reports the failure (as an
  exception of the \<^verbatim>\<open>try\<close> block, or as one of the generic failure messages \<open>gs\<close>).
\<close>

definition tryEffect :: "msg set \<Rightarrow> db \<Rightarrow> string \<Rightarrow> (db \<Rightarrow> bool) \<Rightarrow> db \<times> (error + result) \<Rightarrow> bool" where
  "tryEffect gs d j flushOk x =
     ((\<forall>k. k \<noteq> cleanJid j \<longrightarrow> fst x k = d k)
      \<and> (fst x \<noteq> d \<and> \<not> flushOk (fst x) \<longrightarrow>
           snd x = Inl IOError \<or> (\<exists>g\<in>gs. snd x = Inr \<lparr> success = False, message = g \<rparr>)))"

definition opEffect :: "msg set \<Rightarrow> db \<Rightarrow> string \<Rightarrow> (db \<Rightarrow> bool) \<Rightarrow> db \<times> result \<Rightarrow> bool" where
  "opEffect gs d j flushOk x =
     ((\<forall>k. k \<noteq> cleanJid j \<longrightarrow> fst x k = d k)
      \<and> (fst x \<noteq> d \<and> \<not> flushOk (fst x) \<longrightarrow> \<not> success (snd x) \<and> message (snd x) \<in> gs))"

text \<open>
  How the \<^verbatim>\<open>catch\<close> clause turns the outcome \<open>t\<close> of a \<^verbatim>\<open>try\<close> block into the result
  \<open>x\<close> of the operation: the store is the one the block left, and an exception is
  reported as the failure with the generic message \<open>g\<close>.
\<close>

definition reportsFaults :: "msg \<Rightarrow> db \<times> (error + result) \<Rightarrow> db \<times> result \<Rightarrow> bool" where
  "reportsFaults g t x =
     (fst x = fst t
      \<and> snd x = (case snd t of Inl e \<Rightarrow> \<lparr> success = False, message = g \<rparr> | Inr r \<Rightarrow> r))"

subsection \<open>Example inputs\<close>

definition exampleProfile :: adventureData where
  "exampleProfile = (createDefaultAdventureData (Some ''Ann'') 0)\<lparr> location := ''forest'' \<rparr>"

definition exampleUser :: userData where
  "exampleUser = \<lparr> jid = ''ann'', pushName = ''Ann'', u_xp = 0, u_level = 1, messages = 0,
                   lastActive = 0, u_joinedAt = 0, groups = [], adventure = Some exampleProfile \<rparr>"

definition exampleRolls :: rolls where
  "exampleRolls =
     \<lparr> encounterRoll = 0, monsterRoll = 0, goldRoll = 1 / 2, dropRoll = 9 / 10,
       dropIndexRoll = 0, treasureGoldRoll = 0, treasureItemRoll = 0, treasureIndexRoll = 0,
       trainXpRoll = 0, trainBoostRoll = 1 / 2, trainStatRoll = 0 \<rparr>"

definition slime :: monster where
  "slime = \<lparr> m_name = ''Slime'', m_minLevel = 1, m_maxLevel = 3, m_health = 20, m_attack = 5,
             m_defense = 2, m_speed = 3, xpReward = 10, goldMin = 5, goldMax = 15,
             dropChance = 3 / 10, possibleDrops = [''potion_health'', ''mat_herb''] \<rparr>"

definition forest :: locationData where
  "forest = \<lparr> l_name = ''Forest'', safeZone = False, l_minLevel = 1,
              commonMonsters = [''slime'', ''rat'', ''wolf''], rareMonsters = [''goblin''] \<rparr>"

definition cave :: locationData where
  "cave = \<lparr> l_name = ''Cave'', safeZone = False, l_minLevel = 5,
            commonMonsters = [''goblin'', ''skeleton''], rareMonsters = [''troll''] \<rparr>"

definition ironSword :: item where
  "ironSword = \<lparr> i_name = ''Iron Sword'', i_type = Weapon, i_value = 200,
                 required_level = Some 3, restore = None, boost = False \<rparr>"

definition chainMail :: item where
  "chainMail = \<lparr> i_name = ''Chain Mail'', i_type = Armor, i_value = 350,
                 required_level = Some 5, restore = None, boost = False \<rparr>"

definition woodenSword :: item where
  "woodenSword = \<lparr> i_name = ''Wooden Sword'', i_type = Weapon, i_value = 50,
                   required_level = Some 1, restore = None, boost = False \<rparr>"

text \<open>The example user five XP short of level 2.\<close>

definition eagerProfile :: adventureData where
  "eagerProfile = exampleProfile\<lparr> xp := 95 \<rparr>"

definition eagerDb :: db where
  "eagerDb = [''ann'' \<mapsto> UserRow (exampleUser\<lparr> adventure := Some eagerProfile \<rparr>)]"

definition exampleDb :: db where
  "exampleDb = [''ann'' \<mapsto> UserRow exampleUser]"



text \<open>
  The same user at level 1 with the wooden sword equipped, an iron sword (required level 3)
  and two health potions in the inventory.
\<close>

definition armedProfile :: adventureData where
  "armedProfile =
     exampleProfile\<lparr> equipment := \<lparr> weapon = Some ''sword_1'', armor = None, accessory = None \<rparr>,
                      inventory := \<lparr> gold = 100,
                                     items = [\<lparr> item_id = ''sword_2'', quantity = 1 \<rparr>,
                                              \<lparr> item_id = ''potion_health'', quantity = 2 \<rparr>] \<rparr> \<rparr>"

definition armedDb :: db where
  "armedDb = [''ann'' \<mapsto> UserRow (exampleUser\<lparr> adventure := Some armedProfile \<rparr>)]"

text \<open>The same user at level 3 with 1000 gold.\<close>

definition shopperProfile :: adventureData where
  "shopperProfile = exampleProfile\<lparr> level := 3, inventory := \<lparr> gold = 1000, items = [] \<rparr> \<rparr>"

definition shopperDb :: db where
  "shopperDb = [''ann'' \<mapsto> UserRow (exampleUser\<lparr> adventure := Some shopperProfile \<rparr>)]"

section \<open>Verification\<close>

subsection \<open>Arithmetic helpers\<close>

lemma ceilDiv_ceiling: "ceilDiv a b = \<lceil>real_of_int a / real_of_int b\<rceil>"
  by (simp add: ceilDiv_def ceiling_divide_eq_div)

lemma half_floor: "a div 2 = \<lfloor>real_of_int a / 2\<rfloor>"
  using floor_divide_of_int_eq[of a 2, where ?'a = real] by simp

subsection \<open>Combat resolution\<close>

lemma monsterEncounter_Some:
  "selectMonsterForLocation c rs loc (level u) = Some m \<Longrightarrow>
   monsterEncounter c rs u loc =
     (if userWins u m
      then (case handleCombatVictory c rs u m of Inl e \<Rightarrow> Inl e | Inr (u', r) \<Rightarrow> Inr (u', r, True))
      else Inr (fst (handleCombatDefeat u m), snd (handleCombatDefeat u m), False))"
  by (simp add: monsterEncounter_def handleCombatDefeat_def)

lemma select_example:
  "selectMonsterForLocation defaultCatalog exampleRolls forest 1 = Some slime"
  by code_simp

text \<open>
  Claim C1. In a monster encounter the damage values and turn counts are the spec's
  formulas (floor and ceiling of the real quotients), \<^verbatim>\<open>_monsterEncounter\<close> hands the
  fight to the victory handler exactly when the user's turn count is at most the
  monster's, and to the defeat handler otherwise; with equal turn counts the user wins.
\<close>

theorem C1_combat_formula:
  assumes "selectMonsterForLocation c rs loc (level u) = Some m"
  shows "let ud = spec_damage (attack (stats u)) (m_defense m);
             md = spec_damage (m_attack m) (defense (stats u));
             tu = spec_turns (m_health m) ud;
             tm = spec_turns (health (stats u)) md
         in userDamage u m = ud \<and> monsterDamage u m = md
            \<and> userTurnsToWin u m = tu \<and> monsterTurnsToWin u m = tm
            \<and> userWins u m = (tu \<le> tm)
            \<and> monsterEncounter c rs u loc =
                (if tu \<le> tm
                 then (case handleCombatVictory c rs u m of
                         Inl e \<Rightarrow> Inl e | Inr (u', r) \<Rightarrow> Inr (u', r, True))
                 else Inr (fst (handleCombatDefeat u m), snd (handleCombatDefeat u m), False))
            \<and> (tu = tm \<longrightarrow> userWins u m)"
  using assms
  by (simp add: monsterEncounter_Some userWins_def userDamage_def monsterDamage_def
        userTurnsToWin_def monsterTurnsToWin_def ceilDiv_ceiling half_floor
        spec_damage_def spec_turns_def Let_def)

text \<open>
  At the example: a level-1 user with 9 health left meets the slime; both sides need
  three turns, and the encounter is a victory.
\<close>

theorem C1_combat_formula_witness:
  "selectMonsterForLocation defaultCatalog exampleRolls forest
      (level (exampleProfile\<lparr> stats := (stats exampleProfile)\<lparr> health := 9 \<rparr> \<rparr>)) = Some slime
   \<and> userTurnsToWin (exampleProfile\<lparr> stats := (stats exampleProfile)\<lparr> health := 9 \<rparr> \<rparr>) slime = 3
   \<and> monsterTurnsToWin (exampleProfile\<lparr> stats := (stats exampleProfile)\<lparr> health := 9 \<rparr> \<rparr>) slime = 3
   \<and> userWins (exampleProfile\<lparr> stats := (stats exampleProfile)\<lparr> health := 9 \<rparr> \<rparr>) slime"
  using C1_combat_formula
          [of defaultCatalog exampleRolls forest
              "exampleProfile\<lparr> stats := (stats exampleProfile)\<lparr> health := 9 \<rparr> \<rparr>" slime]
        select_example
  by (simp add: exampleProfile_def createDefaultAdventureData_def slime_def
        spec_damage_def spec_turns_def Let_def)

subsection \<open>The adventure level-up routine\<close>

lemma level_levelUpOnce: "level (levelUpOnce u) = level u + 1"
  by (simp add: levelUpOnce_def Let_def)

lemma level_funpow: "level ((levelUpOnce ^^ n) u) = level u + int n"
  by (induction n) (simp_all add: level_levelUpOnce)

lemma levelUpLoop_passes:
  "\<exists>n. fst (levelUpLoop u flag) = (levelUpOnce ^^ n) u
     \<and> (\<forall>k<n. xpNeeded ((levelUpOnce ^^ k) u) \<le> xp ((levelUpOnce ^^ k) u))
     \<and> xp (fst (levelUpLoop u flag)) < xpNeeded (fst (levelUpLoop u flag))
     \<and> snd (levelUpLoop u flag) = (flag \<or> 0 < n)"
proof (induction u flag rule: levelUpLoop.induct)
  case (1 u flag)
  show ?case
  proof (cases "xpNeeded u \<le> xp u")
    case False
    then have "levelUpLoop u flag = (u, flag)" by (subst levelUpLoop.simps) simp
    with False show ?thesis by (intro exI[of _ 0]) simp
  next
    case True
    then have eq: "levelUpLoop u flag = levelUpLoop (levelUpOnce u) True"
      by (subst levelUpLoop.simps) simp
    from "1.IH"[OF True] obtain n where
      n: "fst (levelUpLoop (levelUpOnce u) True) = (levelUpOnce ^^ n) (levelUpOnce u)"
         "\<forall>k<n. xpNeeded ((levelUpOnce ^^ k) (levelUpOnce u))
                  \<le> xp ((levelUpOnce ^^ k) (levelUpOnce u))"
         "xp (fst (levelUpLoop (levelUpOnce u) True))
            < xpNeeded (fst (levelUpLoop (levelUpOnce u) True))"
         "snd (levelUpLoop (levelUpOnce u) True)"
      by auto
    have a: "fst (levelUpLoop u flag) = (levelUpOnce ^^ Suc n) u"
      by (simp add: eq n(1) funpow_swap1)
    have b: "\<forall>k<Suc n. xpNeeded ((levelUpOnce ^^ k) u) \<le> xp ((levelUpOnce ^^ k) u)"
    proof (intro allI impI)
      fix k assume k: "k < Suc n"
      show "xpNeeded ((levelUpOnce ^^ k) u) \<le> xp ((levelUpOnce ^^ k) u)"
      proof (cases k)
        case 0
        then show ?thesis using True by simp
      next
        case (Suc j)
        then have "j < n" using k by simp
        with n(2) have "xpNeeded ((levelUpOnce ^^ j) (levelUpOnce u))
                          \<le> xp ((levelUpOnce ^^ j) (levelUpOnce u))"
          by blast
        then show ?thesis by (simp add: Suc funpow_swap1)
      qed
    qed
    have c: "xp (fst (levelUpLoop u flag)) < xpNeeded (fst (levelUpLoop u flag))"
      using n(3) by (simp only: eq)
    have d: "snd (levelUpLoop u flag) = (flag \<or> 0 < Suc n)"
      using n(4) by (simp add: eq)
    show ?thesis using a b c d by (intro exI[of _ "Suc n"]) blast
  qed
qed

lemma levelUpOnce_explicit:
  "levelUpOnce v =
     v\<lparr> xp := xp v - xpNeeded v, level := level v + 1,
        stats := \<lparr> health = maxHealth (stats v) + 10, maxHealth = maxHealth (stats v) + 10,
                   attack = attack (stats v) + 2, defense = defense (stats v) + 1,
                   speed = speed (stats v) + 1 \<rparr>,
        xpNeeded := xpNeededFor (level v + 1) \<rparr>"
  by (simp add: levelUpOnce_def Let_def)

lemma xpNeededFor_real: "xpNeededFor l = \<lfloor>100 * (6 / 5 :: real) powi (l - 1)\<rfloor>"
proof (cases "1 \<le> l")
  case True
  let ?n = "nat (l - 1)"
  have "(100 * (6 / 5 :: real) powi (l - 1)) = real_of_int (100 * 6 ^ ?n) / real_of_int (5 ^ ?n)"
    using True by (simp add: power_int_def power_divide)
  then show ?thesis using True by (simp only: floor_divide_of_int_eq xpNeededFor_def if_True)
next
  case False
  let ?n = "nat (1 - l)"
  have "nat (- (l - 1)) = ?n" by simp
  then have "(100 * (6 / 5 :: real) powi (l - 1)) = real_of_int (100 * 5 ^ ?n) / real_of_int (6 ^ ?n)"
    using False by (simp add: power_int_def power_divide)
  then show ?thesis using False by (simp only: floor_divide_of_int_eq xpNeededFor_def if_False)
qed

lemma addXP_adv_passes:
  fixes u :: adventureData and amount :: int
  defines "u0 \<equiv> u\<lparr> xp := xp u + amount \<rparr>"
  defines "r \<equiv> fst (addXP_adv u amount)"
  defines "n \<equiv> nat (level r - level u)"
  shows "r = (levelUpOnce ^^ n) u0"
    and "\<forall>k<n. xpNeeded ((levelUpOnce ^^ k) u0) \<le> xp ((levelUpOnce ^^ k) u0)"
    and "xp r < xpNeeded r"
    and "snd (addXP_adv u amount) = (0 < n)"
    and "level r = level u + int n"
proof -
  obtain m where m:
    "fst (levelUpLoop u0 False) = (levelUpOnce ^^ m) u0"
    "\<forall>k<m. xpNeeded ((levelUpOnce ^^ k) u0) \<le> xp ((levelUpOnce ^^ k) u0)"
    "xp (fst (levelUpLoop u0 False)) < xpNeeded (fst (levelUpLoop u0 False))"
    "snd (levelUpLoop u0 False) = (False \<or> 0 < m)"
    using levelUpLoop_passes[of u0 False] by blast
  have r: "r = fst (levelUpLoop u0 False)" by (simp add: r_def addXP_adv_def u0_def)
  have "level r = level u0 + int m" by (simp add: r m(1) level_funpow)
  then have lv: "level r = level u + int m" by (simp add: u0_def)
  then have nm: "n = m" by (simp add: n_def)
  show "r = (levelUpOnce ^^ n) u0" by (simp add: nm r m(1))
  show "\<forall>k<n. xpNeeded ((levelUpOnce ^^ k) u0) \<le> xp ((levelUpOnce ^^ k) u0)"
    using m(2) by (simp add: nm)
  show "xp r < xpNeeded r" using m(3) by (simp add: r)
  show "snd (addXP_adv u amount) = (0 < n)" using m(4) by (simp add: nm addXP_adv_def u0_def)
  show "level r = level u + int n" by (simp add: lv nm)
qed

lemma addXP_adv_scenario:
  assumes "level u = 1" "xp u = 95" "xpNeeded u = 100"
  shows "addXP_adv u 10 =
           (u\<lparr> xp := 5, level := 2,
               stats := \<lparr> health = maxHealth (stats u) + 10, maxHealth = maxHealth (stats u) + 10,
                          attack = attack (stats u) + 2, defense = defense (stats u) + 1,
                          speed = speed (stats u) + 1 \<rparr>,
               xpNeeded := 120 \<rparr>, True)"
proof -
  let ?v = "u\<lparr> xp := 5, level := 2,
               stats := \<lparr> health = maxHealth (stats u) + 10, maxHealth = maxHealth (stats u) + 10,
                          attack = attack (stats u) + 2, defense = defense (stats u) + 1,
                          speed = speed (stats u) + 1 \<rparr>,
               xpNeeded := 120 \<rparr>"
  have "addXP_adv u 10 = levelUpLoop (u\<lparr> xp := 105 \<rparr>) False"
    using assms by (simp add: addXP_adv_def)
  also have "\<dots> = levelUpLoop (levelUpOnce (u\<lparr> xp := 105 \<rparr>)) True"
    using assms by (subst levelUpLoop.simps) simp
  also have "levelUpOnce (u\<lparr> xp := 105 \<rparr>) = ?v"
    using assms by (simp add: levelUpOnce_explicit xpNeededFor_def)
  also have "levelUpLoop ?v True = (?v, True)"
    by (subst levelUpLoop.simps) simp
  finally show ?thesis .
qed

text \<open>
  Claim C2, for profiles from level 1 that end at level 154 or below. \<^verbatim>\<open>_addXP\<close>
  adds the amount to \<open>xp\<close> and then runs the level-up pass as long as
  \<open>xp \<ge> xpNeeded\<close>: the result is the \<open>n\<close>-fold pass over the profile with the amount
  added, every one of these passes started with \<open>xp \<ge> xpNeeded\<close>, the result has
  \<open>xp < xpNeeded\<close>, \<open>n\<close> is the number of levels gained (so a large grant gives several
  levels), and \<^verbatim>\<open>leveledUp\<close> says whether \<open>n > 0\<close>. One pass from a level between 1 and
  153 subtracts \<open>xpNeeded\<close>, adds 1 to the level, 10 to \<open>maxHealth\<close>, sets \<open>health\<close> to
  the new \<open>maxHealth\<close>, adds 2, 1 and 1 to attack, defense and speed and sets
  \<open>xpNeeded\<close> to \<open>floor (100 * 1.2 ^ (level - 1))\<close> for the new level. A profile at
  level 1 with 95 of 100 XP that is granted 10 XP ends at level 2 with 5 XP,
  \<open>xpNeeded = 120\<close>, the stat deltas applied and full health.
\<close>

theorem C2_level_up_routine:
  "(let u0 = u\<lparr> xp := xp u + amount \<rparr>;
        r = fst (addXP_adv u amount);
        n = nat (level r - level u)
    in 1 \<le> level u \<and> level r \<le> 154 \<longrightarrow>
         r = (levelUpOnce ^^ n) u0
         \<and> (\<forall>k<n. xpNeeded ((levelUpOnce ^^ k) u0) \<le> xp ((levelUpOnce ^^ k) u0))
         \<and> xp r < xpNeeded r
         \<and> snd (addXP_adv u amount) = (0 < n)
         \<and> level r = level u + int n)
   \<and> (1 \<le> level v \<and> level v \<le> 153 \<longrightarrow>
        levelUpOnce v =
          v\<lparr> xp := xp v - xpNeeded v, level := level v + 1,
             stats := \<lparr> health = maxHealth (stats v) + 10, maxHealth = maxHealth (stats v) + 10,
                        attack = attack (stats v) + 2, defense = defense (stats v) + 1,
                        speed = speed (stats v) + 1 \<rparr>,
             xpNeeded := \<lfloor>100 * (6 / 5 :: real) powi ((level v + 1) - 1)\<rfloor> \<rparr>)
   \<and> (level w = 1 \<and> xp w = 95 \<and> xpNeeded w = 100 \<longrightarrow>
        addXP_adv w 10 =
          (w\<lparr> xp := 5, level := 2,
              stats := \<lparr> health = maxHealth (stats w) + 10, maxHealth = maxHealth (stats w) + 10,
                         attack = attack (stats w) + 2, defense = defense (stats w) + 1,
                         speed = speed (stats w) + 1 \<rparr>,
              xpNeeded := 120 \<rparr>, True))"
proof (intro conjI)
  show "let u0 = u\<lparr> xp := xp u + amount \<rparr>;
            r = fst (addXP_adv u amount);
            n = nat (level r - level u)
        in 1 \<le> level u \<and> level r \<le> 154 \<longrightarrow>
             r = (levelUpOnce ^^ n) u0
             \<and> (\<forall>k<n. xpNeeded ((levelUpOnce ^^ k) u0) \<le> xp ((levelUpOnce ^^ k) u0))
             \<and> xp r < xpNeeded r
             \<and> snd (addXP_adv u amount) = (0 < n)
             \<and> level r = level u + int n"
    unfolding Let_def using addXP_adv_passes[of u amount] by blast
  show "1 \<le> level v \<and> level v \<le> 153 \<longrightarrow>
        levelUpOnce v =
          v\<lparr> xp := xp v - xpNeeded v, level := level v + 1,
             stats := \<lparr> health = maxHealth (stats v) + 10, maxHealth = maxHealth (stats v) + 10,
                        attack = attack (stats v) + 2, defense = defense (stats v) + 1,
                        speed = speed (stats v) + 1 \<rparr>,
             xpNeeded := \<lfloor>100 * (6 / 5 :: real) powi ((level v + 1) - 1)\<rfloor> \<rparr>"
    by (simp only: levelUpOnce_explicit xpNeededFor_real) simp
  show "level w = 1 \<and> xp w = 95 \<and> xpNeeded w = 100 \<longrightarrow>
        addXP_adv w 10 =
          (w\<lparr> xp := 5, level := 2,
              stats := \<lparr> health = maxHealth (stats w) + 10, maxHealth = maxHealth (stats w) + 10,
                         attack = attack (stats w) + 2, defense = defense (stats w) + 1,
                         speed = speed (stats w) + 1 \<rparr>,
              xpNeeded := 120 \<rparr>, True)"
    using addXP_adv_scenario[of w] by blast
qed

lemma addXP_adv_jump:
  "level (fst (addXP_adv exampleProfile 1000)) = 7 \<and> xp (fst (addXP_adv exampleProfile 1000)) = 9"
  by code_simp

text \<open>
  At the example: the default profile with 95 XP gains one level from 10 XP, and the
  default profile gains six levels, to level 7, from one grant of 1000 XP.
\<close>

theorem C2_level_up_routine_witness:
  "level (exampleProfile\<lparr> xp := 95 \<rparr>) = 1
   \<and> xp (exampleProfile\<lparr> xp := 95 \<rparr>) = 95
   \<and> xpNeeded (exampleProfile\<lparr> xp := 95 \<rparr>) = 100
   \<and> addXP_adv (exampleProfile\<lparr> xp := 95 \<rparr>) 10 =
        (exampleProfile\<lparr> xp := 5, level := 2,
            stats := \<lparr> health = 110, maxHealth = 110, attack = 12, defense = 6, speed = 9 \<rparr>,
            xpNeeded := 120 \<rparr>, True)
   \<and> 1 \<le> level exampleProfile
   \<and> level exampleProfile \<le> 153
   \<and> xpNeeded (levelUpOnce exampleProfile) = 120
   \<and> level (fst (addXP_adv exampleProfile 1000)) \<le> 154
   \<and> nat (level (fst (addXP_adv exampleProfile 1000)) - level exampleProfile) = 6
   \<and> fst (addXP_adv exampleProfile 1000) =
        (levelUpOnce ^^ 6) (exampleProfile\<lparr> xp := xp exampleProfile + 1000 \<rparr>)
   \<and> snd (addXP_adv exampleProfile 1000)"
proof -
  have lv: "level exampleProfile = 1"
    by (simp add: exampleProfile_def createDefaultAdventureData_def)
  have top: "level (fst (addXP_adv exampleProfile 1000)) \<le> 154"
    using addXP_adv_jump by simp
  have six: "nat (level (fst (addXP_adv exampleProfile 1000)) - level exampleProfile) = 6"
    using addXP_adv_jump by (simp add: lv)
  note t = C2_level_up_routine
             [of exampleProfile 1000 exampleProfile "exampleProfile\<lparr> xp := 95 \<rparr>"]
  have one: "addXP_adv (exampleProfile\<lparr> xp := 95 \<rparr>) 10 =
        (exampleProfile\<lparr> xp := 5, level := 2,
            stats := \<lparr> health = 110, maxHealth = 110, attack = 12, defense = 6, speed = 9 \<rparr>,
            xpNeeded := 120 \<rparr>, True)"
    using t by (simp add: exampleProfile_def createDefaultAdventureData_def)
  have jump: "fst (addXP_adv exampleProfile 1000) =
        (levelUpOnce ^^ 6) (exampleProfile\<lparr> xp := xp exampleProfile + 1000 \<rparr>)
      \<and> snd (addXP_adv exampleProfile 1000)"
    using t top lv unfolding Let_def six by simp
  have "levelUpOnce exampleProfile =
          exampleProfile\<lparr> xp := xp exampleProfile - xpNeeded exampleProfile,
             level := level exampleProfile + 1,
             stats := \<lparr> health = maxHealth (stats exampleProfile) + 10,
                        maxHealth = maxHealth (stats exampleProfile) + 10,
                        attack = attack (stats exampleProfile) + 2,
                        defense = defense (stats exampleProfile) + 1,
                        speed = speed (stats exampleProfile) + 1 \<rparr>,
             xpNeeded := \<lfloor>100 * (6 / 5 :: real) powi ((level exampleProfile + 1) - 1)\<rfloor> \<rparr>"
    using t lv by simp
  then have "xpNeeded (levelUpOnce exampleProfile)
               = \<lfloor>100 * (6 / 5 :: real) powi ((level exampleProfile + 1) - 1)\<rfloor>"
    by simp
  then have nx: "xpNeeded (levelUpOnce exampleProfile) = 120" by (simp add: lv)
  show ?thesis using one jump six top nx
    by (simp add: exampleProfile_def createDefaultAdventureData_def)
qed

subsection \<open>The leveling curve\<close>

lemma neededXp_eq: "getXpNeeded l - getXpNeeded (l - 1) = 200 * l - 100"
  unfolding getXpNeeded_def by (simp add: power2_eq_square algebra_simps)

lemma getXpNeeded_strict: "1 \<le> a \<Longrightarrow> a < b \<Longrightarrow> getXpNeeded a < getXpNeeded b"
  unfolding getXpNeeded_def by (simp add: power_strict_mono)

text \<open>Rounding to the nearest integer is within a half, and never crosses an integer.\<close>

lemma roundEven_lower: "x - 1 / 2 \<le> of_int (roundEven x)"
  unfolding roundEven_def Let_def by (auto; linarith)

lemma roundEven_upper: "of_int (roundEven x) \<le> x + 1 / 2"
  unfolding roundEven_def Let_def by (auto; linarith)

lemma roundEven_ge_int: "of_int m \<le> x \<Longrightarrow> m \<le> roundEven x"
  using roundEven_lower[of x] by linarith

lemma roundEven_le_int: "x \<le> of_int m \<Longrightarrow> roundEven x \<le> m"
  using roundEven_upper[of x] by linarith

lemma ilog2_bounds:
  assumes "0 < x"
  shows "2 powi (ilog2 x) \<le> x" and "x < 2 powi (ilog2 x + 1)"
proof -
  show "2 powi (ilog2 x) \<le> x"
  proof (cases "1 \<le> x")
    case True
    then have f: "0 < \<lfloor>x\<rfloor>" by simp
    from bitlen_bounds[OF f] have "2 ^ nat (bitlen \<lfloor>x\<rfloor> - 1) \<le> \<lfloor>x\<rfloor>" by simp
    then have "(2::real) ^ nat (bitlen \<lfloor>x\<rfloor> - 1) \<le> of_int \<lfloor>x\<rfloor>"
      by (metis of_int_le_iff of_int_numeral of_int_power)
    also have "\<dots> \<le> x" by simp
    finally have "(2::real) ^ nat (bitlen \<lfloor>x\<rfloor> - 1) \<le> x" .
    moreover have "1 \<le> bitlen \<lfloor>x\<rfloor>" using f by (simp add: bitlen_alt_def)
    ultimately show ?thesis using True by (simp add: ilog2_def power_int_def)
  next
    case False
    let ?c = "\<lceil>1 / x\<rceil>"
    let ?m = "bitlen (?c - 1)"
    from False assms have "1 < 1 / x" by simp
    then have c: "2 \<le> ?c" by linarith
    then have p: "0 < ?c - 1" by simp
    from bitlen_bounds[OF p] have "?c - 1 < 2 ^ nat ?m" by simp
    then have "?c \<le> 2 ^ nat ?m" by simp
    then have "(of_int ?c :: real) \<le> 2 ^ nat ?m"
      by (metis of_int_le_iff of_int_numeral of_int_power)
    moreover have "1 / x \<le> of_int ?c" by simp
    ultimately have "1 / x \<le> 2 ^ nat ?m" by linarith
    then have "1 \<le> x * 2 ^ nat ?m" using assms by (simp add: field_simps)
    then have "1 / 2 ^ nat ?m \<le> x" by (simp add: field_simps)
    moreover have "1 \<le> ?m" using p by (simp add: bitlen_alt_def)
    ultimately show ?thesis using False
      by (simp add: ilog2_def power_int_def field_simps)
  qed
  show "x < 2 powi (ilog2 x + 1)"
  proof (cases "1 \<le> x")
    case True
    then have f: "0 < \<lfloor>x\<rfloor>" by simp
    from bitlen_bounds[OF f] have "\<lfloor>x\<rfloor> < 2 ^ nat (bitlen \<lfloor>x\<rfloor>)" by simp
    then have "\<lfloor>x\<rfloor> + 1 \<le> 2 ^ nat (bitlen \<lfloor>x\<rfloor>)" by simp
    then have "(of_int (\<lfloor>x\<rfloor> + 1) :: real) \<le> 2 ^ nat (bitlen \<lfloor>x\<rfloor>)"
      by (metis of_int_le_iff of_int_numeral of_int_power)
    moreover have "x < of_int (\<lfloor>x\<rfloor> + 1)" by linarith
    ultimately have "x < 2 ^ nat (bitlen \<lfloor>x\<rfloor>)" by linarith
    moreover have "0 \<le> bitlen \<lfloor>x\<rfloor>" by (rule bitlen_nonneg)
    ultimately show ?thesis using True by (simp add: ilog2_def power_int_def)
  next
    case False
    let ?c = "\<lceil>1 / x\<rceil>"
    let ?m = "bitlen (?c - 1)"
    from False assms have "1 < 1 / x" by simp
    then have c: "2 \<le> ?c" by linarith
    then have p: "0 < ?c - 1" by simp
    then have m1: "1 \<le> ?m" by (simp add: bitlen_alt_def)
    from bitlen_bounds[OF p] have "2 ^ nat (?m - 1) \<le> ?c - 1" by simp
    then have "(2::real) ^ nat (?m - 1) \<le> of_int (?c - 1)"
      by (metis of_int_le_iff of_int_numeral of_int_power)
    moreover have "of_int (?c - 1) < 1 / x" by linarith
    ultimately have "(2::real) ^ nat (?m - 1) < 1 / x" by linarith
    then have "x * 2 ^ nat (?m - 1) < 1" using assms by (simp add: field_simps)
    then have "x < 1 / 2 ^ nat (?m - 1)" by (simp add: field_simps)
    moreover have "- ?m + 1 \<le> 0" using m1 by simp
    moreover have "nat (- (- ?m + 1)) = nat (?m - 1)" by simp
    ultimately show ?thesis using False m1
      by (simp add: ilog2_def power_int_def field_simps)
  qed
qed

lemma ilog2_unique:
  assumes "2 powi k \<le> x" "x < 2 powi (k + 1)"
  shows "ilog2 x = k"
proof -
  have "(0::real) < 2 powi k" by simp
  with assms(1) have x: "0 < x" by linarith
  from ilog2_bounds[OF x] have a: "2 powi (ilog2 x) \<le> x" and b: "x < 2 powi (ilog2 x + 1)" .
  have "k < ilog2 x + 1"
  proof (rule ccontr)
    assume "\<not> k < ilog2 x + 1"
    then have "(2::real) powi (ilog2 x + 1) \<le> 2 powi k" by (intro power_int_increasing) simp_all
    with assms(1) b show False by linarith
  qed
  moreover have "ilog2 x < k + 1"
  proof (rule ccontr)
    assume "\<not> ilog2 x < k + 1"
    then have "(2::real) powi (k + 1) \<le> 2 powi (ilog2 x)" by (intro power_int_increasing) simp_all
    with assms(2) a show False by linarith
  qed
  ultimately show ?thesis by simp
qed

lemma rd_pos:
  assumes "2 powi k \<le> x" "x < 2 powi (k + 1)"
  shows "rd x = of_int (roundEven (x / 2 powi (k - 52))) * 2 powi (k - 52)"
proof -
  have "(0::real) < 2 powi k" by simp
  with assms(1) have x: "0 < x" by linarith
  then show ?thesis using ilog2_unique[OF assms] by (simp add: rd_def Let_def)
qed

lemma rd_ge_pow2:
  assumes "2 powi k \<le> x"
  shows "2 powi k \<le> rd x"
proof -
  have "(0::real) < 2 powi k" by simp
  with assms have x: "0 < x" by linarith
  let ?j = "ilog2 x"
  from ilog2_bounds[OF x] have a: "2 powi ?j \<le> x" and b: "x < 2 powi (?j + 1)" .
  have kj: "k \<le> ?j"
  proof (rule ccontr)
    assume "\<not> k \<le> ?j"
    then have "(2::real) powi (?j + 1) \<le> 2 powi k" by (intro power_int_increasing) simp_all
    with assms b show False by linarith
  qed
  have "x / 2 powi (?j - 52) \<ge> 2 powi ?j / 2 powi (?j - 52)"
    using a by (simp add: divide_right_mono)
  moreover have "(2::real) powi ?j / 2 powi (?j - 52) = 2 ^ 52"
    by (simp add: power_int_diff)
  ultimately have "of_int (2 ^ 52) \<le> x / 2 powi (?j - 52)" by simp
  then have "2 ^ 52 \<le> roundEven (x / 2 powi (?j - 52))" by (rule roundEven_ge_int)
  then have "(2::real) ^ 52 \<le> of_int (roundEven (x / 2 powi (?j - 52)))"
    by (metis of_int_le_iff of_int_numeral of_int_power)
  then have m: "(2::real) ^ 52 * 2 powi (?j - 52)
               \<le> of_int (roundEven (x / 2 powi (?j - 52))) * 2 powi (?j - 52)"
    by (intro mult_right_mono) simp_all
  have eq: "(2::real) ^ 52 * 2 powi (?j - 52) = 2 powi ?j"
    by (simp add: power_int_diff)
  have "(2::real) powi ?j \<le> of_int (roundEven (x / 2 powi (?j - 52))) * 2 powi (?j - 52)"
    using m by (simp only: eq)
  then have "2 powi ?j \<le> rd x" by (simp only: rd_pos[OF a b])
  moreover have "(2::real) powi k \<le> 2 powi ?j" using kj by (intro power_int_increasing) simp_all
  ultimately show ?thesis by linarith
qed

lemma rd_0: "rd 0 = 0"
  by (simp add: rd_def)

lemma roundEven_of_int: "roundEven (of_int m) = m"
  by (simp add: roundEven_def)

lemma rd_1: "rd 1 = 1"
proof -
  have "(1::real) / 2 powi (0 - 52) = of_int (2 ^ 52)" by (simp add: power_int_def field_simps)
  then have "roundEven (1 / 2 powi (0 - 52)) = 2 ^ 52" by (simp only: roundEven_of_int)
  then show ?thesis using rd_pos[of 0 1] by (simp add: power_int_def field_simps)
qed

lemma rd_ge_100:
  assumes "100 \<le> y"
  shows "100 \<le> rd y"
proof (cases "y < 128")
  case True
  have a: "2 powi 6 \<le> y" using assms by (simp add: power_int_def)
  have b: "y < 2 powi (6 + 1)" using True by (simp add: power_int_def)
  have e: "y / 2 powi (6 - 52) = y * 2 ^ 46" by (simp add: power_int_def field_simps)
  have "of_int (100 * 2 ^ 46) \<le> y * 2 ^ 46" using assms by simp
  then have "100 * 2 ^ 46 \<le> roundEven (y * 2 ^ 46)" by (rule roundEven_ge_int)
  then have "(of_int (100 * 2 ^ 46) :: real) \<le> of_int (roundEven (y * 2 ^ 46))"
    by (simp only: of_int_le_iff)
  then have "100 * 2 ^ 46 \<le> real_of_int (roundEven (y * 2 ^ 46))" by simp
  then show ?thesis using rd_pos[OF a b] by (simp add: e power_int_def field_simps)
next
  case False
  then have "2 powi 7 \<le> y" by (simp add: power_int_def)
  then have "2 powi 7 \<le> rd y" by (rule rd_ge_pow2)
  then show ?thesis by (simp add: power_int_def)
qed

lemma percentageOf_zero: "percentageOf 0 n = 0"
  by (simp add: percentageOf_def rd_0)

lemma percentageOf_full:
  assumes "0 < n" "n \<le> c"
  shows "percentageOf c n = 100"
proof -
  have "2 powi 0 \<le> real_of_int c / real_of_int n" using assms by simp
  then have "2 powi 0 \<le> rd (real_of_int c / real_of_int n)" by (rule rd_ge_pow2)
  then have "100 \<le> rd (real_of_int c / real_of_int n) * 100" by simp
  then have "100 \<le> rd (rd (real_of_int c / real_of_int n) * 100)" by (rule rd_ge_100)
  then have "100 \<le> \<lfloor>rd (rd (real_of_int c / real_of_int n) * 100)\<rfloor>" by linarith
  then show ?thesis by (simp add: percentageOf_def)
qed

lemma percentageOf_last:
  assumes "100 \<le> n" "n \<le> 2 ^ 53"
  shows "percentageOf (n - 1) n = 99"
proof -
  define q where "q = real_of_int (n - 1) / real_of_int n"
  define R where "R = roundEven (q * 2 ^ 53)"
  define y where "y = real_of_int R * 100 / 2 ^ 53"
  define S where "S = roundEven (y * 2 ^ 46)"
  have n: "0 < real_of_int n" "real_of_int n \<le> 2 ^ 53" "100 \<le> real_of_int n"
    using assms by simp_all
  have q: "q = 1 - 1 / real_of_int n" using n by (simp add: q_def field_simps)
  have "1 / real_of_int n \<le> 1 / 100" using n by (simp add: field_simps)
  then have qlo: "99 / 100 \<le> q" by (simp add: q)
  have "1 / 2 ^ 53 \<le> 1 / real_of_int n" using n by (simp add: field_simps)
  then have qhi: "q \<le> 1 - 1 / 2 ^ 53" by (simp add: q)
  have a: "2 powi (- 1) \<le> q" using qlo by (simp add: power_int_def)
  have b: "q < 2 powi (- 1 + 1)" using qhi by simp
  have e: "q / 2 powi (- 1 - 52) = q * 2 ^ 53" by (simp add: power_int_def field_simps)
  have rq: "rd q = real_of_int R / 2 ^ 53"
    using rd_pos[OF a b] by (simp add: e R_def power_int_def field_simps)
  have "q * 2 ^ 53 \<le> of_int (2 ^ 53 - 1)" using qhi by (simp add: field_simps)
  then have "R \<le> 2 ^ 53 - 1" unfolding R_def by (rule roundEven_le_int)
  then have "real_of_int R \<le> of_int (2 ^ 53 - 1)" by (simp only: of_int_le_iff)
  then have Rhi: "real_of_int R \<le> 2 ^ 53 - 1" by simp
  have "q * 2 ^ 53 - 1 / 2 \<le> real_of_int R" unfolding R_def by (rule roundEven_lower)
  then have Rlo: "99 / 100 * 2 ^ 53 - 1 / 2 \<le> real_of_int R" using qlo by simp
  have yq: "rd q * 100 = y" by (simp add: rq y_def)
  have ylo: "99 - 50 / 2 ^ 53 \<le> y" using Rlo by (simp add: y_def field_simps)
  have yhi: "y \<le> 100 - 100 / 2 ^ 53" using Rhi by (simp add: y_def field_simps)
  have a': "2 powi 6 \<le> y" using ylo by (simp add: power_int_def)
  have b': "y < 2 powi (6 + 1)" using yhi by (simp add: power_int_def)
  have e': "y / 2 powi (6 - 52) = y * 2 ^ 46" by (simp add: power_int_def field_simps)
  have ry: "rd y = real_of_int S / 2 ^ 46"
    using rd_pos[OF a' b'] by (simp add: e' S_def power_int_def field_simps)
  have "y * 2 ^ 46 - 1 / 2 \<le> real_of_int S" unfolding S_def by (rule roundEven_lower)
  then have "of_int (99 * 2 ^ 46 - 1) < real_of_int S" using ylo by (simp add: field_simps)
  then have "99 * 2 ^ 46 - 1 < S" by (simp only: of_int_less_iff)
  then have "99 * 2 ^ 46 \<le> S" by simp
  then have "real_of_int (99 * 2 ^ 46) \<le> real_of_int S" by (simp only: of_int_le_iff)
  then have Slo: "99 * 2 ^ 46 \<le> real_of_int S" by simp
  have "real_of_int S \<le> y * 2 ^ 46 + 1 / 2" unfolding S_def by (rule roundEven_upper)
  then have Shi: "real_of_int S < 100 * 2 ^ 46" using yhi by (simp add: field_simps)
  have "99 \<le> rd y" using Slo by (simp add: ry field_simps)
  moreover have "rd y < 100" using Shi by (simp add: ry field_simps)
  ultimately have "\<lfloor>rd y\<rfloor> = 99" by linarith
  then have "\<lfloor>rd (rd q * 100)\<rfloor> = 99" by (simp only: yq)
  then show ?thesis unfolding percentageOf_def q_def by simp
qed

lemma rd_err:
  assumes "0 < x"
  shows "\<bar>rd x - x\<bar> \<le> x / 2 ^ 53"
proof -
  let ?k = "ilog2 x"
  let ?P = "(2::real) powi (?k - 52)"
  let ?R = "roundEven (x / ?P)"
  from ilog2_bounds[OF assms] have a: "2 powi ?k \<le> x" and b: "x < 2 powi (?k + 1)" .
  have P: "0 < ?P" by simp
  have r: "rd x = real_of_int ?R * ?P" by (rule rd_pos[OF a b])
  have "\<bar>real_of_int ?R - x / ?P\<bar> \<le> 1 / 2"
    using roundEven_lower[of "x / ?P"] roundEven_upper[of "x / ?P"] by linarith
  then have "\<bar>real_of_int ?R - x / ?P\<bar> * ?P \<le> 1 / 2 * ?P"
    by (intro mult_right_mono) simp_all
  moreover have "\<bar>real_of_int ?R - x / ?P\<bar> * ?P = \<bar>real_of_int ?R * ?P - x\<bar>"
  proof -
    have "\<bar>real_of_int ?R - x / ?P\<bar> * ?P = \<bar>(real_of_int ?R - x / ?P) * ?P\<bar>"
      using P by (simp add: abs_mult)
    also have "(real_of_int ?R - x / ?P) * ?P = real_of_int ?R * ?P - x"
      using P by (simp add: field_simps)
    finally show ?thesis .
  qed
  ultimately have "\<bar>rd x - x\<bar> \<le> 1 / 2 * ?P" by (simp only: r)
  moreover have "1 / 2 * ?P = 2 powi ?k / 2 ^ 53" by (simp add: power_int_diff)
  moreover have "2 powi ?k / 2 ^ 53 \<le> x / 2 ^ 53" using a by (simp add: divide_right_mono)
  ultimately show ?thesis by linarith
qed

lemma percentageOf_interior:
  assumes "0 \<le> c" "c \<le> n" "0 < n" "n \<le> 2 ^ 40"
  shows "percentageOf c n = (100 * c) div n \<or> (n dvd 100 * c \<and> percentageOf c n = (100 * c) div n - 1)"
proof (cases "c = 0")
  case True
  then show ?thesis by (simp add: percentageOf_zero)
next
  case False
  define q where "q = real_of_int c / real_of_int n"
  define y where "y = rd q * 100"
  define K where "K = (100 * c) div n"
  define r where "r = (100 * c) mod n"
  have c: "0 < real_of_int c" using False assms(1) by simp
  have n: "0 < real_of_int n" "real_of_int n \<le> 2 ^ 40" using assms by simp_all
  have q: "0 < q" "q \<le> 1" using c n assms(2) by (simp_all add: q_def)
  from rd_err[OF q(1)] have "\<bar>rd q - q\<bar> \<le> q / 2 ^ 53" .
  then have eq: "q - q / 2 ^ 53 \<le> rd q" "rd q \<le> q + q / 2 ^ 53" by linarith+
  have "q / 2 ^ 53 \<le> 1 / 2 ^ 53" using q(2) by (simp add: field_simps)
  with eq have eq1: "q - 1 / 2 ^ 53 \<le> rd q" "rd q \<le> q + 1 / 2 ^ 53" by linarith+
  have "2 powi ilog2 q \<le> rd q" using ilog2_bounds(1)[OF q(1)] by (rule rd_ge_pow2)
  moreover have "(0::real) < 2 powi ilog2 q" by simp
  ultimately have rq: "0 < rd q" by linarith
  have y: "0 < y" using rq by (simp add: y_def)
  have yq: "100 * q - 100 / 2 ^ 53 \<le> y" "y \<le> 100 * q + 100 / 2 ^ 53"
    using eq1 by (simp_all add: y_def)
  then have yhi: "y \<le> 101" using q(2) by simp
  from rd_err[OF y] have "\<bar>rd y - y\<bar> \<le> y / 2 ^ 53" .
  then have ey0: "y - y / 2 ^ 53 \<le> rd y" "rd y \<le> y + y / 2 ^ 53" by linarith+
  have "y / 2 ^ 53 \<le> 101 / 2 ^ 53" using yhi by (simp add: field_simps)
  with ey0 have ey: "y - 101 / 2 ^ 53 \<le> rd y" "rd y \<le> y + 101 / 2 ^ 53" by linarith+
  have tot: "100 * q - 201 / 2 ^ 53 \<le> rd y" "rd y \<le> 100 * q + 201 / 2 ^ 53"
    using ey yq by simp_all
  have dm: "100 * c = K * n + r" by (simp add: K_def r_def)
  have r: "0 \<le> r" "r < n" using assms(3) by (simp_all add: r_def)
  have "real_of_int (100 * c) = real_of_int (K * n + r)" by (simp only: dm)
  then have "100 * real_of_int c = real_of_int K * real_of_int n + real_of_int r" by simp
  then have hq: "100 * q = real_of_int K + real_of_int r / real_of_int n"
    using n by (simp add: q_def field_simps)
  have "(100 * c) div n \<le> (100 * n) div n" using assms by (intro zdiv_mono1) simp_all
  then have K: "0 \<le> K" "K \<le> 100"
    using assms by (simp_all add: K_def pos_imp_zdiv_nonneg_iff)
  have small: "(201::real) / 2 ^ 53 < 1 / real_of_int n"
  proof -
    have "(201::real) / 2 ^ 53 < 1 / 2 ^ 40" by simp
    also have "\<dots> \<le> 1 / real_of_int n" using n by (simp add: field_simps)
    finally show ?thesis .
  qed
  have fl: "\<lfloor>rd (rd q * 100)\<rfloor> = K \<or> (r = 0 \<and> \<lfloor>rd (rd q * 100)\<rfloor> = K - 1)"
  proof (cases "r = 0")
    case True
    then have "100 * q = real_of_int K" using hq by simp
    with tot have "real_of_int K - 201 / 2 ^ 53 \<le> rd y" "rd y \<le> real_of_int K + 201 / 2 ^ 53"
      by simp_all
    then have "real_of_int K - 1 \<le> rd y" "rd y < real_of_int K + 1" by simp_all
    then have "\<lfloor>rd y\<rfloor> = K \<or> \<lfloor>rd y\<rfloor> = K - 1" by linarith
    with True show ?thesis by (simp add: y_def)
  next
    case False
    with r have "1 \<le> r" "r \<le> n - 1" by simp_all
    then have "1 \<le> real_of_int r" "real_of_int r \<le> real_of_int n - 1" by linarith+
    then have "1 / real_of_int n \<le> real_of_int r / real_of_int n"
         "real_of_int r / real_of_int n \<le> 1 - 1 / real_of_int n"
      using n by (simp_all add: field_simps)
    with hq tot small have "real_of_int K \<le> rd y" "rd y < real_of_int K + 1"
      by linarith+
    then have "\<lfloor>rd y\<rfloor> = K" by linarith
    then show ?thesis by (simp add: y_def)
  qed
  have kpos: "r = 0 \<Longrightarrow> 1 \<le> K"
  proof -
    assume "r = 0"
    with dm have "100 * c = K * n" by simp
    moreover have "0 < 100 * c" using False assms(1) by simp
    ultimately have "0 < K * n" by simp
    with assms(3) have "0 < K" by (simp add: zero_less_mult_iff)
    then show ?thesis by simp
  qed
  have dv: "r = 0 \<Longrightarrow> n dvd 100 * c" by (simp add: r_def dvd_eq_mod_eq_0)
  from fl show ?thesis
  proof
    assume "\<lfloor>rd (rd q * 100)\<rfloor> = K"
    then show ?thesis using K by (simp add: percentageOf_def q_def K_def)
  next
    assume h: "r = 0 \<and> \<lfloor>rd (rd q * 100)\<rfloor> = K - 1"
    then have "percentageOf c n = K - 1" using K kpos by (simp add: percentageOf_def q_def)
    with h dv show ?thesis by (simp add: K_def)
  qed
qed

lemma percentage_eq:
  "percentage (getProgress l x) = percentageOf (x - getXpNeeded (l - 1)) (200 * l - 100)"
  unfolding getProgress_def Let_def by (simp add: neededXp_eq)

lemma pct_at_start: "percentage (getProgress l (getXpNeeded (l - 1))) = 0"
  by (simp add: percentage_eq percentageOf_zero)

lemma pct_before_threshold:
  assumes "1 \<le> l" "l \<le> 1000000"
  shows "percentage (getProgress l (getXpNeeded l - 1)) = 99"
proof -
  have e: "getXpNeeded l - 1 - getXpNeeded (l - 1) = (200 * l - 100) - 1"
    using neededXp_eq[of l] by simp
  have "100 \<le> 200 * l - 100" "200 * l - 100 \<le> 2 ^ 53" using assms by simp_all
  then have "percentageOf ((200 * l - 100) - 1) (200 * l - 100) = 99" by (rule percentageOf_last)
  then show ?thesis by (simp only: percentage_eq e)
qed

lemma pct_at_threshold: "1 \<le> l \<Longrightarrow> percentage (getProgress l (getXpNeeded l)) = 100"
proof -
  assume l: "1 \<le> l"
  have "percentageOf (200 * l - 100) (200 * l - 100) = 100"
    by (rule percentageOf_full) (use l in simp_all)
  then show ?thesis by (simp only: percentage_eq neededXp_eq)
qed

lemma pct_before_next: "1 \<le> l \<Longrightarrow> percentage (getProgress l (getXpNeeded (l + 1) - 1)) = 100"
proof -
  assume l: "1 \<le> l"
  have e: "getXpNeeded (l + 1) - 1 - getXpNeeded (l - 1) = 400 * l - 1"
    unfolding getXpNeeded_def by (simp add: algebra_simps power2_eq_square)
  have "percentageOf (400 * l - 1) (200 * l - 100) = 100"
    by (rule percentageOf_full) (use l in simp_all)
  then show ?thesis by (simp only: percentage_eq e)
qed

lemma progress_examples:
  "percentage (getProgress 1 29) = 28
   \<and> (100 * currentXp (getProgress 1 29)) div neededXp (getProgress 1 29) = 29
   \<and> currentXp (getProgress 3 545) = 145
   \<and> neededXp (getProgress 3 545) = 500
   \<and> percentage (getProgress 3 545) = 28
   \<and> percentage (getProgress 3 650) = 50"
  by code_simp

text \<open>
  Claim C6 as stated fails twice. \<^verbatim>\<open>getProgress\<close> measures a level from
  \<open>getXpNeeded (level - 1)\<close> to \<open>getXpNeeded level\<close>, so at \<open>getXpNeeded level\<close> the
  bar is already full (100, not 0), and one XP short of the threshold after that it is
  still capped at 100 (not 99); level 1 shows it. And the percentage is not the floor of
  \<open>100 * currentXp / neededXp\<close>: the source rounds the quotient to a double before it
  multiplies, and 29 of 100 XP give 28.
\<close>

theorem C6_progress_counterexample:
  "percentage (getProgress 1 (getXpNeeded 1)) = 100
   \<and> percentage (getProgress 1 (getXpNeeded 1)) \<noteq> 0
   \<and> percentage (getProgress 1 (getXpNeeded (1 + 1) - 1)) = 100
   \<and> percentage (getProgress 1 (getXpNeeded (1 + 1) - 1)) \<noteq> 99
   \<and> percentage (getProgress 1 29) = 28
   \<and> \<lfloor>100 * real_of_int (currentXp (getProgress 1 29))
          / real_of_int (neededXp (getProgress 1 29))\<rfloor> = 29"
proof -
  have a: "percentage (getProgress 1 (getXpNeeded 1)) = 100"
    using pct_at_threshold[of 1] by simp
  have b: "percentage (getProgress 1 (getXpNeeded (1 + 1) - 1)) = 100"
    using pct_before_next[of 1] by simp
  have c: "\<lfloor>100 * real_of_int (currentXp (getProgress 1 29))
             / real_of_int (neededXp (getProgress 1 29))\<rfloor> = 29"
    by (simp add: getProgress_def getXpNeeded_def Let_def)
  from a b c progress_examples show ?thesis by simp
qed

text \<open>
  Claim C6, amended. \<open>getXpNeeded level = 100 * level\<^sup>2\<close> is strictly increasing from
  level 1 on; \<open>currentXp = xp - getXpNeeded (level - 1)\<close>,
  \<open>neededXp = getXpNeeded level - getXpNeeded (level - 1)\<close>, and the percentage is the
  floor of \<open>(currentXp / neededXp) * 100\<close> computed in double precision, clamped to
  0..100. Within a level (\<open>0 \<le> currentXp \<le> neededXp\<close>) that is the floor of the exact
  \<open>100 * currentXp / neededXp\<close>, or one less where the exact value is an integer. For a
  level \<open>l\<close> from 1 to 1000000 the boundary cases are: 0 at \<open>getXpNeeded (l - 1)\<close>, 99
  at \<open>getXpNeeded l - 1\<close>, and 100 at \<open>getXpNeeded l\<close> and at
  \<open>getXpNeeded (l + 1) - 1\<close>.
\<close>

theorem C6_progress_boundaries:
  assumes "1 \<le> l" and "l \<le> 1000000"
  shows "getXpNeeded l = 100 * l\<^sup>2
         \<and> (\<forall>k. l < k \<longrightarrow> getXpNeeded l < getXpNeeded k)
         \<and> currentXp (getProgress l x) = x - getXpNeeded (l - 1)
         \<and> neededXp (getProgress l x) = getXpNeeded l - getXpNeeded (l - 1)
         \<and> percentage (getProgress l x) =
              min 100 (max 0 \<lfloor>rd (rd (real_of_int (currentXp (getProgress l x))
                                         / real_of_int (neededXp (getProgress l x))) * 100)\<rfloor>)
         \<and> (0 \<le> currentXp (getProgress l x)
                \<and> currentXp (getProgress l x) \<le> neededXp (getProgress l x) \<longrightarrow>
              percentage (getProgress l x)
                = (100 * currentXp (getProgress l x)) div neededXp (getProgress l x)
              \<or> (neededXp (getProgress l x) dvd 100 * currentXp (getProgress l x)
                  \<and> percentage (getProgress l x)
                      = (100 * currentXp (getProgress l x)) div neededXp (getProgress l x) - 1))
         \<and> percentage (getProgress l (getXpNeeded (l - 1))) = 0
         \<and> percentage (getProgress l (getXpNeeded l - 1)) = 99
         \<and> percentage (getProgress l (getXpNeeded l)) = 100
         \<and> percentage (getProgress l (getXpNeeded (l + 1) - 1)) = 100"
proof (intro conjI)
  have c: "currentXp (getProgress l x) = x - getXpNeeded (l - 1)"
    by (simp add: getProgress_def Let_def)
  have n: "neededXp (getProgress l x) = 200 * l - 100"
    by (simp add: getProgress_def Let_def neededXp_eq)
  show "getXpNeeded l = 100 * l\<^sup>2" by (simp add: getXpNeeded_def)
  show "\<forall>k. l < k \<longrightarrow> getXpNeeded l < getXpNeeded k"
    using assms by (simp add: getXpNeeded_strict)
  show "currentXp (getProgress l x) = x - getXpNeeded (l - 1)" by (rule c)
  show "neededXp (getProgress l x) = getXpNeeded l - getXpNeeded (l - 1)"
    by (simp add: getProgress_def Let_def)
  show "percentage (getProgress l x) =
          min 100 (max 0 \<lfloor>rd (rd (real_of_int (currentXp (getProgress l x))
                                     / real_of_int (neededXp (getProgress l x))) * 100)\<rfloor>)"
    by (simp add: getProgress_def Let_def percentageOf_def)
  show "0 \<le> currentXp (getProgress l x)
          \<and> currentXp (getProgress l x) \<le> neededXp (getProgress l x) \<longrightarrow>
        percentage (getProgress l x)
          = (100 * currentXp (getProgress l x)) div neededXp (getProgress l x)
        \<or> (neededXp (getProgress l x) dvd 100 * currentXp (getProgress l x)
            \<and> percentage (getProgress l x)
                = (100 * currentXp (getProgress l x)) div neededXp (getProgress l x) - 1)"
  proof
    assume h: "0 \<le> currentXp (getProgress l x)
               \<and> currentXp (getProgress l x) \<le> neededXp (getProgress l x)"
    have "0 < 200 * l - 100" "200 * l - 100 \<le> 2 ^ 40" using assms by simp_all
    with h have "percentageOf (x - getXpNeeded (l - 1)) (200 * l - 100)
                   = (100 * (x - getXpNeeded (l - 1))) div (200 * l - 100)
                 \<or> ((200 * l - 100) dvd 100 * (x - getXpNeeded (l - 1))
                     \<and> percentageOf (x - getXpNeeded (l - 1)) (200 * l - 100)
                         = (100 * (x - getXpNeeded (l - 1))) div (200 * l - 100) - 1)"
      by (intro percentageOf_interior) (simp_all add: c n)
    then show "percentage (getProgress l x)
          = (100 * currentXp (getProgress l x)) div neededXp (getProgress l x)
        \<or> (neededXp (getProgress l x) dvd 100 * currentXp (getProgress l x)
            \<and> percentage (getProgress l x)
                = (100 * currentXp (getProgress l x)) div neededXp (getProgress l x) - 1)"
      by (simp only: c n percentage_eq)
  qed
  show "percentage (getProgress l (getXpNeeded (l - 1))) = 0"
    by (rule pct_at_start)
  show "percentage (getProgress l (getXpNeeded l - 1)) = 99"
    using assms by (rule pct_before_threshold)
  show "percentage (getProgress l (getXpNeeded l)) = 100"
    using assms(1) by (rule pct_at_threshold)
  show "percentage (getProgress l (getXpNeeded (l + 1) - 1)) = 100"
    using assms(1) by (rule pct_before_next)
qed

text \<open>
  At level 3, which runs from 400 to 900 XP; at 545 XP the exact value is 29 and the
  percentage one less.
\<close>

theorem C6_progress_boundaries_witness:
  "(1::int) \<le> 3
   \<and> (3::int) \<le> 1000000
   \<and> getXpNeeded 3 = 900
   \<and> getXpNeeded 3 < getXpNeeded 4
   \<and> currentXp (getProgress 3 545) = 145
   \<and> neededXp (getProgress 3 545) = 500
   \<and> (0::int) \<le> 145 \<and> (145::int) \<le> 500
   \<and> percentage (getProgress 3 545) = (100 * 145) div 500 - 1
   \<and> percentage (getProgress 3 (getXpNeeded (3 - 1))) = 0
   \<and> percentage (getProgress 3 (getXpNeeded 3 - 1)) = 99
   \<and> percentage (getProgress 3 (getXpNeeded 3)) = 100"
proof -
  have h: "(1::int) \<le> 3" "(3::int) \<le> 1000000" by simp_all
  note t = C6_progress_boundaries[OF h, of 545]
  from t have "\<forall>k. 3 < k \<longrightarrow> getXpNeeded 3 < getXpNeeded k" by blast
  then have lt: "getXpNeeded 3 < getXpNeeded 4" by simp
  from t have "getXpNeeded 3 = 100 * 3\<^sup>2" by blast
  then have v: "getXpNeeded 3 = 900" by simp
  from t have b: "percentage (getProgress 3 (getXpNeeded (3 - 1))) = 0"
    "percentage (getProgress 3 (getXpNeeded 3 - 1)) = 99"
    "percentage (getProgress 3 (getXpNeeded 3)) = 100"
    by blast+
  have e: "currentXp (getProgress 3 545) = 145" "neededXp (getProgress 3 545) = 500"
    "percentage (getProgress 3 545) = 28"
    using progress_examples by blast+
  have f: "percentage (getProgress 3 545) = (100 * 145) div 500 - 1" by (simp add: e)
  show ?thesis using h lt v b e f by simp
qed

subsection \<open>The level invariant\<close>

lemma sq_mono: "a \<le> b \<Longrightarrow> a * a \<le> (b::nat) * b"
  by (rule mult_le_mono)

lemma isqrt_bounds: "isqrt n * isqrt n \<le> n \<and> n < (isqrt n + 1) * (isqrt n + 1)"
  by (induction n) (auto simp: Let_def)

lemma isqrt_mono: "m \<le> n \<Longrightarrow> isqrt m \<le> isqrt n"
proof (rule ccontr)
  assume mn: "m \<le> n" and "\<not> isqrt m \<le> isqrt n"
  then have "isqrt n + 1 \<le> isqrt m" by simp
  then have "(isqrt n + 1) * (isqrt n + 1) \<le> isqrt m * isqrt m" by (rule sq_mono)
  with isqrt_bounds[of n] isqrt_bounds[of m] mn show False by simp
qed

lemma floor_sqrt_isqrt:
  assumes "0 \<le> x"
  shows "\<lfloor>sqrt (real_of_int x / 100)\<rfloor> = int (isqrt (nat (x div 100)))"
proof (rule floor_unique)
  let ?k = "isqrt (nat (x div 100))"
  have b: "?k * ?k \<le> nat (x div 100)" "nat (x div 100) < (?k + 1) * (?k + 1)"
    using isqrt_bounds[of "nat (x div 100)"] by auto
  have x100: "0 \<le> x div 100" using assms by simp
  have "int (?k * ?k) \<le> x div 100" using b(1) x100 by linarith
  then have "100 * int (?k * ?k) \<le> x" by linarith
  then have "real_of_int (100 * int (?k * ?k)) \<le> real_of_int x" by (simp only: of_int_le_iff)
  then have "(real ?k)\<^sup>2 \<le> real_of_int x / 100" by (simp add: power2_eq_square)
  then show "real_of_int (int ?k) \<le> sqrt (real_of_int x / 100)"
    by (simp add: real_le_rsqrt)
  have "x div 100 < int ((?k + 1) * (?k + 1))" using b(2) x100 by linarith
  then have "x < 100 * int ((?k + 1) * (?k + 1))" by linarith
  then have "real_of_int x < real_of_int (100 * int ((?k + 1) * (?k + 1)))"
    by (simp only: of_int_less_iff)
  then have "real_of_int x / 100 < (real ?k + 1)\<^sup>2"
    by (simp add: power2_eq_square algebra_simps)
  then have "sqrt (real_of_int x / 100) < sqrt ((real ?k + 1)\<^sup>2)"
    by (simp only: real_sqrt_less_iff)
  then show "sqrt (real_of_int x / 100) < real_of_int (int ?k) + 1" by simp
qed

lemma calcLevel_formula:
  "0 \<le> x \<Longrightarrow> calcLevel x = Some (min maxLevel \<lfloor>1 + sqrt (real_of_int x / 100)\<rfloor>)"
proof -
  assume x: "0 \<le> x"
  have "\<lfloor>1 + sqrt (real_of_int x / 100)\<rfloor> = 1 + \<lfloor>sqrt (real_of_int x / 100)\<rfloor>"
    by (simp add: add.commute)
  then show ?thesis using x by (simp add: calcLevel_def floor_sqrt_isqrt min.commute)
qed

lemma levelInv_calc: "levelInv u = (0 \<le> u_xp u \<and> calcLevel (u_xp u) = Some (u_level u))"
  using calcLevel_formula[of "u_xp u"] by (auto simp: levelInv_def)

lemma calcLevel_mono:
  assumes "0 \<le> x" "x \<le> y" "calcLevel x = Some a" "calcLevel y = Some b"
  shows "a \<le> b"
proof -
  have "nat (x div 100) \<le> nat (y div 100)" using assms(1,2) by (simp add: zdiv_mono1)
  then have "isqrt (nat (x div 100)) \<le> isqrt (nat (y div 100))" by (rule isqrt_mono)
  then show ?thesis using assms by (auto simp: calcLevel_def min_def split: if_splits)
qed

lemma dbInv_upd_User: "dbInv d \<Longrightarrow> levelInv u \<Longrightarrow> dbInv (d(k \<mapsto> UserRow u))"
  by (auto simp: dbInv_def)

lemma dbInv_upd_Profile: "dbInv d \<Longrightarrow> dbInv (d(k \<mapsto> ProfileRow p a q))"
  by (auto simp: dbInv_def)

lemma levelInv_pushName: "levelInv (u\<lparr>pushName := p\<rparr>) = levelInv u"
  by (simp add: levelInv_def)

lemma levelInv_fresh:
  "levelInv \<lparr> jid = a, pushName = b, u_xp = 0, u_level = 1, messages = c, lastActive = e,
             u_joinedAt = f, groups = g, adventure = h \<rparr>"
  by (simp add: levelInv_calc calcLevel_def maxLevel_def)

lemma lm_getUserData_inv:
  assumes "dbInv d"
  shows "dbInv (snd (lm_getUserData d now userId pn))
       \<and> snd (lm_getUserData d now userId pn) (cleanJid userId)
            = Some (fst (lm_getUserData d now userId pn))
       \<and> (\<forall>u. fst (lm_getUserData d now userId pn) = UserRow u \<longrightarrow> levelInv u)"
proof (cases "d (cleanJid userId)")
  case None
  then show ?thesis using assms
    by (simp add: lm_getUserData_def Let_def dbInv_upd_User levelInv_fresh)
next
  case (Some r)
  show ?thesis
  proof (cases r)
    case (UserRow u)
    with Some assms have "levelInv u" by (auto simp: dbInv_def)
    then show ?thesis using Some UserRow assms
      by (simp add: lm_getUserData_def Let_def dbInv_upd_User levelInv_pushName)
  next
    case (ProfileRow p a q)
    then show ?thesis using Some assms
      by (simp add: lm_getUserData_def Let_def dbInv_upd_Profile)
  qed
qed

lemma lm_getUserData_shape:
  assumes "d (cleanJid userId) = None \<or> (\<exists>u. d (cleanJid userId) = Some (UserRow u))"
  shows "\<exists>u. fst (lm_getUserData d now userId pn) = UserRow u"
  using assms by (auto simp: lm_getUserData_def Let_def)

lemma addXP_inv:
  assumes "dbInv (store s)" "0 \<le> amount" "0 \<le> rnd"
  shows "dbInv (store (fst (addXP s now rnd flushOk userId groupId amount bypass pn)))"
proof -
  obtain r d1 where g: "lm_getUserData (store s) now userId pn = (r, d1)"
    by (cases "lm_getUserData (store s) now userId pn")
  have d1: "dbInv d1" and r: "\<And>u. r = UserRow u \<Longrightarrow> levelInv u"
    using lm_getUserData_inv[OF assms(1), of now userId pn] g by auto
  define am where "am = (if \<not> bypass \<and> amount = 0
                          then \<lfloor>rnd * of_int (messageXpMax - messageXpMin + 1)\<rfloor> + messageXpMin
                          else amount)"
  have "0 \<le> \<lfloor>rnd * of_int (messageXpMax - messageXpMin + 1)\<rfloor>"
    using assms(3) by (simp add: messageXpMax_def messageXpMin_def)
  then have am: "0 \<le> am" using assms(2) by (simp add: am_def messageXpMin_def)
  show ?thesis
  proof (cases r)
    case (UserRow u)
    have "levelInv u" using r UserRow by simp
    then have x: "0 \<le> u_xp u" and old: "calcLevel (u_xp u) = Some (u_level u)"
      by (simp_all add: levelInv_calc)
    have x': "0 \<le> u_xp u + am" using x am by simp
    then obtain n where n: "calcLevel (u_xp u + am) = Some n" by (simp add: calcLevel_def)
    have le: "u_level u \<le> n" using calcLevel_mono[OF x _ old n] am by simp
    show ?thesis using assms(1) d1 g UserRow x' n le
      by (auto simp add: addXP_def Let_def am_def[symmetric] levelInv_calc intro!: dbInv_upd_User)
  next
    case (ProfileRow p a q)
    show ?thesis using assms(1) d1 g ProfileRow
      by (auto simp add: addXP_def Let_def intro!: dbInv_upd_Profile)
  qed
qed

lemma addXP_stores_UserRow:
  assumes "store s (cleanJid userId) = None \<or> (\<exists>u. store s (cleanJid userId) = Some (UserRow u))"
    and "snd (addXP s now rnd flushOk userId groupId amount bypass pn) \<noteq> Inr None"
  shows "\<exists>u'. store (fst (addXP s now rnd flushOk userId groupId amount bypass pn)) (cleanJid userId)
                = Some (UserRow u')"
proof -
  obtain r d1 where g: "lm_getUserData (store s) now userId pn = (r, d1)"
    by (cases "lm_getUserData (store s) now userId pn")
  obtain u where u: "r = UserRow u"
    using lm_getUserData_shape[of "store s" userId now pn] assms(1) g by auto
  show ?thesis using assms(2) g u
    by (auto simp add: addXP_def Let_def split: if_splits)
qed

text \<open>
  Claim C3. The level the engine computes is \<open>min maxLevel (floor (1 + sqrt (xp / 100)))\<close>
  with \<open>maxLevel = 248\<close>, for every total XP from 0 on, and it does not decrease as the
  total XP grows. The invariant that every stored leveling row carries this level for its
  total XP is preserved by \<^verbatim>\<open>getUserData\<close> and by every \<^verbatim>\<open>addXP\<close> that grants a
  non-negative amount (a drawn amount is never negative), whether \<^verbatim>\<open>addXP\<close> returns
  a result, returns \<^verbatim>\<open>null\<close> on cooldown or fails in the forced save; and after a grant
  to a user with no row or a leveling row, the stored row has that level.
\<close>

theorem C3_level_invariant:
  "(0 \<le> x \<longrightarrow> calcLevel x = Some (min maxLevel \<lfloor>1 + sqrt (real_of_int x / 100)\<rfloor>))
   \<and> maxLevel = 248
   \<and> (0 \<le> x \<and> x \<le> y \<longrightarrow>
        min maxLevel \<lfloor>1 + sqrt (real_of_int x / 100)\<rfloor>
          \<le> min maxLevel \<lfloor>1 + sqrt (real_of_int y / 100)\<rfloor>)
   \<and> (dbInv d \<longrightarrow> dbInv (snd (lm_getUserData d now userId pn)))
   \<and> (dbInv (store s) \<and> 0 \<le> amount \<and> 0 \<le> rnd \<longrightarrow>
        dbInv (store (fst (addXP s now rnd flushOk userId groupId amount bypass pn)))
        \<and> ((store s (cleanJid userId) = None \<or> (\<exists>u. store s (cleanJid userId) = Some (UserRow u)))
            \<and> snd (addXP s now rnd flushOk userId groupId amount bypass pn) \<noteq> Inr None \<longrightarrow>
            (\<exists>u'. store (fst (addXP s now rnd flushOk userId groupId amount bypass pn))
                     (cleanJid userId) = Some (UserRow u')
                  \<and> u_level u' = min maxLevel \<lfloor>1 + sqrt (real_of_int (u_xp u') / 100)\<rfloor>)))"
proof (intro conjI impI)
  show "calcLevel x = Some (min maxLevel \<lfloor>1 + sqrt (real_of_int x / 100)\<rfloor>)" if "0 \<le> x"
    using that by (rule calcLevel_formula)
  show "maxLevel = 248" by (simp add: maxLevel_def)
  show "min maxLevel \<lfloor>1 + sqrt (real_of_int x / 100)\<rfloor>
          \<le> min maxLevel \<lfloor>1 + sqrt (real_of_int y / 100)\<rfloor>" if "0 \<le> x \<and> x \<le> y"
  proof -
    have "0 \<le> y" using that by simp
    then show ?thesis
      using that calcLevel_mono[OF _ _ calcLevel_formula calcLevel_formula, of x y] by simp
  qed
  show "dbInv (snd (lm_getUserData d now userId pn))" if "dbInv d"
    using lm_getUserData_inv[OF that] by blast
  assume a: "dbInv (store s) \<and> 0 \<le> amount \<and> 0 \<le> rnd"
  then show i: "dbInv (store (fst (addXP s now rnd flushOk userId groupId amount bypass pn)))"
    by (simp add: addXP_inv)
  assume b: "(store s (cleanJid userId) = None \<or> (\<exists>u. store s (cleanJid userId) = Some (UserRow u)))
            \<and> snd (addXP s now rnd flushOk userId groupId amount bypass pn) \<noteq> Inr None"
  then obtain u' where u':
    "store (fst (addXP s now rnd flushOk userId groupId amount bypass pn)) (cleanJid userId)
       = Some (UserRow u')"
    using addXP_stores_UserRow[of s userId now rnd flushOk groupId amount bypass pn] by blast
  with i have "levelInv u'" by (auto simp: dbInv_def)
  with u' show "\<exists>u'. store (fst (addXP s now rnd flushOk userId groupId amount bypass pn))
                     (cleanJid userId) = Some (UserRow u')
                  \<and> u_level u' = min maxLevel \<lfloor>1 + sqrt (real_of_int (u_xp u') / 100)\<rfloor>"
    by (auto simp: levelInv_def)
qed

lemma addXP_example:
  "store (fst (addXP \<lparr> store = Map.empty, xpCooldowns = Map.empty \<rparr> 1000 (1 / 2) (\<lambda>_. True)
                 ''ann@s.whatsapp.net'' (Some ''g@g.us'') 400 True None)) ''ann''
     = Some (UserRow \<lparr> jid = ''ann@s.whatsapp.net'', pushName = ''ann'', u_xp = 400, u_level = 3,
                       messages = 1, lastActive = 1000, u_joinedAt = 1000,
                       groups = [''g@g.us''], adventure = None \<rparr>)"
  by code_simp

lemma addXP_example_result:
  "snd (addXP \<lparr> store = Map.empty, xpCooldowns = Map.empty \<rparr> 1000 (1 / 2) (\<lambda>_. True)
                 ''ann@s.whatsapp.net'' (Some ''g@g.us'') 400 True None) \<noteq> Inr None"
  by code_simp

text \<open>At the example: a first grant of 400 XP to a new user stores level 3.\<close>

theorem C3_level_invariant_witness:
  "dbInv (store \<lparr> store = Map.empty, xpCooldowns = Map.empty \<rparr>)
   \<and> (0::int) \<le> 400 \<and> (0::real) \<le> 1 / 2
   \<and> dbInv (store (fst (addXP \<lparr> store = Map.empty, xpCooldowns = Map.empty \<rparr> 1000 (1 / 2)
                            (\<lambda>_. True) ''ann@s.whatsapp.net'' (Some ''g@g.us'') 400 True None)))
   \<and> calcLevel 400 = Some (min maxLevel \<lfloor>1 + sqrt (real_of_int 400 / 100)\<rfloor>)
   \<and> calcLevel 400 = Some 3
   \<and> (\<exists>u'. store (fst (addXP \<lparr> store = Map.empty, xpCooldowns = Map.empty \<rparr> 1000 (1 / 2)
                            (\<lambda>_. True) ''ann@s.whatsapp.net'' (Some ''g@g.us'') 400 True None))
               ''ann'' = Some (UserRow u')
            \<and> u_xp u' = 400 \<and> u_level u' = 3
            \<and> u_level u' = min maxLevel \<lfloor>1 + sqrt (real_of_int (u_xp u') / 100)\<rfloor>)"
proof -
  let ?s = "\<lparr> store = Map.empty, xpCooldowns = Map.empty \<rparr>"
  let ?r = "addXP ?s 1000 (1 / 2) (\<lambda>_. True) ''ann@s.whatsapp.net'' (Some ''g@g.us'') 400 True None"
  note t = C3_level_invariant
             [where x = 400 and y = 400 and d = Map.empty and now = 1000
                and userId = "''ann@s.whatsapp.net''" and pn = None and s = ?s and amount = 400
                and rnd = "1 / 2" and flushOk = "\<lambda>_. True" and groupId = "Some ''g@g.us''"
                and bypass = True]
  have e: "dbInv (store ?s)" by (simp add: dbInv_def)
  have k: "cleanJid ''ann@s.whatsapp.net'' = ''ann''" by (simp add: cleanJid_def)
  from t have f: "calcLevel 400 = Some (min maxLevel \<lfloor>1 + sqrt (real_of_int 400 / 100)\<rfloor>)"
    by simp
  have c3: "calcLevel 400 = Some 3" by code_simp
  from t e have i: "dbInv (store (fst ?r))" by simp
  from t e addXP_example_result k obtain u' where
    u': "store (fst ?r) ''ann'' = Some (UserRow u')"
        "u_level u' = min maxLevel \<lfloor>1 + sqrt (real_of_int (u_xp u') / 100)\<rfloor>"
    by auto
  from u'(1) addXP_example have "u_xp u' = 400 \<and> u_level u' = 3" by auto
  with u' have "\<exists>u'. store (fst ?r) ''ann'' = Some (UserRow u')
            \<and> u_xp u' = 400 \<and> u_level u' = 3
            \<and> u_level u' = min maxLevel \<lfloor>1 + sqrt (real_of_int (u_xp u') / 100)\<rfloor>"
    by blast
  with e f c3 i show ?thesis by simp
qed

subsection \<open>The store and the try blocks\<close>

lemma cleanJid_idem: "cleanJid (cleanJid j) = cleanJid j"
  by (simp add: cleanJid_def)

lemma truthyStr_None: "truthyStr None = False"
  by (simp add: truthyStr_def)

lemma lm_getUserData_existing:
  "d (cleanJid userId) = Some r \<Longrightarrow> lm_getUserData d now userId None = (r, d)"
  by (cases r) (simp_all add: lm_getUserData_def Let_def truthyStr_None)

lemma lm_getUserData_absent:
  "d (cleanJid userId) = None \<Longrightarrow>
   \<exists>u. adventure u = None \<and> lm_getUserData d now userId None = (UserRow u, d(cleanJid userId \<mapsto> UserRow u))"
  by (simp add: lm_getUserData_def Let_def truthyStr_None)

lemma getUserData_existing:
  assumes "d (cleanJid j) = Some r" "adventureOf r = Some a"
  shows "getUserData d now flushOk j = (d, Inr a)"
proof -
  have "lm_getUserData d now (cleanJid j) None = (r, d)"
    using assms(1) by (intro lm_getUserData_existing) (simp add: cleanJid_idem)
  then show ?thesis using assms(2) by (simp add: getUserData_def Let_def)
qed

lemma updateUserData_eq:
  "updateUserData d flushOk j r =
     (d(cleanJid j \<mapsto> r), if flushOk (d(cleanJid j \<mapsto> r)) then Inr () else Inl IOError)"
  by (simp add: updateUserData_def Let_def)

lemma updateAdventureData_eq:
  "updateAdventureData d now flushOk j a =
     (d(cleanJid j \<mapsto> setAdventure (fst (lm_getUserData d now (cleanJid j) None)) a),
      if flushOk (d(cleanJid j \<mapsto> setAdventure (fst (lm_getUserData d now (cleanJid j) None)) a))
      then Inr () else Inl IOError)"
proof (cases "d (cleanJid j)")
  case None
  then obtain u where "lm_getUserData d now (cleanJid j) None = (UserRow u, d(cleanJid j \<mapsto> UserRow u))"
    using lm_getUserData_absent[of d "cleanJid j" now] by (auto simp: cleanJid_idem)
  then show ?thesis by (simp add: updateAdventureData_def Let_def updateUserData_eq)
next
  case (Some r)
  then have "lm_getUserData d now (cleanJid j) None = (r, d)"
    by (intro lm_getUserData_existing) (simp add: cleanJid_idem)
  then show ?thesis by (simp add: updateAdventureData_def Let_def updateUserData_eq)
qed

lemma updateAdventureData_shape:
  "\<exists>r. updateAdventureData d now flushOk j a =
     (d(cleanJid j \<mapsto> r), if flushOk (d(cleanJid j \<mapsto> r)) then Inr () else Inl IOError)"
  using updateAdventureData_eq[of d now flushOk j a] by blast

lemma getUserData_created:
  assumes "adventureOf (fst (lm_getUserData d now (cleanJid j) None)) = None"
  shows "getUserData d now flushOk j =
     (let r = fst (lm_getUserData d now (cleanJid j) None);
          a = createDefaultAdventureData (pushNameOf r) now;
          d2 = d(cleanJid j \<mapsto> setAdventure r a)
      in (d2, if flushOk d2 then Inr a else Inl IOError))"
proof (cases "d (cleanJid j)")
  case None
  then obtain u where u: 
     "lm_getUserData d now (cleanJid j) None = (UserRow u, d(cleanJid j \<mapsto> UserRow u))"
    using lm_getUserData_absent[of d "cleanJid j" now] by (auto simp: cleanJid_idem)
  then show ?thesis using assms by (simp add: getUserData_def Let_def updateUserData_eq)
next
  case (Some r)
  then have g: "lm_getUserData d now (cleanJid j) None = (r, d)"
    by (intro lm_getUserData_existing) (simp add: cleanJid_idem)
  then show ?thesis using assms by (simp add: getUserData_def Let_def updateUserData_eq)
qed

lemma getUserData_found:
  assumes "adventureOf (fst (lm_getUserData d now (cleanJid j) None)) = Some a"
  shows "getUserData d now flushOk j = (d, Inr a)"
proof (cases "d (cleanJid j)")
  case None
  then obtain u where u: "adventure u = None"
     "lm_getUserData d now (cleanJid j) None = (UserRow u, d(cleanJid j \<mapsto> UserRow u))"
    using lm_getUserData_absent[of d "cleanJid j" now] by (auto simp: cleanJid_idem)
  then show ?thesis using assms by simp
next
  case (Some r)
  then have g: "lm_getUserData d now (cleanJid j) None = (r, d)"
    by (intro lm_getUserData_existing) (simp add: cleanJid_idem)
  then show ?thesis using assms by (simp add: getUserData_def Let_def)
qed

lemma getUserData_shape:
  "(\<exists>a. getUserData d now flushOk j = (d, Inr a))
   \<or> (\<exists>r a. getUserData d now flushOk j =
         (d(cleanJid j \<mapsto> r), if flushOk (d(cleanJid j \<mapsto> r)) then Inr a else Inl IOError))"
proof (cases "adventureOf (fst (lm_getUserData d now (cleanJid j) None))")
  case None
  from getUserData_created[OF this, of flushOk] show ?thesis
    unfolding Let_def by blast
next
  case (Some a)
  from getUserData_found[OF this, of flushOk] show ?thesis by blast
qed

lemma tryEffect_same: "tryEffect gs d j f (d, x)"
  by (simp add: tryEffect_def)

lemma tryEffect_update:
  "tryEffect gs d j f (andThen (updateUserData d f j r) rest)"
  by (simp add: tryEffect_def andThen_def updateUserData_eq)

lemma tryEffect_updateAdv:
  "tryEffect gs d j f (andThen (updateAdventureData d now f j a) rest)"
  using updateAdventureData_shape[of d now f j a]
  by (auto simp add: tryEffect_def andThen_def)

lemma tryEffect_withUserData:
  assumes "\<And>d1 u. tryEffect gs d1 j f (body d1 u)"
  shows "tryEffect gs d j f (withUserData d now f j body)"
proof -
  from getUserData_shape[of d now f j] show ?thesis
  proof (elim disjE exE)
    fix a assume "getUserData d now f j = (d, Inr a)"
    then show ?thesis using assms[of d a] by (simp add: withUserData_def)
  next
    fix r a
    assume g: "getUserData d now f j =
         (d(cleanJid j \<mapsto> r), if f (d(cleanJid j \<mapsto> r)) then Inr a else Inl IOError)"
    show ?thesis
    proof (cases "f (d(cleanJid j \<mapsto> r))")
      case False
      then show ?thesis using g by (simp add: withUserData_def tryEffect_def)
    next
      case True
      with g have w: "withUserData d now f j body = body (d(cleanJid j \<mapsto> r)) a"
        by (simp add: withUserData_def)
      from assms[of "d(cleanJid j \<mapsto> r)" a] True show ?thesis
        unfolding w tryEffect_def by (auto split: if_splits)
    qed
  qed
qed

lemma opEffect_catching:
  "tryEffect gs d j f x \<Longrightarrow> opEffect (insert g gs) d j f (catching g x)"
  by (cases x) (auto simp: tryEffect_def opEffect_def catching_def split: sum.splits)

lemma tryEffect_hunt_body: "tryEffect gs d1 j f (hunt_body c d1 now rs f j adv)"
  by (simp add: hunt_body_def Let_def tryEffect_same tryEffect_update tryEffect_updateAdv
      split: option.split sum.split prod.split)

lemma tryEffect_train_body: "tryEffect gs d1 j f (train_body d1 now rs f j adv)"
  by (simp add: train_body_def Let_def tryEffect_same tryEffect_updateAdv split: prod.split)

lemma tryEffect_claimDaily_body: "tryEffect gs d1 j f (claimDaily_body d1 now f j adv)"
  by (simp add: claimDaily_body_def Let_def tryEffect_same tryEffect_updateAdv split: prod.split)

lemma tryEffect_buyItem_body: "tryEffect gs d1 j f (buyItem_body c d1 f j i u)"
  by (simp add: buyItem_body_def Let_def tryEffect_same tryEffect_update split: option.split)

lemma tryEffect_travel_body: "tryEffect gs d1 j f (travel_body c d1 f j l u)"
  by (simp add: travel_body_def Let_def tryEffect_same tryEffect_update split: option.split)

lemma tryEffect_useConsumable:
  "tryEffect {UseErrorMsg} d1 j f (case useConsumable d1 f j u i it of (d2, r) \<Rightarrow> (d2, Inr r))"
  by (simp add: tryEffect_def useConsumable_def Let_def andThen_def catching_def updateUserData_eq)

lemma tryEffect_equipItem_body: "tryEffect {UseErrorMsg} d1 j f (equipItem_body c d1 f j i u)"
  by (simp add: equipItem_body_def Let_def tryEffect_same tryEffect_update tryEffect_useConsumable
      split: option.split)

subsection \<open>Cooldown gating\<close>









lemma withUserData_existing:
  assumes "d (cleanJid j) = Some r" "adventureOf r = Some a"
  shows "withUserData d now f j body = body d a"
  using getUserData_existing[of d j r a now f] assms by (simp add: withUserData_def)






subsection \<open>Inventory and equipment\<close>

lemma held_addToItems:
  "held (addToItems xs i q) k = held xs k + (if k = i then q else 0)"
  by (induction xs) auto

lemma held_removeFromItems:
  "find (\<lambda>x. item_id x = i) xs = Some e \<Longrightarrow> 1 \<le> quantity e \<Longrightarrow>
   held (removeFromItems xs i 1) k = held xs k - (if k = i then 1 else 0)"
  by (induction xs) (auto split: if_splits)

lemma slotOf_setSlot:
  "t \<in> {Weapon, Armor, Accessory} \<Longrightarrow>
   slotOf (setSlot e t i) t' = (if t' = t then Some i else slotOf e t')"
  by (cases t; cases t') (auto simp: slotOf_def setSlot_def)

text \<open>
  The next read after a bare profile has been stored as the row: the row has no
  \<^verbatim>\<open>adventure\<close> property, so \<^verbatim>\<open>getUserData\<close> creates the default profile inside it and
  returns that.
\<close>

lemma getUserData_bare:
  assumes "d (cleanJid j) = Some (asRow a)"
  shows "getUserData d now f j =
           (d(cleanJid j \<mapsto> ProfileRow a (Some (createDefaultAdventureData None now)) None),
            if f (d(cleanJid j \<mapsto> ProfileRow a (Some (createDefaultAdventureData None now)) None))
            then Inr (createDefaultAdventureData None now) else Inl IOError)"
proof -
  have g: "lm_getUserData d now (cleanJid j) None = (asRow a, d)"
    using assms by (intro lm_getUserData_existing) (simp add: cleanJid_idem)
  then have "adventureOf (fst (lm_getUserData d now (cleanJid j) None)) = None"
    by (simp add: asRow_def)
  from getUserData_created[OF this, of f] g show ?thesis
    by (simp add: Let_def asRow_def)
qed

lemma readBack_bare:
  "getUserData (d(cleanJid j \<mapsto> asRow a)) now f j =
     (d(cleanJid j \<mapsto> ProfileRow a (Some (createDefaultAdventureData None now)) None),
      if f (d(cleanJid j \<mapsto> ProfileRow a (Some (createDefaultAdventureData None now)) None))
      then Inr (createDefaultAdventureData None now) else Inl IOError)"
  using getUserData_bare[of "d(cleanJid j \<mapsto> asRow a)" j a now f] by simp

lemma default_profile_empty:
  "equipment (createDefaultAdventureData pn now) = \<lparr> weapon = None, armor = None, accessory = None \<rparr>
   \<and> inventory (createDefaultAdventureData pn now) = \<lparr> gold = 100, items = [] \<rparr>
   \<and> level (createDefaultAdventureData pn now) = 1"
  by (simp add: createDefaultAdventureData_def)

lemma equipSwap_equipment:
  "equipment (equipSwap u t i) = setSlot (equipment u) t i"
  by (simp add: equipSwap_def Let_def addItemToInventory_def removeItemFromInventory_def)

lemma equipSwap_held:
  assumes "find (\<lambda>x. item_id x = i) (items (inventory u)) = Some e" "1 \<le> quantity e"
  shows "held (items (inventory (equipSwap u t i))) k =
           held (items (inventory u)) k - (if k = i then 1 else 0)
           + (if truthyStr (slotOf (equipment u) t) \<and> slotOf (equipment u) t = Some k then 1 else 0)"
  using held_removeFromItems[OF assms, of k]
  by (auto simp add: equipSwap_def Let_def addItemToInventory_def removeItemFromInventory_def
        held_addToItems truthyStr_def split: option.splits)

lemma equipSwap_rest:
  "gold (inventory (equipSwap u t i)) = gold (inventory u)
   \<and> (equipSwap u t i)\<lparr> equipment := equipment u, inventory := inventory u \<rparr> = u"
  by (simp add: equipSwap_def Let_def addItemToInventory_def removeItemFromInventory_def)

lemma equipItem_equipable:
  assumes "d (cleanJid j) = Some r" "adventureOf r = Some a"
    and "find (\<lambda>x. item_id x = i) (items (inventory a)) = Some e" "1 \<le> quantity e"
    and "map_of (c_items c) i = Some it" "i_type it \<in> {Weapon, Armor, Accessory}"
  shows "equipItem c d now f j i =
           (d(cleanJid j \<mapsto> asRow (equipSwap a (i_type it) i)),
            if f (d(cleanJid j \<mapsto> asRow (equipSwap a (i_type it) i)))
            then \<lparr> success = True, message = EquippedMsg (i_name it) \<rparr>
            else \<lparr> success = False, message = EquipErrorMsg \<rparr>)"
proof -
  have w: "\<And>body. withUserData d now f j body = body d a"
    using withUserData_existing[of d j r a now f] assms(1,2) by simp
  have "i_type it \<noteq> Consumable" using assms(6) by auto
  then show ?thesis using assms(3-6)
    by (simp add: equipItem_def equipItem_try_def w equipItem_body_def andThen_def catching_def
          updateUserData_eq)
qed

lemma buyItem_existing:
  assumes "d (cleanJid j) = Some r" "adventureOf r = Some a"
  shows "buyItem c d now f j i = catching BuyErrorMsg (buyItem_body c d f j i a)"
  using withUserData_existing[of d j r a now f] assms by (simp add: buyItem_def buyItem_try_def)

text \<open>
  Claim C7 holds of the object that \<^verbatim>\<open>equipItem\<close> builds, and fails of what is stored.
  For a stored profile that holds at least one unit of an equipable item of the catalog,
  the object handed to \<^verbatim>\<open>db.set\<close> has the item in its slot, the other slots as before,
  one unit less of the item and one unit more of the item that occupied the slot (if
  any), and nothing else changed; the result is the success message (the generic failure
  when the flush after the write fails). But \<^verbatim>\<open>equipItem\<close> calls
  \<^verbatim>\<open>updateUserData(jid, userData)\<close> with the adventure object, where \<^verbatim>\<open>train\<close> and
  \<^verbatim>\<open>claimDaily\<close> call \<^verbatim>\<open>updateAdventureData\<close>: the object becomes the user's whole row.
  That row has no \<^verbatim>\<open>adventure\<close> property, so the next \<^verbatim>\<open>getUserData\<close> returns a fresh
  default profile, with empty slots and an empty inventory: the equipped item and the
  item it replaced are both gone.
\<close>

theorem C7_equip_overwrites_row:
  assumes "d (cleanJid j) = Some r" and "adventureOf r = Some a"
    and "find (\<lambda>x. item_id x = itemId) (items (inventory a)) = Some e" and "1 \<le> quantity e"
    and "map_of (c_items c) itemId = Some it" and "i_type it \<in> {Weapon, Armor, Accessory}"
  shows "let a' = equipSwap a (i_type it) itemId;
             d' = d(cleanJid j \<mapsto> asRow a')
         in equipItem c d now flushOk j itemId =
              (d', if flushOk d' then \<lparr> success = True, message = EquippedMsg (i_name it) \<rparr>
                   else \<lparr> success = False, message = EquipErrorMsg \<rparr>)
            \<and> slotOf (equipment a') (i_type it) = Some itemId
            \<and> (\<forall>t. t \<noteq> i_type it \<longrightarrow> slotOf (equipment a') t = slotOf (equipment a) t)
            \<and> (\<forall>k. held (items (inventory a')) k =
                      held (items (inventory a)) k - (if k = itemId then 1 else 0)
                      + (if truthyStr (slotOf (equipment a) (i_type it))
                            \<and> slotOf (equipment a) (i_type it) = Some k then 1 else 0))
            \<and> (\<forall>A. i_type it = Weapon \<and> weapon (equipment a) = Some A \<and> A \<noteq> [] \<and> A \<noteq> itemId \<longrightarrow>
                   held (items (inventory a')) itemId = held (items (inventory a)) itemId - 1
                   \<and> held (items (inventory a')) A = held (items (inventory a)) A + 1
                   \<and> weapon (equipment a') = Some itemId)
            \<and> gold (inventory a') = gold (inventory a)
            \<and> a'\<lparr> equipment := equipment a, inventory := inventory a \<rparr> = a
            \<and> d' (cleanJid j) = Some (ProfileRow a' None None)
            \<and> (\<forall>now2. getUserData d' now2 flushOk j =
                   (d'(cleanJid j \<mapsto> ProfileRow a' (Some (createDefaultAdventureData None now2)) None),
                    if flushOk (d'(cleanJid j \<mapsto>
                                     ProfileRow a' (Some (createDefaultAdventureData None now2)) None))
                    then Inr (createDefaultAdventureData None now2) else Inl IOError)
                 \<and> equipment (createDefaultAdventureData None now2)
                     = \<lparr> weapon = None, armor = None, accessory = None \<rparr>
                 \<and> inventory (createDefaultAdventureData None now2) = \<lparr> gold = 100, items = [] \<rparr>)"
proof -
  note eq = equipItem_equipable[of d j r a itemId e c it now flushOk]
  note hd = equipSwap_held[of itemId a e "i_type it"]
  have h: "\<And>k. held (items (inventory (equipSwap a (i_type it) itemId))) k =
                      held (items (inventory a)) k - (if k = itemId then 1 else 0)
                      + (if truthyStr (slotOf (equipment a) (i_type it))
                            \<and> slotOf (equipment a) (i_type it) = Some k then 1 else 0)"
    using hd assms(3,4) by blast
  have w: "\<forall>A. i_type it = Weapon \<and> weapon (equipment a) = Some A \<and> A \<noteq> [] \<and> A \<noteq> itemId \<longrightarrow>
                   held (items (inventory (equipSwap a (i_type it) itemId))) itemId
                     = held (items (inventory a)) itemId - 1
                   \<and> held (items (inventory (equipSwap a (i_type it) itemId))) A
                     = held (items (inventory a)) A + 1
                   \<and> weapon (equipment (equipSwap a (i_type it) itemId)) = Some itemId"
  proof (intro allI impI)
    fix A
    assume A: "i_type it = Weapon \<and> weapon (equipment a) = Some A \<and> A \<noteq> [] \<and> A \<noteq> itemId"
    then show "held (items (inventory (equipSwap a (i_type it) itemId))) itemId
                     = held (items (inventory a)) itemId - 1
                   \<and> held (items (inventory (equipSwap a (i_type it) itemId))) A
                     = held (items (inventory a)) A + 1
                   \<and> weapon (equipment (equipSwap a (i_type it) itemId)) = Some itemId"
      using h[of itemId] h[of A]
      by (auto simp add: slotOf_def truthyStr_def equipSwap_equipment setSlot_def)
  qed
  have e1: "equipItem c d now flushOk j itemId =
              (d(cleanJid j \<mapsto> asRow (equipSwap a (i_type it) itemId)),
               if flushOk (d(cleanJid j \<mapsto> asRow (equipSwap a (i_type it) itemId)))
               then \<lparr> success = True, message = EquippedMsg (i_name it) \<rparr>
               else \<lparr> success = False, message = EquipErrorMsg \<rparr>)"
    using eq assms by blast
  have e2: "slotOf (equipment (equipSwap a (i_type it) itemId)) (i_type it) = Some itemId"
    using assms(6) by (simp add: equipSwap_equipment slotOf_setSlot)
  have e3: "\<forall>t. t \<noteq> i_type it \<longrightarrow>
              slotOf (equipment (equipSwap a (i_type it) itemId)) t = slotOf (equipment a) t"
    using assms(6) by (simp add: equipSwap_equipment slotOf_setSlot)
  have e4: "\<forall>k. held (items (inventory (equipSwap a (i_type it) itemId))) k =
                      held (items (inventory a)) k - (if k = itemId then 1 else 0)
                      + (if truthyStr (slotOf (equipment a) (i_type it))
                            \<and> slotOf (equipment a) (i_type it) = Some k then 1 else 0)"
    using h by blast
  have e5: "(d(cleanJid j \<mapsto> asRow (equipSwap a (i_type it) itemId))) (cleanJid j)
              = Some (ProfileRow (equipSwap a (i_type it) itemId) None None)"
    by (simp add: asRow_def)
  have e6: "\<forall>now2. getUserData (d(cleanJid j \<mapsto> asRow (equipSwap a (i_type it) itemId)))
                     now2 flushOk j =
                   ((d(cleanJid j \<mapsto> asRow (equipSwap a (i_type it) itemId)))
                      (cleanJid j \<mapsto> ProfileRow (equipSwap a (i_type it) itemId)
                                        (Some (createDefaultAdventureData None now2)) None),
                    if flushOk ((d(cleanJid j \<mapsto> asRow (equipSwap a (i_type it) itemId)))
                                  (cleanJid j \<mapsto> ProfileRow (equipSwap a (i_type it) itemId)
                                        (Some (createDefaultAdventureData None now2)) None))
                    then Inr (createDefaultAdventureData None now2) else Inl IOError)
                 \<and> equipment (createDefaultAdventureData None now2)
                     = \<lparr> weapon = None, armor = None, accessory = None \<rparr>
                 \<and> inventory (createDefaultAdventureData None now2) = \<lparr> gold = 100, items = [] \<rparr>"
    using readBack_bare[of d j "equipSwap a (i_type it) itemId" _ flushOk]
          default_profile_empty[of None]
    by simp
  show ?thesis
    unfolding Let_def
    using e1 e2 e3 e4 e5 e6 w equipSwap_rest[of a "i_type it" itemId] by blast
qed

lemma armed_facts:
  "find (\<lambda>x. item_id x = ''sword_2'') (items (inventory armedProfile))
     = Some \<lparr> item_id = ''sword_2'', quantity = 1 \<rparr>
   \<and> map_of (c_items defaultCatalog) ''sword_2'' = Some ironSword
   \<and> i_type ironSword = Weapon
   \<and> weapon (equipment armedProfile) = Some ''sword_1''
   \<and> held (items (inventory armedProfile)) ''sword_2'' = 1
   \<and> held (items (inventory armedProfile)) ''sword_1'' = 0
   \<and> level armedProfile = 1
   \<and> required_level ironSword = Some 3
   \<and> i_name ironSword = ''Iron Sword''"
  by code_simp

lemma armed_key:
  "armedDb (cleanJid ''ann'') = Some (UserRow (exampleUser\<lparr> adventure := Some armedProfile \<rparr>))"
  by (simp add: armedDb_def cleanJid_def)

text \<open>
  At the example: with the wooden sword equipped and one iron sword in the inventory,
  equipping the iron sword puts the wooden sword into the inventory of the object that is
  stored as the row; the profile read next has no weapon and no items.
\<close>

theorem C7_equip_overwrites_row_witness:
  "armedDb (cleanJid ''ann'') = Some (UserRow (exampleUser\<lparr> adventure := Some armedProfile \<rparr>))
   \<and> find (\<lambda>x. item_id x = ''sword_2'') (items (inventory armedProfile))
       = Some \<lparr> item_id = ''sword_2'', quantity = 1 \<rparr>
   \<and> map_of (c_items defaultCatalog) ''sword_2'' = Some ironSword
   \<and> i_type ironSword = Weapon
   \<and> weapon (equipment armedProfile) = Some ''sword_1''
   \<and> equipItem defaultCatalog armedDb 1000 (\<lambda>_. True) ''ann'' ''sword_2''
       = (armedDb(''ann'' \<mapsto> asRow (equipSwap armedProfile Weapon ''sword_2'')),
          \<lparr> success = True, message = EquippedMsg ''Iron Sword'' \<rparr>)
   \<and> held (items (inventory armedProfile)) ''sword_2'' = 1
   \<and> held (items (inventory (equipSwap armedProfile Weapon ''sword_2''))) ''sword_2'' = 0
   \<and> held (items (inventory armedProfile)) ''sword_1'' = 0
   \<and> held (items (inventory (equipSwap armedProfile Weapon ''sword_2''))) ''sword_1'' = 1
   \<and> weapon (equipment (equipSwap armedProfile Weapon ''sword_2'')) = Some ''sword_2''
   \<and> snd (getUserData (armedDb(''ann'' \<mapsto> asRow (equipSwap armedProfile Weapon ''sword_2'')))
             2000 (\<lambda>_. True) ''ann'')
       = Inr (createDefaultAdventureData None 2000)
   \<and> weapon (equipment (createDefaultAdventureData None 2000)) = None
   \<and> items (inventory (createDefaultAdventureData None 2000)) = []"
proof -
  note t = C7_equip_overwrites_row
             [where d = armedDb and j = "''ann''"
                and r = "UserRow (exampleUser\<lparr> adventure := Some armedProfile \<rparr>)"
                and a = armedProfile and itemId = "''sword_2''"
                and e = "\<lparr> item_id = ''sword_2'', quantity = 1 \<rparr>"
                and c = defaultCatalog and it = ironSword and now = 1000
                and flushOk = "\<lambda>_. True"]
  have k: "cleanJid ''ann'' = ''ann''" by (simp add: cleanJid_def)
  have q: "(1::int) \<le> quantity \<lparr> item_id = ''sword_2'', quantity = 1 \<rparr>" by simp
  have ty: "i_type ironSword \<in> {Weapon, Armor, Accessory}" using armed_facts by simp
  from armed_facts have f: "find (\<lambda>x. item_id x = ''sword_2'') (items (inventory armedProfile))
       = Some \<lparr> item_id = ''sword_2'', quantity = 1 \<rparr>"
    and m: "map_of (c_items defaultCatalog) ''sword_2'' = Some ironSword" by blast+
  have b: "adventureOf (UserRow (exampleUser\<lparr> adventure := Some armedProfile \<rparr>)) = Some armedProfile"
    by simp
  note t' = t[OF armed_key b f q m ty, unfolded Let_def]
  from t' have eq: "equipItem defaultCatalog armedDb 1000 (\<lambda>_. True) ''ann'' ''sword_2''
       = (armedDb(''ann'' \<mapsto> asRow (equipSwap armedProfile Weapon ''sword_2'')),
          \<lparr> success = True, message = EquippedMsg ''Iron Sword'' \<rparr>)"
    using armed_facts by (simp add: k)
  from t' have "\<forall>A. i_type ironSword = Weapon \<and> weapon (equipment armedProfile) = Some A
                    \<and> A \<noteq> [] \<and> A \<noteq> ''sword_2'' \<longrightarrow>
       held (items (inventory (equipSwap armedProfile (i_type ironSword) ''sword_2''))) ''sword_2''
         = held (items (inventory armedProfile)) ''sword_2'' - 1
       \<and> held (items (inventory (equipSwap armedProfile (i_type ironSword) ''sword_2''))) A
         = held (items (inventory armedProfile)) A + 1
       \<and> weapon (equipment (equipSwap armedProfile (i_type ironSword) ''sword_2'')) = Some ''sword_2''"
    by blast
  from this[rule_format, of "''sword_1''"] armed_facts
  have sc: "held (items (inventory (equipSwap armedProfile Weapon ''sword_2''))) ''sword_2'' = 0
       \<and> held (items (inventory (equipSwap armedProfile Weapon ''sword_2''))) ''sword_1'' = 1
       \<and> weapon (equipment (equipSwap armedProfile Weapon ''sword_2'')) = Some ''sword_2''"
    by simp
  from t' have "\<forall>now2. getUserData (armedDb(cleanJid ''ann'' \<mapsto>
                        asRow (equipSwap armedProfile (i_type ironSword) ''sword_2''))) now2
                      (\<lambda>_. True) ''ann'' =
                   ((armedDb(cleanJid ''ann'' \<mapsto>
                        asRow (equipSwap armedProfile (i_type ironSword) ''sword_2'')))
                      (cleanJid ''ann'' \<mapsto>
                         ProfileRow (equipSwap armedProfile (i_type ironSword) ''sword_2'')
                           (Some (createDefaultAdventureData None now2)) None),
                    if True then Inr (createDefaultAdventureData None now2) else Inl IOError)
                 \<and> equipment (createDefaultAdventureData None now2)
                     = \<lparr> weapon = None, armor = None, accessory = None \<rparr>
                 \<and> inventory (createDefaultAdventureData None now2) = \<lparr> gold = 100, items = [] \<rparr>"
    by blast
  from this[rule_format, of 2000] armed_facts
  have rb: "snd (getUserData (armedDb(''ann'' \<mapsto> asRow (equipSwap armedProfile Weapon ''sword_2'')))
             2000 (\<lambda>_. True) ''ann'')
       = Inr (createDefaultAdventureData None 2000)
   \<and> weapon (equipment (createDefaultAdventureData None 2000)) = None
   \<and> items (inventory (createDefaultAdventureData None 2000)) = []"
    by (simp add: k)
  show ?thesis using armed_key armed_facts eq sc rb by blast
qed

subsection \<open>The shop\<close>

lemma buyItem_body_unknown:
  "map_of (c_items c) i = None \<Longrightarrow>
   buyItem_body c d f j i a = (d, Inr \<lparr> success = False, message = ItemNotFoundMsg \<rparr>)"
  by (simp add: buyItem_body_def)

lemma buyItem_body_level:
  "map_of (c_items c) i = Some it \<Longrightarrow> levelTooLow it (level a) \<Longrightarrow>
   buyItem_body c d f j i a =
     (d, Inr \<lparr> success = False, message = LevelTooLowMsg (the (required_level it)) (level a) \<rparr>)"
  by (simp add: buyItem_body_def)

lemma buyItem_body_gold:
  "map_of (c_items c) i = Some it \<Longrightarrow> gold (inventory a) < i_value it \<Longrightarrow>
   \<exists>m. buyItem_body c d f j i a = (d, Inr \<lparr> success = False, message = m \<rparr>)"
  by (simp add: buyItem_body_def)

lemma buyItem_body_ok:
  "map_of (c_items c) i = Some it \<Longrightarrow> \<not> levelTooLow it (level a) \<Longrightarrow>
   i_value it \<le> gold (inventory a) \<Longrightarrow>
   buyItem_body c d f j i a =
     andThen (updateUserData d f j
                (asRow (addItemToInventory
                   (a\<lparr> inventory := (inventory a)\<lparr> gold := gold (inventory a) - i_value it \<rparr> \<rparr>) i)))
       (Inr \<lparr> success = True, message = PurchasedMsg (i_name it) (i_value it) \<rparr>)"
  by (simp add: buyItem_body_def Let_def)

text \<open>
  Claim C8 holds in its failure cases and, on success, of the object that \<^verbatim>\<open>buyItem\<close>
  builds; it fails of what is stored. For a stored profile, \<^verbatim>\<open>buyItem\<close> returns a failure
  and leaves the store as it is when the item id is unknown, when the profile's level (at
  least 1) is below the item's required level, or when the gold is below the item's
  value; a level-3 user buying an item of required level 5 gets the failure and an
  unchanged store. Otherwise the object handed to \<^verbatim>\<open>db.set\<close> has exactly the item's value
  deducted from the gold, exactly one more unit of the item and nothing else changed, and
  the result is the success message (the generic failure when the flush after the write
  fails). But \<^verbatim>\<open>buyItem\<close> calls \<^verbatim>\<open>updateUserData(jid, userData)\<close> with the adventure
  object, which becomes the user's whole row; the next \<^verbatim>\<open>getUserData\<close> finds no
  \<^verbatim>\<open>adventure\<close> property in it and returns a fresh default profile, at level 1 with 100
  gold and no items: the purchase and the rest of the gold are gone.
\<close>

theorem C8_buy_overwrites_row:
  assumes "d (cleanJid j) = Some r" and "adventureOf r = Some a"
  shows "(map_of (c_items c) itemId = None \<longrightarrow>
            buyItem c d now flushOk j itemId = (d, \<lparr> success = False, message = ItemNotFoundMsg \<rparr>))
       \<and> (\<forall>it q. map_of (c_items c) itemId = Some it \<and> required_level it = Some q
                  \<and> level a < q \<and> 1 \<le> level a \<longrightarrow>
            buyItem c d now flushOk j itemId
              = (d, \<lparr> success = False, message = LevelTooLowMsg q (level a) \<rparr>))
       \<and> (\<forall>it. map_of (c_items c) itemId = Some it \<and> gold (inventory a) < i_value it \<longrightarrow>
            fst (buyItem c d now flushOk j itemId) = d
            \<and> \<not> success (snd (buyItem c d now flushOk j itemId)))
       \<and> (\<forall>it. map_of (c_items c) itemId = Some it
                \<and> (\<forall>q. required_level it = Some q \<longrightarrow> q \<le> level a)
                \<and> i_value it \<le> gold (inventory a) \<longrightarrow>
            (let a' = addItemToInventory
                        (a\<lparr> inventory := (inventory a)\<lparr> gold := gold (inventory a) - i_value it \<rparr> \<rparr>)
                        itemId;
                 d' = d(cleanJid j \<mapsto> asRow a')
             in buyItem c d now flushOk j itemId =
                  (d', if flushOk d'
                       then \<lparr> success = True, message = PurchasedMsg (i_name it) (i_value it) \<rparr>
                       else \<lparr> success = False, message = BuyErrorMsg \<rparr>)
                \<and> gold (inventory a') = gold (inventory a) - i_value it
                \<and> (\<forall>k. held (items (inventory a')) k
                          = held (items (inventory a)) k + (if k = itemId then 1 else 0))
                \<and> a'\<lparr> inventory := inventory a \<rparr> = a
                \<and> d' (cleanJid j) = Some (ProfileRow a' None None)
                \<and> (\<forall>now2. getUserData d' now2 flushOk j =
                       (d'(cleanJid j \<mapsto>
                             ProfileRow a' (Some (createDefaultAdventureData None now2)) None),
                        if flushOk (d'(cleanJid j \<mapsto>
                             ProfileRow a' (Some (createDefaultAdventureData None now2)) None))
                        then Inr (createDefaultAdventureData None now2) else Inl IOError)
                     \<and> inventory (createDefaultAdventureData None now2)
                         = \<lparr> gold = 100, items = [] \<rparr>
                     \<and> level (createDefaultAdventureData None now2) = 1)))
       \<and> (\<forall>it. map_of (c_items c) itemId = Some it \<and> required_level it = Some 5 \<and> level a = 3 \<longrightarrow>
            buyItem c d now flushOk j itemId
              = (d, \<lparr> success = False, message = LevelTooLowMsg 5 3 \<rparr>))"
proof -
  have b: "buyItem c d now flushOk j itemId = catching BuyErrorMsg (buyItem_body c d flushOk j itemId a)"
    using buyItem_existing[of d j r a c now flushOk itemId] assms by simp
  have p1: "map_of (c_items c) itemId = None \<longrightarrow>
            buyItem c d now flushOk j itemId = (d, \<lparr> success = False, message = ItemNotFoundMsg \<rparr>)"
    by (simp add: b buyItem_body_unknown catching_def)
  have p2: "\<forall>it q. map_of (c_items c) itemId = Some it \<and> required_level it = Some q
                  \<and> level a < q \<and> 1 \<le> level a \<longrightarrow>
            buyItem c d now flushOk j itemId
              = (d, \<lparr> success = False, message = LevelTooLowMsg q (level a) \<rparr>)"
  proof (intro allI impI)
    fix it q
    assume h: "map_of (c_items c) itemId = Some it \<and> required_level it = Some q
                  \<and> level a < q \<and> 1 \<le> level a"
    then have "levelTooLow it (level a)" by (auto simp: levelTooLow_def)
    with h show "buyItem c d now flushOk j itemId
              = (d, \<lparr> success = False, message = LevelTooLowMsg q (level a) \<rparr>)"
      by (simp add: b buyItem_body_level catching_def)
  qed
  have p3: "\<forall>it. map_of (c_items c) itemId = Some it \<and> gold (inventory a) < i_value it \<longrightarrow>
            fst (buyItem c d now flushOk j itemId) = d
            \<and> \<not> success (snd (buyItem c d now flushOk j itemId))"
  proof (intro allI impI)
    fix it
    assume h: "map_of (c_items c) itemId = Some it \<and> gold (inventory a) < i_value it"
    then obtain m where "buyItem_body c d flushOk j itemId a
                           = (d, Inr \<lparr> success = False, message = m \<rparr>)"
      using buyItem_body_gold[of c itemId it a d flushOk j] by blast
    then show "fst (buyItem c d now flushOk j itemId) = d
            \<and> \<not> success (snd (buyItem c d now flushOk j itemId))"
      by (simp add: b catching_def)
  qed
  have p4: "\<forall>it. map_of (c_items c) itemId = Some it
                \<and> (\<forall>q. required_level it = Some q \<longrightarrow> q \<le> level a)
                \<and> i_value it \<le> gold (inventory a) \<longrightarrow>
            (let a' = addItemToInventory
                        (a\<lparr> inventory := (inventory a)\<lparr> gold := gold (inventory a) - i_value it \<rparr> \<rparr>)
                        itemId;
                 d' = d(cleanJid j \<mapsto> asRow a')
             in buyItem c d now flushOk j itemId =
                  (d', if flushOk d'
                       then \<lparr> success = True, message = PurchasedMsg (i_name it) (i_value it) \<rparr>
                       else \<lparr> success = False, message = BuyErrorMsg \<rparr>)
                \<and> gold (inventory a') = gold (inventory a) - i_value it
                \<and> (\<forall>k. held (items (inventory a')) k
                          = held (items (inventory a)) k + (if k = itemId then 1 else 0))
                \<and> a'\<lparr> inventory := inventory a \<rparr> = a
                \<and> d' (cleanJid j) = Some (ProfileRow a' None None)
                \<and> (\<forall>now2. getUserData d' now2 flushOk j =
                       (d'(cleanJid j \<mapsto>
                             ProfileRow a' (Some (createDefaultAdventureData None now2)) None),
                        if flushOk (d'(cleanJid j \<mapsto>
                             ProfileRow a' (Some (createDefaultAdventureData None now2)) None))
                        then Inr (createDefaultAdventureData None now2) else Inl IOError)
                     \<and> inventory (createDefaultAdventureData None now2)
                         = \<lparr> gold = 100, items = [] \<rparr>
                     \<and> level (createDefaultAdventureData None now2) = 1))"
  proof (intro allI impI)
    fix it
    assume h: "map_of (c_items c) itemId = Some it
                \<and> (\<forall>q. required_level it = Some q \<longrightarrow> q \<le> level a)
                \<and> i_value it \<le> gold (inventory a)"
    then have n: "\<not> levelTooLow it (level a)" by (auto simp: levelTooLow_def split: option.splits)
    from h n have e: "buyItem_body c d flushOk j itemId a =
       andThen (updateUserData d flushOk j
                (asRow (addItemToInventory
                   (a\<lparr> inventory := (inventory a)\<lparr> gold := gold (inventory a) - i_value it \<rparr> \<rparr>) itemId)))
         (Inr \<lparr> success = True, message = PurchasedMsg (i_name it) (i_value it) \<rparr>)"
      by (intro buyItem_body_ok) simp_all
    show "(let a' = addItemToInventory
                        (a\<lparr> inventory := (inventory a)\<lparr> gold := gold (inventory a) - i_value it \<rparr> \<rparr>)
                        itemId;
                 d' = d(cleanJid j \<mapsto> asRow a')
             in buyItem c d now flushOk j itemId =
                  (d', if flushOk d'
                       then \<lparr> success = True, message = PurchasedMsg (i_name it) (i_value it) \<rparr>
                       else \<lparr> success = False, message = BuyErrorMsg \<rparr>)
                \<and> gold (inventory a') = gold (inventory a) - i_value it
                \<and> (\<forall>k. held (items (inventory a')) k
                          = held (items (inventory a)) k + (if k = itemId then 1 else 0))
                \<and> a'\<lparr> inventory := inventory a \<rparr> = a
                \<and> d' (cleanJid j) = Some (ProfileRow a' None None)
                \<and> (\<forall>now2. getUserData d' now2 flushOk j =
                       (d'(cleanJid j \<mapsto>
                             ProfileRow a' (Some (createDefaultAdventureData None now2)) None),
                        if flushOk (d'(cleanJid j \<mapsto>
                             ProfileRow a' (Some (createDefaultAdventureData None now2)) None))
                        then Inr (createDefaultAdventureData None now2) else Inl IOError)
                     \<and> inventory (createDefaultAdventureData None now2)
                         = \<lparr> gold = 100, items = [] \<rparr>
                     \<and> level (createDefaultAdventureData None now2) = 1))"
      using readBack_bare[of d j "addItemToInventory
                        (a\<lparr> inventory := (inventory a)\<lparr> gold := gold (inventory a) - i_value it \<rparr> \<rparr>)
                        itemId" _ flushOk]
            default_profile_empty[of None]
      by (simp add: Let_def b e andThen_def catching_def updateUserData_eq
            addItemToInventory_def held_addToItems asRow_def)
  qed
  have p5: "\<forall>it. map_of (c_items c) itemId = Some it \<and> required_level it = Some 5 \<and> level a = 3 \<longrightarrow>
            buyItem c d now flushOk j itemId
              = (d, \<lparr> success = False, message = LevelTooLowMsg 5 3 \<rparr>)"
    using p2 by auto
  show ?thesis using p1 p2 p3 p4 p5 by blast
qed

lemma shopper_facts:
  "map_of (c_items defaultCatalog) ''armor_2'' = Some chainMail
   \<and> required_level chainMail = Some 5
   \<and> level shopperProfile = 3
   \<and> map_of (c_items defaultCatalog) ''sword_2'' = Some ironSword
   \<and> required_level ironSword = Some 3
   \<and> i_value ironSword = 200
   \<and> i_name ironSword = ''Iron Sword''
   \<and> gold (inventory shopperProfile) = 1000
   \<and> held (items (inventory shopperProfile)) ''sword_2'' = 0
   \<and> map_of (c_items defaultCatalog) ''nope'' = None"
  by code_simp

lemma shopper_key:
  "shopperDb (cleanJid ''ann'') = Some (UserRow (exampleUser\<lparr> adventure := Some shopperProfile \<rparr>))"
  by (simp add: shopperDb_def cleanJid_def)

text \<open>
  At the example: the level-3 user with 1000 gold is refused the chain mail (required
  level 5) and an unknown id, and buys the iron sword for 200; the profile read next has
  100 gold, no items and level 1.
\<close>

theorem C8_buy_overwrites_row_witness:
  "shopperDb (cleanJid ''ann'') = Some (UserRow (exampleUser\<lparr> adventure := Some shopperProfile \<rparr>))
   \<and> map_of (c_items defaultCatalog) ''armor_2'' = Some chainMail
   \<and> required_level chainMail = Some 5
   \<and> level shopperProfile = 3
   \<and> buyItem defaultCatalog shopperDb 1000 (\<lambda>_. True) ''ann'' ''armor_2''
       = (shopperDb, \<lparr> success = False, message = LevelTooLowMsg 5 3 \<rparr>)
   \<and> map_of (c_items defaultCatalog) ''nope'' = None
   \<and> buyItem defaultCatalog shopperDb 1000 (\<lambda>_. True) ''ann'' ''nope''
       = (shopperDb, \<lparr> success = False, message = ItemNotFoundMsg \<rparr>)
   \<and> map_of (c_items defaultCatalog) ''sword_2'' = Some ironSword
   \<and> snd (buyItem defaultCatalog shopperDb 1000 (\<lambda>_. True) ''ann'' ''sword_2'')
       = \<lparr> success = True, message = PurchasedMsg ''Iron Sword'' 200 \<rparr>
   \<and> gold (inventory (addItemToInventory
              (shopperProfile\<lparr> inventory := (inventory shopperProfile)\<lparr> gold := 800 \<rparr> \<rparr>) ''sword_2''))
       = 800
   \<and> held (items (inventory (addItemToInventory
              (shopperProfile\<lparr> inventory := (inventory shopperProfile)\<lparr> gold := 800 \<rparr> \<rparr>) ''sword_2'')))
          ''sword_2'' = 1
   \<and> snd (getUserData
             (shopperDb(''ann'' \<mapsto> asRow (addItemToInventory
                (shopperProfile\<lparr> inventory := (inventory shopperProfile)\<lparr> gold := 800 \<rparr> \<rparr>)
                ''sword_2'')))
             2000 (\<lambda>_. True) ''ann'')
       = Inr (createDefaultAdventureData None 2000)
   \<and> inventory (createDefaultAdventureData None 2000) = \<lparr> gold = 100, items = [] \<rparr>
   \<and> level (createDefaultAdventureData None 2000) = 1"
proof -
  have b: "adventureOf (UserRow (exampleUser\<lparr> adventure := Some shopperProfile \<rparr>)) = Some shopperProfile"
    by simp
  have k: "cleanJid ''ann'' = ''ann''" by (simp add: cleanJid_def)
  note t1 = C8_buy_overwrites_row
             [where d = shopperDb and j = "''ann''"
                and r = "UserRow (exampleUser\<lparr> adventure := Some shopperProfile \<rparr>)"
                and a = shopperProfile and c = defaultCatalog and now = 1000
                and flushOk = "\<lambda>_. True" and itemId = "''armor_2''", OF shopper_key b]
  note t2 = C8_buy_overwrites_row
             [where d = shopperDb and j = "''ann''"
                and r = "UserRow (exampleUser\<lparr> adventure := Some shopperProfile \<rparr>)"
                and a = shopperProfile and c = defaultCatalog and now = 1000
                and flushOk = "\<lambda>_. True" and itemId = "''nope''", OF shopper_key b]
  note t3 = C8_buy_overwrites_row
             [where d = shopperDb and j = "''ann''"
                and r = "UserRow (exampleUser\<lparr> adventure := Some shopperProfile \<rparr>)"
                and a = shopperProfile and c = defaultCatalog and now = 1000
                and flushOk = "\<lambda>_. True" and itemId = "''sword_2''", OF shopper_key b]
  have e1: "buyItem defaultCatalog shopperDb 1000 (\<lambda>_. True) ''ann'' ''armor_2''
       = (shopperDb, \<lparr> success = False, message = LevelTooLowMsg 5 3 \<rparr>)"
    using t1[THEN conjunct2, THEN conjunct1, rule_format, of chainMail 5] shopper_facts by simp
  have e2: "buyItem defaultCatalog shopperDb 1000 (\<lambda>_. True) ''ann'' ''nope''
       = (shopperDb, \<lparr> success = False, message = ItemNotFoundMsg \<rparr>)"
    using t2[THEN conjunct1] shopper_facts by simp
  have pre: "map_of (c_items defaultCatalog) ''sword_2'' = Some ironSword
                \<and> (\<forall>q. required_level ironSword = Some q \<longrightarrow> q \<le> level shopperProfile)
                \<and> i_value ironSword \<le> gold (inventory shopperProfile)"
    using shopper_facts by simp
  have e3: "snd (buyItem defaultCatalog shopperDb 1000 (\<lambda>_. True) ''ann'' ''sword_2'')
       = \<lparr> success = True, message = PurchasedMsg ''Iron Sword'' 200 \<rparr>
   \<and> gold (inventory (addItemToInventory
              (shopperProfile\<lparr> inventory := (inventory shopperProfile)\<lparr> gold := 800 \<rparr> \<rparr>) ''sword_2''))
       = 800
   \<and> held (items (inventory (addItemToInventory
              (shopperProfile\<lparr> inventory := (inventory shopperProfile)\<lparr> gold := 800 \<rparr> \<rparr>) ''sword_2'')))
          ''sword_2'' = 1"
    using t3[THEN conjunct2, THEN conjunct2, THEN conjunct2, THEN conjunct1, rule_format, OF pre]
          shopper_facts
    by (simp add: Let_def)
  have e4: "snd (getUserData
             (shopperDb(''ann'' \<mapsto> asRow (addItemToInventory
                (shopperProfile\<lparr> inventory := (inventory shopperProfile)\<lparr> gold := 800 \<rparr> \<rparr>)
                ''sword_2'')))
             2000 (\<lambda>_. True) ''ann'')
       = Inr (createDefaultAdventureData None 2000)
   \<and> inventory (createDefaultAdventureData None 2000) = \<lparr> gold = 100, items = [] \<rparr>
   \<and> level (createDefaultAdventureData None 2000) = 1"
    using t3[THEN conjunct2, THEN conjunct2, THEN conjunct2, THEN conjunct1, rule_format, OF pre,
             unfolded Let_def, THEN conjunct2, THEN conjunct2, THEN conjunct2, THEN conjunct2,
             THEN conjunct2, rule_format, of 2000]
          shopper_facts
    by (simp add: k)
  show ?thesis using shopper_key shopper_facts e1 e2 e3 e4 by blast
qed

subsection \<open>Level gates\<close>

lemma travel_existing:
  assumes "d (cleanJid j) = Some r" "adventureOf r = Some a"
  shows "travel c d now f j l = catching TravelErrorMsg (travel_body c d f j l a)"
  using withUserData_existing[of d j r a now f] assms by (simp add: travel_def travel_try_def)

text \<open>
  Claim C10. \<^verbatim>\<open>equipItem\<close> has no level check: a stored profile whose level is strictly
  below the required level of an equipable item it holds still equips the item, with the
  success result, while \<^verbatim>\<open>buyItem\<close> refuses the same item to the same profile for its
  level, and \<^verbatim>\<open>travel\<close> refuses a location whose minimum level is above the profile's.
\<close>

theorem C10_equip_no_level_check:
  assumes "d (cleanJid j) = Some r" and "adventureOf r = Some a"
    and "find (\<lambda>x. item_id x = itemId) (items (inventory a)) = Some e" and "1 \<le> quantity e"
    and "map_of (c_items c) itemId = Some it" and "i_type it \<in> {Weapon, Armor, Accessory}"
    and "required_level it = Some q" and "level a < q" and "1 \<le> level a"
  shows "(let a' = equipSwap a (i_type it) itemId;
              d' = d(cleanJid j \<mapsto> asRow a')
          in equipItem c d now flushOk j itemId =
               (d', if flushOk d' then \<lparr> success = True, message = EquippedMsg (i_name it) \<rparr>
                    else \<lparr> success = False, message = EquipErrorMsg \<rparr>)
             \<and> slotOf (equipment a') (i_type it) = Some itemId)
         \<and> buyItem c d now flushOk j itemId
             = (d, \<lparr> success = False, message = LevelTooLowMsg q (level a) \<rparr>)
         \<and> (\<forall>l loc. map_of (c_locations c) l = Some loc \<and> level a < l_minLevel loc \<longrightarrow>
               travel c d now flushOk j l
                 = (d, \<lparr> success = False,
                         message = TravelLevelMsg (l_minLevel loc) (l_name loc) (level a) \<rparr>))"
proof -
  have e1: "equipItem c d now flushOk j itemId =
           (d(cleanJid j \<mapsto> asRow (equipSwap a (i_type it) itemId)),
            if flushOk (d(cleanJid j \<mapsto> asRow (equipSwap a (i_type it) itemId)))
            then \<lparr> success = True, message = EquippedMsg (i_name it) \<rparr>
            else \<lparr> success = False, message = EquipErrorMsg \<rparr>)"
    using equipItem_equipable[of d j r a itemId e c it now flushOk] assms by blast
  have e2: "slotOf (equipment (equipSwap a (i_type it) itemId)) (i_type it) = Some itemId"
    using assms(6) by (simp add: equipSwap_equipment slotOf_setSlot)
  have low: "levelTooLow it (level a)" using assms(7-9) by (auto simp: levelTooLow_def)
  have e3: "buyItem c d now flushOk j itemId
             = (d, \<lparr> success = False, message = LevelTooLowMsg q (level a) \<rparr>)"
    using buyItem_existing[of d j r a c now flushOk itemId] assms(1,2,5,7) low
    by (simp add: buyItem_body_level catching_def)
  have e4: "\<forall>l loc. map_of (c_locations c) l = Some loc \<and> level a < l_minLevel loc \<longrightarrow>
               travel c d now flushOk j l
                 = (d, \<lparr> success = False,
                         message = TravelLevelMsg (l_minLevel loc) (l_name loc) (level a) \<rparr>)"
  proof (intro allI impI)
    fix l loc
    assume h: "map_of (c_locations c) l = Some loc \<and> level a < l_minLevel loc"
    then have "l_minLevel loc \<noteq> 0" using assms(9) by auto
    with h show "travel c d now flushOk j l
                 = (d, \<lparr> success = False,
                         message = TravelLevelMsg (l_minLevel loc) (l_name loc) (level a) \<rparr>)"
      using travel_existing[of d j r a c now flushOk l] assms(1,2)
      by (simp add: travel_body_def catching_def)
  qed
  show ?thesis unfolding Let_def using e1 e2 e3 e4 by blast
qed

lemma cave_fact: "map_of (c_locations defaultCatalog) ''cave'' = Some cave"
  by code_simp

text \<open>
  At the example: the level-1 user equips the iron sword (required level 3) from the
  inventory, cannot buy it, and cannot travel to the cave (minimum level 5).
\<close>

theorem C10_equip_no_level_check_witness:
  "armedDb (cleanJid ''ann'') = Some (UserRow (exampleUser\<lparr> adventure := Some armedProfile \<rparr>))
   \<and> find (\<lambda>x. item_id x = ''sword_2'') (items (inventory armedProfile))
       = Some \<lparr> item_id = ''sword_2'', quantity = 1 \<rparr>
   \<and> map_of (c_items defaultCatalog) ''sword_2'' = Some ironSword
   \<and> i_type ironSword = Weapon
   \<and> required_level ironSword = Some 3
   \<and> level armedProfile = 1
   \<and> equipItem defaultCatalog armedDb 1000 (\<lambda>_. True) ''ann'' ''sword_2''
       = (armedDb(''ann'' \<mapsto> asRow (equipSwap armedProfile Weapon ''sword_2'')),
          \<lparr> success = True, message = EquippedMsg ''Iron Sword'' \<rparr>)
   \<and> slotOf (equipment (equipSwap armedProfile Weapon ''sword_2'')) Weapon = Some ''sword_2''
   \<and> buyItem defaultCatalog armedDb 1000 (\<lambda>_. True) ''ann'' ''sword_2''
       = (armedDb, \<lparr> success = False, message = LevelTooLowMsg 3 1 \<rparr>)
   \<and> map_of (c_locations defaultCatalog) ''cave'' = Some cave
   \<and> travel defaultCatalog armedDb 1000 (\<lambda>_. True) ''ann'' ''cave''
       = (armedDb, \<lparr> success = False, message = TravelLevelMsg 5 ''Cave'' 1 \<rparr>)"
proof -
  have k: "cleanJid ''ann'' = ''ann''" by (simp add: cleanJid_def)
  have q: "(1::int) \<le> quantity \<lparr> item_id = ''sword_2'', quantity = 1 \<rparr>" by simp
  have ty: "i_type ironSword \<in> {Weapon, Armor, Accessory}" using armed_facts by simp
  from armed_facts have f: "find (\<lambda>x. item_id x = ''sword_2'') (items (inventory armedProfile))
       = Some \<lparr> item_id = ''sword_2'', quantity = 1 \<rparr>"
    and m: "map_of (c_items defaultCatalog) ''sword_2'' = Some ironSword"
    and rl: "required_level ironSword = Some 3" by blast+
  have lv: "level armedProfile < 3" "1 \<le> level armedProfile" using armed_facts by simp_all
  have b: "adventureOf (UserRow (exampleUser\<lparr> adventure := Some armedProfile \<rparr>)) = Some armedProfile"
    by simp
  note t = C10_equip_no_level_check
             [where d = armedDb and j = "''ann''"
                and r = "UserRow (exampleUser\<lparr> adventure := Some armedProfile \<rparr>)"
                and a = armedProfile and itemId = "''sword_2''"
                and e = "\<lparr> item_id = ''sword_2'', quantity = 1 \<rparr>"
                and c = defaultCatalog and it = ironSword and q = 3 and now = 1000
                and flushOk = "\<lambda>_. True", OF armed_key b f q m ty rl lv, unfolded Let_def]
  have e1: "equipItem defaultCatalog armedDb 1000 (\<lambda>_. True) ''ann'' ''sword_2''
       = (armedDb(''ann'' \<mapsto> asRow (equipSwap armedProfile Weapon ''sword_2'')),
          \<lparr> success = True, message = EquippedMsg ''Iron Sword'' \<rparr>)
     \<and> slotOf (equipment (equipSwap armedProfile Weapon ''sword_2'')) Weapon = Some ''sword_2''"
    using t[THEN conjunct1] armed_facts by (simp add: k)
  have e2: "buyItem defaultCatalog armedDb 1000 (\<lambda>_. True) ''ann'' ''sword_2''
       = (armedDb, \<lparr> success = False, message = LevelTooLowMsg 3 1 \<rparr>)"
    using t[THEN conjunct2, THEN conjunct1] armed_facts by simp
  have e3: "travel defaultCatalog armedDb 1000 (\<lambda>_. True) ''ann'' ''cave''
       = (armedDb, \<lparr> success = False, message = TravelLevelMsg 5 ''Cave'' 1 \<rparr>)"
    using t[THEN conjunct2, THEN conjunct2, rule_format, of "''cave''" cave] cave_fact armed_facts
    by (simp add: cave_def)
  show ?thesis using armed_key armed_facts cave_fact e1 e2 e3 by blast
qed

subsection \<open>Victory rewards\<close>

text \<open>
  Two hunts of the example user in the forest that end in a victory over the slime, and
  the outcome of \<^verbatim>\<open>_handleCombatVictory\<close> and of \<^verbatim>\<open>hunt\<close> on each.
\<close>

lemma victory_faults:
  "userWins eagerProfile slime
   \<and> handleCombatVictory defaultCatalog exampleRolls eagerProfile slime = Inl ReferenceError
   \<and> userWins exampleProfile slime
   \<and> handleCombatVictory defaultCatalog (exampleRolls\<lparr> dropRoll := 1 / 10 \<rparr>) exampleProfile slime
       = Inl ReferenceError
   \<and> handleCombatVictory defaultCatalog exampleRolls exampleProfile slime
       = Inr (exampleProfile\<lparr> xp := 10, monstersDefeated := 1,
                               inventory := \<lparr> gold = 110, items = [] \<rparr> \<rparr>,
              \<lparr> success = True, message = VictoryMsg ''Slime'' 10 10 None \<rparr>)"
  by code_simp

lemma hunt_faults:
  "snd (hunt_try defaultCatalog eagerDb 1000 exampleRolls (\<lambda>_. True) ''ann@s.whatsapp.net'')
     = Inl ReferenceError
   \<and> snd (hunt defaultCatalog eagerDb 1000 exampleRolls (\<lambda>_. True) ''ann@s.whatsapp.net'')
     = \<lparr> success = False, message = HuntErrorMsg \<rparr>
   \<and> snd (hunt defaultCatalog exampleDb 1000 (exampleRolls\<lparr> dropRoll := 1 / 10 \<rparr>) (\<lambda>_. True)
            ''ann@s.whatsapp.net'')
     = \<lparr> success = False, message = HuntErrorMsg \<rparr>
   \<and> snd (hunt defaultCatalog exampleDb 1000 exampleRolls (\<lambda>_. True) ''ann@s.whatsapp.net'')
     = \<lparr> success = True, message = VictoryMsg ''Slime'' 10 10 None \<rparr>"
  by code_simp

text \<open>
  Claim C4. A victory awards the gold and the XP and counts the monster, but it does not
  complete in every case. \<^verbatim>\<open>_handleCombatVictory\<close> names its parameter
  \<^verbatim>\<open>adventureData\<close> and reads the unbound \<^verbatim>\<open>userData\<close> when it adds a dropped item
  and when it builds the level-up text. So a victory that raises the level (the example
  user at 95 of 100 XP, slime worth 10 XP) and a victory with a drop found in the item
  catalog (drop roll 0.1 under the slime's chance 0.3) both end in a
  \<^verbatim>\<open>ReferenceError\<close>, and \<^verbatim>\<open>hunt\<close> returns its generic failure; the dropped item is
  never added. Only a victory with neither (the last conjunct) returns the success result.
\<close>

theorem C4_victory_reference_error:
  "userWins eagerProfile slime
   \<and> handleCombatVictory defaultCatalog exampleRolls eagerProfile slime = Inl ReferenceError
   \<and> snd (hunt defaultCatalog eagerDb 1000 exampleRolls (\<lambda>_. True) ''ann@s.whatsapp.net'')
     = \<lparr> success = False, message = HuntErrorMsg \<rparr>
   \<and> userWins exampleProfile slime
   \<and> handleCombatVictory defaultCatalog (exampleRolls\<lparr> dropRoll := 1 / 10 \<rparr>) exampleProfile slime
       = Inl ReferenceError
   \<and> snd (hunt defaultCatalog exampleDb 1000 (exampleRolls\<lparr> dropRoll := 1 / 10 \<rparr>) (\<lambda>_. True)
            ''ann@s.whatsapp.net'')
     = \<lparr> success = False, message = HuntErrorMsg \<rparr>
   \<and> handleCombatVictory defaultCatalog exampleRolls exampleProfile slime
       = Inr (exampleProfile\<lparr> xp := 10, monstersDefeated := 1,
                               inventory := \<lparr> gold = 110, items = [] \<rparr> \<rparr>,
              \<lparr> success = True, message = VictoryMsg ''Slime'' 10 10 None \<rparr>)"
  using victory_faults hunt_faults by simp

subsection \<open>Faults\<close>

lemma reportsFaults_catching: "reportsFaults g t (catching g t)"
  by (cases t) (auto simp: reportsFaults_def catching_def split: sum.splits)

lemma opEffect_hunt: "opEffect {HuntErrorMsg} d j f (hunt c d now rs f j)"
  unfolding hunt_def hunt_try_def
  by (rule opEffect_catching, rule tryEffect_withUserData, rule tryEffect_hunt_body)

lemma opEffect_train: "opEffect {TrainErrorMsg} d j f (train d now rs f j)"
  unfolding train_def train_try_def
  by (rule opEffect_catching, rule tryEffect_withUserData, rule tryEffect_train_body)

lemma opEffect_claimDaily: "opEffect {DailyErrorMsg} d j f (claimDaily d now f j)"
  unfolding claimDaily_def claimDaily_try_def
  by (rule opEffect_catching, rule tryEffect_withUserData, rule tryEffect_claimDaily_body)

lemma opEffect_buyItem: "opEffect {BuyErrorMsg} d j f (buyItem c d now f j i)"
  unfolding buyItem_def buyItem_try_def
  by (rule opEffect_catching, rule tryEffect_withUserData, rule tryEffect_buyItem_body)

lemma opEffect_equipItem:
  "opEffect {EquipErrorMsg, UseErrorMsg} d j f (equipItem c d now f j i)"
  unfolding equipItem_def equipItem_try_def
  by (rule opEffect_catching, rule tryEffect_withUserData, rule tryEffect_equipItem_body)

lemma opEffect_travel: "opEffect {TravelErrorMsg} d j f (travel c d now f j l)"
  unfolding travel_def travel_try_def
  by (rule opEffect_catching, rule tryEffect_withUserData, rule tryEffect_travel_body)

text \<open>
  A purchase whose \<^verbatim>\<open>save()\<close> fails: \<^verbatim>\<open>updateUserData\<close> has already done its
  \<^verbatim>\<open>db.set\<close>.
\<close>

lemma buy_flush_failure:
  "snd (buyItem defaultCatalog shopperDb 1000 (\<lambda>_. False) ''ann'' ''sword_2'')
     = \<lparr> success = False, message = BuyErrorMsg \<rparr>
   \<and> fst (buyItem defaultCatalog shopperDb 1000 (\<lambda>_. False) ''ann'' ''sword_2'') ''ann''
     = Some (asRow (shopperProfile\<lparr> inventory :=
                       \<lparr> gold = 800, items = [\<lparr> item_id = ''sword_2'', quantity = 1 \<rparr>] \<rparr> \<rparr>))
   \<and> shopperDb ''ann'' = Some (UserRow (exampleUser\<lparr> adventure := Some shopperProfile \<rparr>))"
  by code_simp

text \<open>
  Claim C9, as stated, fails in its second half: a fault in the middle of an operation
  does not always leave the user's stored state as it was. The level-3 shopper with 1000
  gold buys the iron sword while \<^verbatim>\<open>save()\<close> fails: the result is the generic failure,
  yet the row under the user's key now holds 800 gold and the sword.
\<close>

theorem C9_flush_failure_counterexample:
  "snd (buyItem defaultCatalog shopperDb 1000 (\<lambda>_. False) ''ann'' ''sword_2'')
     = \<lparr> success = False, message = BuyErrorMsg \<rparr>
   \<and> shopperDb ''ann'' = Some (UserRow (exampleUser\<lparr> adventure := Some shopperProfile \<rparr>))
   \<and> fst (buyItem defaultCatalog shopperDb 1000 (\<lambda>_. False) ''ann'' ''sword_2'') ''ann''
     = Some (asRow (shopperProfile\<lparr> inventory :=
                       \<lparr> gold = 800, items = [\<lparr> item_id = ''sword_2'', quantity = 1 \<rparr>] \<rparr> \<rparr>))
   \<and> fst (buyItem defaultCatalog shopperDb 1000 (\<lambda>_. False) ''ann'' ''sword_2'') \<noteq> shopperDb"
proof -
  have "fst (buyItem defaultCatalog shopperDb 1000 (\<lambda>_. False) ''ann'' ''sword_2'') ''ann''
          \<noteq> shopperDb ''ann''"
    using buy_flush_failure by (simp add: asRow_def)
  then have "fst (buyItem defaultCatalog shopperDb 1000 (\<lambda>_. False) ''ann'' ''sword_2'') \<noteq> shopperDb"
    by metis
  with buy_flush_failure show ?thesis by simp
qed

text \<open>
  Claim C9, amended. Each of \<^verbatim>\<open>hunt\<close>, \<^verbatim>\<open>train\<close>, \<^verbatim>\<open>claimDaily\<close>, \<^verbatim>\<open>buyItem\<close>,
  \<^verbatim>\<open>equipItem\<close> and \<^verbatim>\<open>travel\<close> returns a result with a success flag and a message and
  raises nothing: an exception of its \<^verbatim>\<open>try\<close> block becomes the operation's generic
  failure. An operation changes no row but the one under the caller's key. There is no
  rollback: when the store was changed and its \<^verbatim>\<open>save()\<close> fails, the changed row stays
  and the operation reports the generic failure (for \<^verbatim>\<open>equipItem\<close> possibly that of
  \<^verbatim>\<open>_useConsumable\<close>). Nothing is said about the state after a fault that comes before
  the write: the source changes the object it got from the store in place.
\<close>

theorem C9_fault_handling:
  "reportsFaults HuntErrorMsg (hunt_try c d now rs flushOk j) (hunt c d now rs flushOk j)
   \<and> reportsFaults TrainErrorMsg (train_try d now rs flushOk j) (train d now rs flushOk j)
   \<and> reportsFaults DailyErrorMsg (claimDaily_try d now flushOk j) (claimDaily d now flushOk j)
   \<and> reportsFaults BuyErrorMsg (buyItem_try c d now flushOk j i) (buyItem c d now flushOk j i)
   \<and> reportsFaults EquipErrorMsg (equipItem_try c d now flushOk j i)
        (equipItem c d now flushOk j i)
   \<and> reportsFaults TravelErrorMsg (travel_try c d now flushOk j l) (travel c d now flushOk j l)
   \<and> opEffect {HuntErrorMsg} d j flushOk (hunt c d now rs flushOk j)
   \<and> opEffect {TrainErrorMsg} d j flushOk (train d now rs flushOk j)
   \<and> opEffect {DailyErrorMsg} d j flushOk (claimDaily d now flushOk j)
   \<and> opEffect {BuyErrorMsg} d j flushOk (buyItem c d now flushOk j i)
   \<and> opEffect {EquipErrorMsg, UseErrorMsg} d j flushOk (equipItem c d now flushOk j i)
   \<and> opEffect {TravelErrorMsg} d j flushOk (travel c d now flushOk j l)"
  using opEffect_hunt[of d j flushOk c now rs] opEffect_train[of d j flushOk now rs]
    opEffect_claimDaily[of d j flushOk now] opEffect_buyItem[of d j flushOk c now i]
    opEffect_equipItem[of d j flushOk c now i] opEffect_travel[of d j flushOk c now l]
  by (simp add: reportsFaults_catching hunt_def train_def claimDaily_def buyItem_def
      equipItem_def travel_def)

text \<open>
  At the examples: the failed purchase changes the shopper's row and no other, with the
  generic failure; the hunt that raises on the level-up returns the generic failure.
\<close>

theorem C9_fault_handling_witness:
  "fst (buyItem defaultCatalog shopperDb 1000 (\<lambda>_. False) ''ann'' ''sword_2'') ''ann''
     \<noteq> shopperDb ''ann''
   \<and> fst (buyItem defaultCatalog shopperDb 1000 (\<lambda>_. False) ''ann'' ''sword_2'') ''bob''
     = shopperDb ''bob''
   \<and> snd (buyItem defaultCatalog shopperDb 1000 (\<lambda>_. False) ''ann'' ''sword_2'')
     = \<lparr> success = False, message = BuyErrorMsg \<rparr>
   \<and> snd (hunt_try defaultCatalog eagerDb 1000 exampleRolls (\<lambda>_. True) ''ann@s.whatsapp.net'')
     = Inl ReferenceError
   \<and> snd (hunt defaultCatalog eagerDb 1000 exampleRolls (\<lambda>_. True) ''ann@s.whatsapp.net'')
     = \<lparr> success = False, message = HuntErrorMsg \<rparr>"
proof -
  let ?b = "buyItem defaultCatalog shopperDb 1000 (\<lambda>_. False) ''ann'' ''sword_2''"
  let ?h = "hunt defaultCatalog eagerDb 1000 exampleRolls (\<lambda>_. True) ''ann@s.whatsapp.net''"
  note t = C9_fault_handling[where c = defaultCatalog and d = shopperDb and now = 1000
             and flushOk = "\<lambda>_. False" and j = "''ann''" and i = "''sword_2''"]
  note h = C9_fault_handling[where c = defaultCatalog and d = eagerDb and now = 1000
             and rs = exampleRolls and flushOk = "\<lambda>_. True" and j = "''ann@s.whatsapp.net''"]
  have k: "cleanJid ''ann'' = ''ann''" by (simp add: cleanJid_def)
  have ne: "fst ?b ''ann'' \<noteq> shopperDb ''ann''"
    using buy_flush_failure by (simp add: asRow_def)
  then have ne': "fst ?b \<noteq> shopperDb" by metis
  have o: "opEffect {BuyErrorMsg} shopperDb ''ann'' (\<lambda>_. False) ?b"
    using t by blast
  from o have other: "fst ?b ''bob'' = shopperDb ''bob''"
    by (simp add: opEffect_def k)
  from o ne' have r: "\<not> success (snd ?b) \<and> message (snd ?b) = BuyErrorMsg"
    by (simp add: opEffect_def)
  then have r': "snd ?b = \<lparr> success = False, message = BuyErrorMsg \<rparr>"
    by (cases "snd ?b") simp
  have raised: "snd (hunt_try defaultCatalog eagerDb 1000 exampleRolls (\<lambda>_. True)
                  ''ann@s.whatsapp.net'') = Inl ReferenceError"
    using hunt_faults by blast
  have rf: "reportsFaults HuntErrorMsg
              (hunt_try defaultCatalog eagerDb 1000 exampleRolls (\<lambda>_. True) ''ann@s.whatsapp.net'') ?h"
    using h by blast
  with raised have "snd ?h = \<lparr> success = False, message = HuntErrorMsg \<rparr>"
    by (simp add: reportsFaults_def)
  with ne other r' raised show ?thesis by blast
qed

end
